theory Spec2Isabelle
  imports Complex_Main
begin

section \<open>Numbers, exceptions and tensors\<close>

text \<open>
  A Python float is modelled as an exact real number or NaN: rounding, overflow and the
  infinities are left out, NaN is kept because comparisons with it are false.
  A tensor holds exact reals; a 2-D tensor is a list of rows, a 3-D tensor a list of
  such matrices (batch, position, feature).
\<close>

datatype pyfloat = Fin real | NaN

datatype exn =
  ValueError | ZeroDivisionError | TypeError | RuntimeError | IndexError | NameError | AttributeError

type_synonym tensor1 = "real list"
type_synonym tensor2 = "real list list"
type_synonym tensor3 = "real list list list"

text \<open>Python's \<^verbatim>\<open>a + b\<close>, \<^verbatim>\<open>a < b\<close> and \<^verbatim>\<open>a > b\<close> on floats.\<close>

fun fl_add :: "pyfloat \<Rightarrow> pyfloat \<Rightarrow> pyfloat" where
  "fl_add (Fin a) (Fin b) = Fin (a + b)"
| "fl_add _ _ = NaN"

fun fl_less :: "pyfloat \<Rightarrow> pyfloat \<Rightarrow> bool" where
  "fl_less (Fin a) (Fin b) = (a < b)"
| "fl_less _ _ = False"

definition fl_greater :: "pyfloat \<Rightarrow> pyfloat \<Rightarrow> bool" where
  "fl_greater a b = fl_less b a"

text \<open>\<^verbatim>\<open>x / n\<close> for a float \<open>x\<close> and a positive integer \<open>n\<close>.\<close>

fun fl_div_nat :: "pyfloat \<Rightarrow> nat \<Rightarrow> pyfloat" where
  "fl_div_nat (Fin a) n = Fin (a / real n)"
| "fl_div_nat NaN n = NaN"

text \<open>\<^verbatim>\<open>sum(xs)\<close>: a left fold from the integer 0.\<close>

definition py_sum :: "pyfloat list \<Rightarrow> pyfloat" where
  "py_sum xs = foldl fl_add (Fin 0) xs"

text \<open>\<^verbatim>\<open>sum(xs) / len(xs)\<close>: division by \<^verbatim>\<open>len(xs) == 0\<close> raises.\<close>

definition sum_div_len :: "pyfloat list \<Rightarrow> exn + pyfloat" where
  "sum_div_len xs =
     (if length xs = 0 then Inl ZeroDivisionError
      else Inr (fl_div_nat (py_sum xs) (length xs)))"

text \<open>
  \<^verbatim>\<open>t.mean()\<close> over all elements of a tensor, given flattened: the mean of no element
  is NaN.
\<close>

definition torch_mean :: "real list \<Rightarrow> pyfloat" where
  "torch_mean xs = (if xs = [] then NaN else Fin (sum_list xs / real (length xs)))"

definition same_shape2 :: "'a list list \<Rightarrow> 'b list list \<Rightarrow> bool" where
  "same_shape2 a b = (map length a = map length b)"

definition numel2 :: "'a list list \<Rightarrow> nat" where
  "numel2 t = length (concat t)"

definition ones_like :: "tensor2 \<Rightarrow> tensor2" where
  "ones_like t = map (map (\<lambda>_. 1)) t"

definition zeros_like :: "tensor2 \<Rightarrow> tensor2" where
  "zeros_like t = map (map (\<lambda>_. 0)) t"

text \<open>An elementwise binary operation on two tensors of one shape.\<close>

definition elementwise2 :: "(real \<Rightarrow> real \<Rightarrow> real) \<Rightarrow> tensor2 \<Rightarrow> tensor2 \<Rightarrow> tensor2" where
  "elementwise2 f a b = map2 (map2 f) a b"

section \<open>Masked regression loss\<close>

text \<open>
  \<^verbatim>\<open>torch.nn.HuberLoss\<close> (external): elementwise
  \<open>0.5 (x - y)\<^sup>2\<close> where \<open>\<bar>x - y\<bar> < delta\<close> and
  \<open>delta (\<bar>x - y\<bar> - 0.5 delta)\<close> otherwise, then the reduction. The model covers
  operands of one shape, which is what the epoch runner passes; operands of different
  shapes give \<open>Inl RuntimeError\<close> here (broadcasting is not modelled).
\<close>

definition huber :: "real \<Rightarrow> real \<Rightarrow> real \<Rightarrow> real" where
  "huber delta x y =
     (if \<bar>x - y\<bar> < delta then 0.5 * (x - y)\<^sup>2 else delta * (\<bar>x - y\<bar> - 0.5 * delta))"

definition HuberLoss_forward_none :: "real \<Rightarrow> tensor2 \<Rightarrow> tensor2 \<Rightarrow> exn + tensor2" where
  "HuberLoss_forward_none delta pred label =
     (if same_shape2 pred label then Inr (elementwise2 (huber delta) pred label)
      else Inl RuntimeError)"

definition HuberLoss_forward_mean :: "real \<Rightarrow> tensor2 \<Rightarrow> tensor2 \<Rightarrow> exn + pyfloat" where
  "HuberLoss_forward_mean delta pred label =
     (case HuberLoss_forward_none delta pred label of
        Inl e \<Rightarrow> Inl e
      | Inr l \<Rightarrow> Inr (torch_mean (concat l)))"

text \<open>
  \<^verbatim>\<open>MaskedHuberLoss.forward(pred, label, valid_sequence)\<close>:
  \<^verbatim>\<open>
  weights = torch.ones_like(label)
  weights = weights.float() * valid_sequence
  self.reduction = 'none'
  unweighted_loss = super(MaskedHuberLoss, self).forward(pred, label)
  weighted_loss = (unweighted_loss * weights).mean()
  return weighted_loss
  \<close>
  The loss object is its \<open>delta\<close> (1.0 as \<^verbatim>\<open>main\<close> constructs it).
\<close>

definition MaskedHuberLoss_forward :: "real \<Rightarrow> tensor2 \<Rightarrow> tensor2 \<Rightarrow> tensor2 \<Rightarrow> exn + pyfloat" where
  "MaskedHuberLoss_forward delta pred label valid_sequence =
     (if \<not> same_shape2 (ones_like label) valid_sequence then Inl RuntimeError
      else
        let weights = elementwise2 (*) (ones_like label) valid_sequence in
        case HuberLoss_forward_none delta pred label of
          Inl e \<Rightarrow> Inl e
        | Inr unweighted_loss \<Rightarrow>
            if \<not> same_shape2 unweighted_loss weights then Inl RuntimeError
            else Inr (torch_mean (concat (elementwise2 (*) unweighted_loss weights))))"

text \<open>
  The terms of the masked loss, position by position over the flattened tensors: the
  elementwise Huber loss times the validity indicator.
\<close>

definition masked_terms :: "real \<Rightarrow> tensor2 \<Rightarrow> tensor2 \<Rightarrow> tensor2 \<Rightarrow> real list" where
  "masked_terms delta pred label valid =
     map (\<lambda>i. huber delta (concat pred ! i) (concat label ! i) * (concat valid ! i))
       [0..<numel2 label]"

section \<open>Configuration\<close>

text \<open>
  The fields of \<^verbatim>\<open>args\<close> that the training code reads. \<^verbatim>\<open>main\<close> derives
  \<open>use_additional_feature\<close> from the three feature flags.
\<close>

record args =
  data_dir :: string
  output_dir :: string
  should_continue :: bool
  do_train :: bool
  do_eval :: bool
  batch_size :: int
  learning_rate :: real
  lr_min :: real
  num_train_epochs :: int
  aa :: bool
  protein :: bool
  ss :: bool
  calm :: bool
  use_additional_feature :: bool

text \<open>
  \<^verbatim>\<open>
  if args.aa or args.protein or args.ss:
      args.use_additional_feature = True
  else:
      args.use_additional_feature = False
  \<close>
\<close>

definition set_use_additional_feature :: "args \<Rightarrow> args" where
  "set_use_additional_feature a =
     (if aa a \<or> protein a \<or> ss a then a\<lparr>use_additional_feature := True\<rparr>
      else a\<lparr>use_additional_feature := False\<rparr>)"

section \<open>Feature fusion head\<close>

text \<open>Running a fallible function over a list stops at the first exception.\<close>

fun mapM_e :: "('a \<Rightarrow> exn + 'b) \<Rightarrow> 'a list \<Rightarrow> exn + 'b list" where
  "mapM_e f [] = Inr []"
| "mapM_e f (x # xs) =
     (case f x of
        Inl e \<Rightarrow> Inl e
      | Inr y \<Rightarrow> (case mapM_e f xs of Inl e \<Rightarrow> Inl e | Inr ys \<Rightarrow> Inr (y # ys)))"

text \<open>
  \<^verbatim>\<open>torch.nn.Linear(in_features, out_features)\<close> (external): a weight matrix of
  \<open>out_features\<close> rows and \<open>in_features\<close> columns and a bias of \<open>out_features\<close>
  entries, applied to the last axis; an input whose last axis is not \<open>in_features\<close>
  wide raises. The initial parameter values are a parameter of the model.
\<close>

record Linear =
  in_features :: nat
  out_features :: nat
  weight :: "real list list"
  bias :: "real list"

definition nn_Linear :: "nat \<Rightarrow> nat \<Rightarrow> (nat \<Rightarrow> nat \<Rightarrow> real) \<Rightarrow> (nat \<Rightarrow> real) \<Rightarrow> Linear" where
  "nn_Linear n_in n_out w0 b0 =
     \<lparr>in_features = n_in, out_features = n_out,
      weight = map (\<lambda>j. map (w0 j) [0..<n_in]) [0..<n_out],
      bias = map b0 [0..<n_out]\<rparr>"

definition Linear_wf :: "Linear \<Rightarrow> bool" where
  "Linear_wf l =
     (length (weight l) = out_features l \<and> length (bias l) = out_features l
      \<and> list_all (\<lambda>row. length row = in_features l) (weight l))"

definition dot :: "real list \<Rightarrow> real list \<Rightarrow> real" where
  "dot u v = sum_list (map2 (*) u v)"

definition Linear_apply :: "Linear \<Rightarrow> real list \<Rightarrow> exn + real list" where
  "Linear_apply l x =
     (if length x \<noteq> in_features l then Inl RuntimeError
      else Inr (map2 (\<lambda>row b. dot row x + b) (weight l) (bias l)))"

definition Linear_forward :: "Linear \<Rightarrow> tensor3 \<Rightarrow> exn + tensor3" where
  "Linear_forward l t = mapM_e (mapM_e (Linear_apply l)) t"

text \<open>\<^verbatim>\<open>nn.ReLU\<close> on every entry.\<close>

definition relu :: "tensor3 \<Rightarrow> tensor3" where
  "relu t = map (map (map (max 0))) t"

text \<open>
  \<^verbatim>\<open>torch.cat(tensors, dim=-1)\<close> (external): the feature vectors of one position are
  appended in the order of the list; an empty list raises, and so do tensors that differ
  in the batch or position axis.
\<close>

fun torch_cat_last :: "tensor3 list \<Rightarrow> exn + tensor3" where
  "torch_cat_last [] = Inl RuntimeError"
| "torch_cat_last [t] = Inr t"
| "torch_cat_last (t # ts) =
     (case torch_cat_last ts of
        Inl e \<Rightarrow> Inl e
      | Inr r \<Rightarrow> if same_shape2 t r then Inr (map2 (map2 (@)) t r) else Inl RuntimeError)"

text \<open>
  The encoder is external: the codon language model (called through
  \<^verbatim>\<open>self.bert.model(input_ids, repr_layers=[12])\<close>, width \<^verbatim>\<open>embed_dim\<close>) or a BERT
  model (called with ids, attention mask and token types, width
  \<^verbatim>\<open>config.hidden_size\<close>). Each carries its function from a batch of ids to the
  hidden representations (batch, position, width).
\<close>

datatype encoder =
    CaLM "int list list \<Rightarrow> tensor3" nat
  | BertModel "int list list \<Rightarrow> int list list \<Rightarrow> int list list \<Rightarrow> tensor3" nat

text \<open>
  \<^verbatim>\<open>
  class CodenBert(nn.Module):
      def __init__(self, bert_model, num_labels, additional_feature_dim, args):
          self.bert = bert_model
          self.args = args
          self.calm = args.calm
          if self.calm:
              self.hidden_size = self.bert.model.args.embed_dim
          else:
              self.hidden_size = self.bert.config.hidden_size
          self.regressor = nn.Linear(self.hidden_size, num_labels)
          self.additional_feature_layer = nn.Linear(additional_feature_dim, self.hidden_size)
          self.down_project = nn.Linear(self.hidden_size * 2, self.hidden_size)
          self.relu = nn.ReLU()
  \<close>
  Reading the width attribute of the other encoder kind raises \<open>AttributeError\<close>.
\<close>

record CodenBert =
  bert :: encoder
  self_args :: args
  self_calm :: bool
  hidden_size :: nat
  regressor :: Linear
  additional_feature_layer :: Linear
  down_project :: Linear

text \<open>The initial parameter values of the three linear layers.\<close>

record init_params =
  regressor_w :: "nat \<Rightarrow> nat \<Rightarrow> real"
  regressor_b :: "nat \<Rightarrow> real"
  additional_w :: "nat \<Rightarrow> nat \<Rightarrow> real"
  additional_b :: "nat \<Rightarrow> real"
  down_w :: "nat \<Rightarrow> nat \<Rightarrow> real"
  down_b :: "nat \<Rightarrow> real"

definition CodenBert_init :: "init_params \<Rightarrow> encoder \<Rightarrow> nat \<Rightarrow> nat \<Rightarrow> args \<Rightarrow> exn + CodenBert" where
  "CodenBert_init ini bert_model num_labels additional_feature_dim a =
     (case (if calm a
            then (case bert_model of CaLM _ embed_dim \<Rightarrow> Inr embed_dim | BertModel _ _ \<Rightarrow> Inl AttributeError)
            else (case bert_model of BertModel _ h \<Rightarrow> Inr h | CaLM _ _ \<Rightarrow> Inl AttributeError)) of
        Inl e \<Rightarrow> Inl e
      | Inr h \<Rightarrow>
          Inr \<lparr>bert = bert_model, self_args = a, self_calm = calm a, hidden_size = h,
               regressor = nn_Linear h num_labels (regressor_w ini) (regressor_b ini),
               additional_feature_layer =
                 nn_Linear additional_feature_dim h (additional_w ini) (additional_b ini),
               down_project = nn_Linear (h * 2) h (down_w ini) (down_b ini)\<rparr>)"

text \<open>
  \<^verbatim>\<open>
  def forward(self, input_ids, attention_mask, token_type_ids, additional_features):
      if self.calm:
          sequence_output = self.bert.model(input_ids, repr_layers=[12])['representations'][12]
      else:
          sequence_output = self.bert(input_ids, attention_mask=attention_mask,
                                      token_type_ids=token_type_ids)[0]
      if self.args.use_additional_feature:
          additional_features_output = self.additional_feature_layer(additional_features)
          fused_output = torch.concatenate([sequence_output, additional_features_output], dim=-1)
          fused_output = self.down_project(fused_output)
          sequence_output = self.relu(fused_output)
      prediction_scores = self.regressor(sequence_output)
      prediction_scores = self.relu(prediction_scores)
      return prediction_scores
  \<close>
  \<open>additional_features\<close> is \<open>None\<close> or a tensor; a linear layer applied to \<open>None\<close>
  raises \<open>TypeError\<close>.
\<close>

definition encode :: "CodenBert \<Rightarrow> int list list \<Rightarrow> int list list \<Rightarrow> int list list \<Rightarrow> exn + tensor3" where
  "encode self input_ids attention_mask token_type_ids =
     (if self_calm self
      then (case bert self of CaLM f _ \<Rightarrow> Inr (f input_ids) | BertModel _ _ \<Rightarrow> Inl AttributeError)
      else (case bert self of
              BertModel f _ \<Rightarrow> Inr (f input_ids attention_mask token_type_ids)
            | CaLM _ _ \<Rightarrow> Inl TypeError))"

definition fuse :: "CodenBert \<Rightarrow> tensor3 \<Rightarrow> tensor3 option \<Rightarrow> exn + tensor3" where
  "fuse self sequence_output additional_features =
     (if use_additional_feature (self_args self) then
        (case additional_features of
           None \<Rightarrow> Inl TypeError
         | Some af \<Rightarrow>
             (case Linear_forward (additional_feature_layer self) af of
                Inl e \<Rightarrow> Inl e
              | Inr additional_features_output \<Rightarrow>
                  (case torch_cat_last [sequence_output, additional_features_output] of
                     Inl e \<Rightarrow> Inl e
                   | Inr fused_output \<Rightarrow>
                       (case Linear_forward (down_project self) fused_output of
                          Inl e \<Rightarrow> Inl e
                        | Inr fused_output' \<Rightarrow> Inr (relu fused_output')))))
      else Inr sequence_output)"

definition CodenBert_forward ::
  "CodenBert \<Rightarrow> int list list \<Rightarrow> int list list \<Rightarrow> int list list \<Rightarrow> tensor3 option \<Rightarrow> exn + tensor3" where
  "CodenBert_forward self input_ids attention_mask token_type_ids additional_features =
     (case encode self input_ids attention_mask token_type_ids of
        Inl e \<Rightarrow> Inl e
      | Inr sequence_output \<Rightarrow>
          (case fuse self sequence_output additional_features of
             Inl e \<Rightarrow> Inl e
           | Inr sequence_output' \<Rightarrow>
               (case Linear_forward (regressor self) sequence_output' of
                  Inl e \<Rightarrow> Inl e
                | Inr prediction_scores \<Rightarrow> Inr (relu prediction_scores))))"

section \<open>Batches\<close>

text \<open>
  A batch as the data loader yields it: the dictionary's entries, each a stacked tensor
  (the three auxiliary feature tensors are 21, 6 and 8 wide in the data).
\<close>

record batch =
  input_ids :: "int list list"
  attention_mask :: "int list list"
  token_type_ids :: "int list list"
  density :: tensor2
  valid_sequence :: tensor2
  batch_aa :: tensor3
  batch_pro_feature :: tensor3
  batch_ss :: tensor3

text \<open>
  The assembly of the auxiliary tensor, the same lines in \<^verbatim>\<open>train_epoch\<close> and
  \<^verbatim>\<open>evaluate\<close>:
  \<^verbatim>\<open>
  if not args.use_additional_feature:
      additional_features = None
  else:
      features = []
      if args.aa:
          features.append(aa)
      if args.protein:
          features.append(pro_feature)
      if args.ss:
          features.append(ss)
      additional_features = torch.cat(features, dim=-1)
  \<close>
\<close>

definition additional_features_of :: "args \<Rightarrow> batch \<Rightarrow> exn + tensor3 option" where
  "additional_features_of a b =
     (if \<not> use_additional_feature a then Inr None
      else
        let features0 = [];
            features1 = (if aa a then features0 @ [batch_aa b] else features0);
            features2 = (if protein a then features1 @ [batch_pro_feature b] else features1);
            features3 = (if ss a then features2 @ [batch_ss b] else features2)
        in (case torch_cat_last features3 of Inl e \<Rightarrow> Inl e | Inr t \<Rightarrow> Inr (Some t)))"

text \<open>
  \<^verbatim>\<open>outputs.squeeze(-1)\<close>: a last axis of width 1 is dropped. A wider last axis
  would stay, and the loss that follows would get operands of different shapes; the model
  raises at this point instead.
\<close>

definition squeeze_last :: "tensor3 \<Rightarrow> exn + tensor2" where
  "squeeze_last t =
     (if list_all (list_all (\<lambda>v. length v = 1)) t then Inr (map (map hd) t)
      else Inl RuntimeError)"

text \<open>
  \<^verbatim>\<open>t[valid_sequence == 1]\<close>: the entries of \<open>t\<close> where the mask holds, in row-major
  order; a mask of another shape raises \<open>IndexError\<close>.
\<close>

definition masked_select :: "tensor2 \<Rightarrow> tensor2 \<Rightarrow> exn + real list" where
  "masked_select t valid =
     (if same_shape2 t valid
      then Inr (map fst (filter (\<lambda>(x, v). v = 1) (zip (concat t) (concat valid))))
      else Inl IndexError)"

text \<open>
  The forward pass on one batch, the same lines in \<^verbatim>\<open>train_epoch\<close> and
  \<^verbatim>\<open>evaluate\<close>: the auxiliary tensor, the model call and the squeeze. It returns the
  auxiliary tensor too.
\<close>

definition forward_batch :: "CodenBert \<Rightarrow> args \<Rightarrow> batch \<Rightarrow> exn + (tensor3 option \<times> tensor2)" where
  "forward_batch model a b =
     (case additional_features_of a b of
        Inl e \<Rightarrow> Inl e
      | Inr additional_features \<Rightarrow>
          (case CodenBert_forward model (input_ids b) (attention_mask b) (token_type_ids b)
                  additional_features of
             Inl e \<Rightarrow> Inl e
           | Inr outputs \<Rightarrow>
               (case squeeze_last outputs of
                  Inl e \<Rightarrow> Inl e
                | Inr outputs' \<Rightarrow> Inr (additional_features, outputs'))))"

section \<open>Metric computation\<close>

text \<open>
  The three metric functions are external (scikit-learn's \<^verbatim>\<open>r2_score\<close> and
  \<^verbatim>\<open>mean_squared_error\<close>, SciPy's \<^verbatim>\<open>pearsonr\<close>, of which the code takes the first
  component). They are parameters of the model: each takes \<open>(label, pred)\<close> and returns
  a float or raises.
\<close>

record metrics_lib =
  r2_score :: "real list \<Rightarrow> real list \<Rightarrow> exn + pyfloat"
  mean_squared_error :: "real list \<Rightarrow> real list \<Rightarrow> exn + pyfloat"
  pearsonr :: "real list \<Rightarrow> real list \<Rightarrow> exn + pyfloat"

text \<open>
  \<^verbatim>\<open>
  def score_reg(pred, label):
      r2 = r2_score(label, pred)
      mse = mean_squared_error(label, pred)
      corr = pearsonr(label, pred)[0]
      return r2, mse, corr
  \<close>
\<close>

definition score_reg ::
  "metrics_lib \<Rightarrow> real list \<Rightarrow> real list \<Rightarrow> exn + (pyfloat \<times> pyfloat \<times> pyfloat)" where
  "score_reg lib pred label =
     (case r2_score lib label pred of
        Inl e \<Rightarrow> Inl e
      | Inr r2 \<Rightarrow>
          (case mean_squared_error lib label pred of
             Inl e \<Rightarrow> Inl e
           | Inr mse \<Rightarrow>
               (case pearsonr lib label pred of
                  Inl e \<Rightarrow> Inl e
                | Inr corr \<Rightarrow> Inr (r2, mse, corr))))"

text \<open>
  The documented behaviour of the three library functions, for the concrete runs below.
  \<^verbatim>\<open>r2_score\<close>: no sample or operands of different lengths raise; one sample gives NaN
  (with a warning); otherwise \<open>1 - SS\<^sub>r\<^sub>e\<^sub>s / SS\<^sub>t\<^sub>o\<^sub>t\<close>, and for constant
  targets 1 when the predictions are exact and 0 when they are not.
  \<^verbatim>\<open>mean_squared_error\<close>: the mean of the squared residuals.
  \<^verbatim>\<open>pearsonr\<close>: fewer than two samples raise; a constant operand gives NaN (with a
  warning); otherwise the correlation coefficient, clipped to \<open>[-1, 1]\<close>.
\<close>

definition mean_of :: "real list \<Rightarrow> real" where
  "mean_of xs = sum_list xs / real (length xs)"

definition sq_residuals :: "real list \<Rightarrow> real list \<Rightarrow> real" where
  "sq_residuals y_true y_pred = sum_list (map2 (\<lambda>t p. (t - p)\<^sup>2) y_true y_pred)"

definition sq_deviations :: "real list \<Rightarrow> real" where
  "sq_deviations ys = sum_list (map (\<lambda>y. (y - mean_of ys)\<^sup>2) ys)"

definition sklearn_r2_score :: "real list \<Rightarrow> real list \<Rightarrow> exn + pyfloat" where
  "sklearn_r2_score y_true y_pred =
     (if length y_true \<noteq> length y_pred \<or> length y_true = 0 then Inl ValueError
      else if length y_true < 2 then Inr NaN
      else if sq_deviations y_true \<noteq> 0
        then Inr (Fin (1 - sq_residuals y_true y_pred / sq_deviations y_true))
      else if sq_residuals y_true y_pred \<noteq> 0 then Inr (Fin 0)
      else Inr (Fin 1))"

definition sklearn_mean_squared_error :: "real list \<Rightarrow> real list \<Rightarrow> exn + pyfloat" where
  "sklearn_mean_squared_error y_true y_pred =
     (if length y_true \<noteq> length y_pred \<or> length y_true = 0 then Inl ValueError
      else Inr (Fin (sq_residuals y_true y_pred / real (length y_true))))"

definition is_constant :: "real list \<Rightarrow> bool" where
  "is_constant xs = list_all (\<lambda>x. x = hd xs) xs"

definition scipy_pearsonr :: "real list \<Rightarrow> real list \<Rightarrow> exn + pyfloat" where
  "scipy_pearsonr x y =
     (if length x \<noteq> length y then Inl ValueError
      else if length x < 2 then Inl ValueError
      else if is_constant x \<or> is_constant y then Inr NaN
      else
        let xm = map (\<lambda>v. v - mean_of x) x;
            ym = map (\<lambda>v. v - mean_of y) y;
            r = sum_list (map2 (*) xm ym)
                  / (sqrt (sum_list (map (\<lambda>v. v\<^sup>2) xm)) * sqrt (sum_list (map (\<lambda>v. v\<^sup>2) ym)))
        in Inr (Fin (max (min r 1) (- 1))))"

definition documented_lib :: metrics_lib where
  "documented_lib =
     \<lparr>r2_score = sklearn_r2_score, mean_squared_error = sklearn_mean_squared_error,
      pearsonr = scipy_pearsonr\<rparr>"

section \<open>Epoch runner\<close>

text \<open>
  The optimizer is external (\<^verbatim>\<open>AdamW\<close>): its learning rate and an opaque state. What
  \<^verbatim>\<open>optimizer.zero_grad()\<close>, \<^verbatim>\<open>tr_loss.backward()\<close> and \<^verbatim>\<open>optimizer.step()\<close> do to
  the model's parameters and to the optimizer on one batch is a parameter of the model,
  \<open>optimizer_step\<close>.
\<close>

record AdamW =
  lr :: real
  opt_state :: "real list"

type_synonym optimizer_step =
  "AdamW \<Rightarrow> CodenBert \<Rightarrow> batch \<Rightarrow> tensor3 option \<Rightarrow> AdamW \<times> CodenBert"

text \<open>A loop whose body may raise: the first exception ends it.\<close>

fun foldM_e :: "('s \<Rightarrow> 'a \<Rightarrow> exn + 's) \<Rightarrow> 's \<Rightarrow> 'a list \<Rightarrow> exn + 's" where
  "foldM_e f s [] = Inr s"
| "foldM_e f s (x # xs) = (case f s x of Inl e \<Rightarrow> Inl e | Inr s' \<Rightarrow> foldM_e f s' xs)"

text \<open>
  The state of the loop of \<^verbatim>\<open>train_epoch\<close>: the model and optimizer (mutated in
  place by the code) and the four lists.
\<close>

record train_state =
  ts_model :: CodenBert
  ts_optimizer :: AdamW
  loss_list :: "pyfloat list"
  r2_list :: "pyfloat list"
  mse_list :: "pyfloat list"
  corr_list :: "pyfloat list"

text \<open>
  The body of the loop of \<^verbatim>\<open>train_epoch\<close>:
  \<^verbatim>\<open>
  outputs = model(input_ids, ..., additional_features=additional_features)
  outputs = outputs.squeeze(-1)
  tr_loss = loss(outputs, density, valid_sequence)
  selected_y_pred = outputs[valid_sequence == 1]
  selected_y_true = density[valid_sequence == 1]
  r2, mse, corr = score_reg(y_pred, y_true)
  r2_list.append(r2); mse_list.append(mse); corr_list.append(corr)
  tr_loss.backward()
  optimizer.step()
  loss_list.append(tr_loss.item())
  \<close>
\<close>

definition train_batch ::
  "metrics_lib \<Rightarrow> optimizer_step \<Rightarrow> real \<Rightarrow> args \<Rightarrow> train_state \<Rightarrow> batch \<Rightarrow> exn + train_state" where
  "train_batch lib step delta a st b =
     (case forward_batch (ts_model st) a b of
        Inl e \<Rightarrow> Inl e
      | Inr (additional_features, outputs) \<Rightarrow>
     (case MaskedHuberLoss_forward delta outputs (density b) (valid_sequence b) of
        Inl e \<Rightarrow> Inl e
      | Inr tr_loss \<Rightarrow>
     (case masked_select outputs (valid_sequence b) of
        Inl e \<Rightarrow> Inl e
      | Inr y_pred \<Rightarrow>
     (case masked_select (density b) (valid_sequence b) of
        Inl e \<Rightarrow> Inl e
      | Inr y_true \<Rightarrow>
     (case score_reg lib y_pred y_true of
        Inl e \<Rightarrow> Inl e
      | Inr (r2, mse, corr) \<Rightarrow>
          (case step (ts_optimizer st) (ts_model st) b additional_features of
             (optimizer', model') \<Rightarrow>
               Inr (st\<lparr>ts_model := model', ts_optimizer := optimizer',
                       r2_list := r2_list st @ [r2], mse_list := mse_list st @ [mse],
                       corr_list := corr_list st @ [corr],
                       loss_list := loss_list st @ [tr_loss]\<rparr>)))))))"

text \<open>
  \<^verbatim>\<open>
  def train_epoch(model, train_loader, optimizer, loss, args):
      loss_list = []; r2_list = []; mse_list = []; corr_list = []
      for batch in train_loader:
          ...
      avg_loss = sum(loss_list) / len(loss_list)
      r2 = sum(r2_list) / len(r2_list)
      mse = sum(mse_list) / len(mse_list)
      corr = sum(corr_list) / len(corr_list)
      return avg_loss, r2, mse, corr
  \<close>
  The model returns the trained model and the optimizer too.
\<close>

type_synonym scores = "pyfloat \<times> pyfloat \<times> pyfloat \<times> pyfloat"

definition train_epoch ::
  "metrics_lib \<Rightarrow> optimizer_step \<Rightarrow> CodenBert \<Rightarrow> batch list \<Rightarrow> AdamW \<Rightarrow> real \<Rightarrow> args
     \<Rightarrow> exn + (CodenBert \<times> AdamW \<times> scores)" where
  "train_epoch lib step model train_loader optimizer delta a =
     (case foldM_e (train_batch lib step delta a)
             \<lparr>ts_model = model, ts_optimizer = optimizer, loss_list = [], r2_list = [],
              mse_list = [], corr_list = []\<rparr> train_loader of
        Inl e \<Rightarrow> Inl e
      | Inr st \<Rightarrow>
     (case sum_div_len (loss_list st) of
        Inl e \<Rightarrow> Inl e
      | Inr avg_loss \<Rightarrow>
     (case sum_div_len (r2_list st) of
        Inl e \<Rightarrow> Inl e
      | Inr r2 \<Rightarrow>
     (case sum_div_len (mse_list st) of
        Inl e \<Rightarrow> Inl e
      | Inr mse \<Rightarrow>
     (case sum_div_len (corr_list st) of
        Inl e \<Rightarrow> Inl e
      | Inr corr \<Rightarrow> Inr (ts_model st, ts_optimizer st, avg_loss, r2, mse, corr))))))"

text \<open>
  The state of the loop of \<^verbatim>\<open>evaluate\<close>: the per-batch losses and the pooled valid
  targets and predictions.
\<close>

record eval_state =
  eval_loss_list :: "pyfloat list"
  trues :: "real list"
  preds :: "real list"

text \<open>
  The body of the loop of \<^verbatim>\<open>evaluate\<close>:
  \<^verbatim>\<open>
  outputs = model(input_ids, ..., additional_features=additional_features)
  outputs = outputs.squeeze(-1)
  eval_loss = loss(outputs, density, valid_sequence)
  selected_y_pred = outputs[valid_sequence == 1]
  selected_y_true = density[valid_sequence == 1]
  trues.extend(y_true)
  preds.extend(y_pred)
  loss_list.append(eval_loss.item())
  \<close>
\<close>

definition eval_batch :: "CodenBert \<Rightarrow> real \<Rightarrow> args \<Rightarrow> eval_state \<Rightarrow> batch \<Rightarrow> exn + eval_state" where
  "eval_batch model delta a st b =
     (case forward_batch model a b of
        Inl e \<Rightarrow> Inl e
      | Inr (additional_features, outputs) \<Rightarrow>
     (case MaskedHuberLoss_forward delta outputs (density b) (valid_sequence b) of
        Inl e \<Rightarrow> Inl e
      | Inr eval_loss \<Rightarrow>
     (case masked_select outputs (valid_sequence b) of
        Inl e \<Rightarrow> Inl e
      | Inr y_pred \<Rightarrow>
     (case masked_select (density b) (valid_sequence b) of
        Inl e \<Rightarrow> Inl e
      | Inr y_true \<Rightarrow>
          Inr (st\<lparr>trues := trues st @ y_true, preds := preds st @ y_pred,
                  eval_loss_list := eval_loss_list st @ [eval_loss]\<rparr>)))))"

text \<open>
  \<^verbatim>\<open>
  def evaluate(model, eval_loader, loss, args, max_r2, fold):
      loss_list = []; trues = []; preds = []
      with torch.no_grad():
          for batch in eval_loader:
              ...
      r2, mse, corr = score_reg(preds, trues)
      avg_loss = sum(loss_list) / len(loss_list)
      if r2 > max_r2:
          plot_correlation(trues, preds, fold, r2)
      return avg_loss, r2, mse, corr
  \<close>
  The model returns, with the scores, whether the plot was drawn.
\<close>

definition evaluate ::
  "metrics_lib \<Rightarrow> CodenBert \<Rightarrow> batch list \<Rightarrow> real \<Rightarrow> args \<Rightarrow> pyfloat \<Rightarrow> exn + (scores \<times> bool)" where
  "evaluate lib model eval_loader delta a max_r2 =
     (case foldM_e (eval_batch model delta a)
             \<lparr>eval_loss_list = [], trues = [], preds = []\<rparr> eval_loader of
        Inl e \<Rightarrow> Inl e
      | Inr st \<Rightarrow>
     (case score_reg lib (preds st) (trues st) of
        Inl e \<Rightarrow> Inl e
      | Inr (r2, mse, corr) \<Rightarrow>
     (case sum_div_len (eval_loss_list st) of
        Inl e \<Rightarrow> Inl e
      | Inr avg_loss \<Rightarrow> Inr ((avg_loss, r2, mse, corr), fl_greater r2 max_r2))))"

section \<open>Per-batch values of an epoch\<close>

text \<open>
  What the training pass computes on one batch with the model as it stands: the
  auxiliary tensor, the masked loss, and the three metrics on the batch's valid positions.
\<close>

record batch_scores =
  b_loss :: pyfloat
  b_r2 :: pyfloat
  b_mse :: pyfloat
  b_corr :: pyfloat

definition train_batch_scores ::
  "metrics_lib \<Rightarrow> real \<Rightarrow> args \<Rightarrow> CodenBert \<Rightarrow> batch \<Rightarrow> exn + (tensor3 option \<times> batch_scores)" where
  "train_batch_scores lib delta a model b =
     (case forward_batch model a b of
        Inl e \<Rightarrow> Inl e
      | Inr (additional_features, outputs) \<Rightarrow>
     (case MaskedHuberLoss_forward delta outputs (density b) (valid_sequence b) of
        Inl e \<Rightarrow> Inl e
      | Inr l \<Rightarrow>
     (case masked_select outputs (valid_sequence b) of
        Inl e \<Rightarrow> Inl e
      | Inr y_pred \<Rightarrow>
     (case masked_select (density b) (valid_sequence b) of
        Inl e \<Rightarrow> Inl e
      | Inr y_true \<Rightarrow>
     (case score_reg lib y_pred y_true of
        Inl e \<Rightarrow> Inl e
      | Inr (r2, mse, corr) \<Rightarrow>
          Inr (additional_features, \<lparr>b_loss = l, b_r2 = r2, b_mse = mse, b_corr = corr\<rparr>))))))"

text \<open>
  The per-batch values of a training pass, batch after batch, the optimizer step of each
  batch changing the model for the next; with them the model and the optimizer at the end.
\<close>

fun train_values ::
  "metrics_lib \<Rightarrow> optimizer_step \<Rightarrow> real \<Rightarrow> args \<Rightarrow> CodenBert \<Rightarrow> AdamW \<Rightarrow> batch list
     \<Rightarrow> exn + (CodenBert \<times> AdamW \<times> batch_scores list)" where
  "train_values lib step delta a model optimizer [] = Inr (model, optimizer, [])"
| "train_values lib step delta a model optimizer (b # bs) =
     (case train_batch_scores lib delta a model b of
        Inl e \<Rightarrow> Inl e
      | Inr (additional_features, s) \<Rightarrow>
          (case step optimizer model b additional_features of
             (optimizer', model') \<Rightarrow>
               (case train_values lib step delta a model' optimizer' bs of
                  Inl e \<Rightarrow> Inl e
                | Inr (model'', optimizer'', scs) \<Rightarrow> Inr (model'', optimizer'', s # scs))))"

text \<open>
  What the evaluation pass takes from one batch: the masked loss and the predictions and
  targets at the valid positions.
\<close>

record eval_values =
  e_loss :: pyfloat
  e_pred :: "real list"
  e_true :: "real list"

definition eval_batch_values :: "CodenBert \<Rightarrow> real \<Rightarrow> args \<Rightarrow> batch \<Rightarrow> exn + eval_values" where
  "eval_batch_values model delta a b =
     (case forward_batch model a b of
        Inl e \<Rightarrow> Inl e
      | Inr (additional_features, outputs) \<Rightarrow>
     (case MaskedHuberLoss_forward delta outputs (density b) (valid_sequence b) of
        Inl e \<Rightarrow> Inl e
      | Inr l \<Rightarrow>
     (case masked_select outputs (valid_sequence b) of
        Inl e \<Rightarrow> Inl e
      | Inr y_pred \<Rightarrow>
     (case masked_select (density b) (valid_sequence b) of
        Inl e \<Rightarrow> Inl e
      | Inr y_true \<Rightarrow> Inr \<lparr>e_loss = l, e_pred = y_pred, e_true = y_true\<rparr>))))"

section \<open>Paths\<close>

text \<open>Decimal text of an integer, as an f-string prints it.\<close>

definition digit_char :: "nat \<Rightarrow> char" where
  "digit_char n = ''0123456789'' ! n"

function str_nat :: "nat \<Rightarrow> string" where
  "str_nat n = (if n < 10 then [digit_char n] else str_nat (n div 10) @ [digit_char (n mod 10)])"
  by pat_completeness auto
termination
  by (relation "measure (\<lambda>n. n)") auto

declare str_nat.simps [simp del]

definition str_int :: "int \<Rightarrow> string" where
  "str_int i = (if i < 0 then ''-'' @ str_nat (nat (- i)) else str_nat (nat i))"

text \<open>\<^verbatim>\<open>os.path.join(a, b)\<close> for two components.\<close>

definition os_path_join :: "string \<Rightarrow> string \<Rightarrow> string" where
  "os_path_join a b =
     (if b \<noteq> [] \<and> hd b = CHR ''/'' then b
      else if a = [] \<or> last a = CHR ''/'' then a @ b
      else a @ ''/'' @ b)"

text \<open>
  The suffix that the feature flags add to a path, the same lines for the training log,
  the evaluation log and the cross-fold summary:
  \<^verbatim>\<open>
  if args.aa:
      path += '_aa'
  if args.protein:
      path += '_protein'
  if args.ss:
      path += '_ss'
  path += '.csv'
  \<close>
\<close>

definition add_feature_suffix :: "args \<Rightarrow> string \<Rightarrow> string" where
  "add_feature_suffix a path0 =
     (let path1 = (if aa a then path0 @ ''_aa'' else path0);
          path2 = (if protein a then path1 @ ''_protein'' else path1);
          path3 = (if ss a then path2 @ ''_ss'' else path2)
      in path3 @ ''.csv'')"

text \<open>
  \<^verbatim>\<open>
  train_log_path = os.path.join(args.output_dir, f'logs/train_log_{epoch_max}')
  eval_log_path = os.path.join(args.output_dir, f'logs/eval_log_{epoch_max}')
  \<close>
\<close>

definition train_log_path :: "args \<Rightarrow> int \<Rightarrow> string" where
  "train_log_path a epoch_max =
     add_feature_suffix a (os_path_join (output_dir a) (''logs/train_log_'' @ str_int epoch_max))"

definition eval_log_path :: "args \<Rightarrow> int \<Rightarrow> string" where
  "eval_log_path a epoch_max =
     add_feature_suffix a (os_path_join (output_dir a) (''logs/eval_log_'' @ str_int epoch_max))"

text \<open>\<^verbatim>\<open>best_result_path = os.path.join(args.output_dir, 'best_results')\<close> and the suffix.\<close>

definition best_result_path :: "args \<Rightarrow> string" where
  "best_result_path a = add_feature_suffix a (os_path_join (output_dir a) ''best_results'')"

text \<open>
  \<^verbatim>\<open>
  def save(model, tokenizer, save_path, name):
      os.makedirs(save_path, exist_ok=True)
      torch.save({'model_state': model.state_dict()},
                 os.path.join(save_path, f'pytorch_model_P{name}.pth'))
  \<close>
\<close>

definition checkpoint_file :: "string \<Rightarrow> string \<Rightarrow> string" where
  "checkpoint_file save_path name = os_path_join save_path (''pytorch_model_P'' @ name @ ''.pth'')"

section \<open>Effects\<close>

text \<open>
  What a run does to the outside is a list of events in the order they happen: a call of
  \<^verbatim>\<open>train_epoch\<close> or \<^verbatim>\<open>evaluate\<close> for an epoch, a step of the learning-rate
  schedule, a row appended to a CSV file (opened in mode \<^verbatim>\<open>'a'\<close>), a checkpoint
  written to a file (overwriting it) with the model it holds, the release of the device
  cache and the diagnostic plot of a fold with its score. Console and logger output is
  left out.
\<close>

datatype cell = CInt int | CFloat pyfloat

datatype event =
    TrainEpoch int
  | SchedulerStep
  | AppendRow string "cell list"
  | Save string CodenBert
  | EmptyCache
  | Evaluate int
  | Plot nat pyfloat

section \<open>Learning-rate schedule\<close>

text \<open>
  \<^verbatim>\<open>CosineAnnealingLR(optimizer, T_max, eta_min)\<close> (external): a step advances
  \<^verbatim>\<open>last_epoch\<close> and sets the optimizer's learning rate to what \<^verbatim>\<open>get_lr\<close>
  computes from the schedule (the cosine formula between the base rate and
  \<open>eta_min\<close>); \<open>get_lr\<close> is a parameter of the model.
\<close>

record CosineAnnealingLR =
  T_max :: int
  eta_min :: real
  base_lr :: real
  last_epoch :: int

definition new_CosineAnnealingLR :: "AdamW \<Rightarrow> int \<Rightarrow> real \<Rightarrow> CosineAnnealingLR" where
  "new_CosineAnnealingLR optimizer t e =
     \<lparr>T_max = t, eta_min = e, base_lr = lr optimizer, last_epoch = 0\<rparr>"

definition scheduler_step ::
  "(CosineAnnealingLR \<Rightarrow> real) \<Rightarrow> CosineAnnealingLR \<Rightarrow> AdamW \<Rightarrow> CosineAnnealingLR \<times> AdamW" where
  "scheduler_step lr_of s optimizer =
     (let s' = s\<lparr>last_epoch := last_epoch s + 1\<rparr>
      in (s', optimizer\<lparr>lr := lr_of s'\<rparr>))"

section \<open>Data loading\<close>

text \<open>One item of the dataset (external): the fields of one sequence.\<close>

record sample =
  s_input_ids :: "int list"
  s_attention_mask :: "int list"
  s_token_type_ids :: "int list"
  s_density :: "real list"
  s_valid_sequence :: "real list"
  s_aa :: "real list list"
  s_pro_feature :: "real list list"
  s_ss :: "real list list"

text \<open>The default collation stacks each field of the samples of a batch.\<close>

definition collate :: "sample list \<Rightarrow> batch" where
  "collate xs =
     \<lparr>input_ids = map s_input_ids xs, attention_mask = map s_attention_mask xs,
      token_type_ids = map s_token_type_ids xs, density = map s_density xs,
      valid_sequence = map s_valid_sequence xs, batch_aa = map s_aa xs,
      batch_pro_feature = map s_pro_feature xs, batch_ss = map s_ss xs\<rparr>"

function chunks :: "nat \<Rightarrow> 'a list \<Rightarrow> 'a list list" where
  "chunks n xs = (if n = 0 \<or> xs = [] then [] else take n xs # chunks n (drop n xs))"
  by pat_completeness auto
termination
  by (relation "measure (\<lambda>(n, xs). length xs)") auto

declare chunks.simps [simp del]

text \<open>
  \<^verbatim>\<open>DataLoader(dataset, batch_size, shuffle)\<close> (external): a batch size below 1
  raises; an iteration yields the samples in batches of \<open>batch_size\<close> (the last one may
  be smaller), in the dataset's order or, with \<open>shuffle\<close>, in the order of the
  permutation drawn for that iteration.
\<close>

record DataLoader =
  dl_dataset :: "sample list"
  dl_batch_size :: nat
  dl_shuffle :: bool

definition new_DataLoader :: "sample list \<Rightarrow> int \<Rightarrow> bool \<Rightarrow> exn + DataLoader" where
  "new_DataLoader dataset bs sh =
     (if bs \<le> 0 then Inl ValueError
      else Inr \<lparr>dl_dataset = dataset, dl_batch_size = nat bs, dl_shuffle = sh\<rparr>)"

definition iterate :: "(sample list \<Rightarrow> sample list) \<Rightarrow> DataLoader \<Rightarrow> batch list" where
  "iterate perm loader =
     map collate (chunks (dl_batch_size loader)
       (if dl_shuffle loader then perm (dl_dataset loader) else dl_dataset loader))"

section \<open>Checkpoint selector and epoch loop\<close>

text \<open>
  The external collaborators of a run: the metric library, the effect of an optimizer
  step, the learning rate of a schedule, the permutation a shuffling loader draws in a fold and epoch, the encoders and
  initial parameters a fold gets, and the dataset read from a file.
\<close>

record externals =
  lib :: metrics_lib
  step :: optimizer_step
  get_lr :: "CosineAnnealingLR \<Rightarrow> real"
  shuffle :: "nat \<Rightarrow> int \<Rightarrow> sample list \<Rightarrow> sample list"
  new_CaLM :: "nat \<Rightarrow> (int list list \<Rightarrow> tensor3) \<times> nat"
  from_pretrained :: "nat \<Rightarrow> (int list list \<Rightarrow> int list list \<Rightarrow> int list list \<Rightarrow> tensor3) \<times> nat"
  init :: "nat \<Rightarrow> init_params"
  GeneSequenceDataset :: "string \<Rightarrow> exn + sample list"

text \<open>
  The variables of \<^verbatim>\<open>train_and_validate\<close> that change from epoch to epoch, with the
  objects it mutates and the events so far.
\<close>

record tv_state =
  tv_model :: CodenBert
  tv_optimizer :: AdamW
  tv_scheduler :: CosineAnnealingLR
  max_r2 :: pyfloat
  min_mse :: pyfloat
  max_corr :: pyfloat
  best_loss :: pyfloat
  best_eval_loss :: pyfloat
  events :: "event list"

definition epoch_val :: int where
  "epoch_val = 1"

text \<open>
  The evaluation half of an epoch:
  \<^verbatim>\<open>
  torch.cuda.empty_cache()
  eval_loss, r2, mse, corr = evaluate(model, eval_loader, loss, args, max_r2, fold)
  if eval_loss < best_eval_loss:
      best_eval_loss = eval_loss
      save(model, tokenizer, save_path, 'best_eval_loss')
  if r2 > max_r2:
      max_r2 = r2
      min_mse = mse
      max_corr = corr
      save(model, tokenizer, save_path, 'best')
  with open(eval_log_path, 'a', newline='') as f:
      csv_writer.writerow([epoch, eval_loss, r2, mse, corr])
  \<close>
\<close>

definition eval_half ::
  "externals \<Rightarrow> real \<Rightarrow> DataLoader \<Rightarrow> string \<Rightarrow> args \<Rightarrow> nat \<Rightarrow> int \<Rightarrow> tv_state \<Rightarrow> int
     \<Rightarrow> exn + tv_state" where
  "eval_half ext delta eval_loader save_path a fold_no epoch_max st epoch =
     (case evaluate (lib ext) (tv_model st) (iterate (\<lambda>xs. xs) eval_loader) delta a (max_r2 st) of
        Inl e \<Rightarrow> Inl e
      | Inr ((eval_loss, r2, mse, corr), plotted) \<Rightarrow>
          (let st1 = st\<lparr>events := events st @ [EmptyCache, Evaluate epoch]
                           @ (if plotted then [Plot fold_no r2] else [])\<rparr>;
               st2 = (if fl_less eval_loss (best_eval_loss st1)
                      then st1\<lparr>best_eval_loss := eval_loss,
                               events := events st1
                                 @ [Save (checkpoint_file save_path ''best_eval_loss'') (tv_model st1)]\<rparr>
                      else st1);
               st3 = (if fl_greater r2 (max_r2 st2)
                      then st2\<lparr>max_r2 := r2, min_mse := mse, max_corr := corr,
                               events := events st2
                                 @ [Save (checkpoint_file save_path ''best'') (tv_model st2)]\<rparr>
                      else st2)
           in Inr (st3\<lparr>events := events st3
                      @ [AppendRow (eval_log_path a epoch_max)
                           [CInt epoch, CFloat eval_loss, CFloat r2, CFloat mse, CFloat corr]]\<rparr>)))"

text \<open>
  One pass of the loop \<^verbatim>\<open>for epoch in range(1, num_epoch + 1)\<close>:
  \<^verbatim>\<open>
  train_loss, r2, mse, corr = train_epoch(model, train_loader, optimizer, loss, args)
  lr_scheduler.step()
  with open(train_log_path, 'a', newline='') as f:
      csv_writer.writerow([epoch, train_loss, r2, mse, corr])
  save(model, tokenizer, save_path, 'last')
  if train_loss < best_loss:
      best_loss = train_loss
  if epoch_val is not None and epoch % epoch_val == 0:
      ...
  \<close>
\<close>

definition tv_epoch ::
  "externals \<Rightarrow> real \<Rightarrow> DataLoader \<Rightarrow> DataLoader \<Rightarrow> string \<Rightarrow> args \<Rightarrow> nat \<Rightarrow> int \<Rightarrow> tv_state \<Rightarrow> int
     \<Rightarrow> exn + tv_state" where
  "tv_epoch ext delta train_loader eval_loader save_path a fold_no epoch_max st epoch =
     (case train_epoch (lib ext) (step ext) (tv_model st)
             (iterate (shuffle ext fold_no epoch) train_loader) (tv_optimizer st) delta a of
        Inl e \<Rightarrow> Inl e
      | Inr (model', optimizer', train_loss, r2, mse, corr) \<Rightarrow>
          (case scheduler_step (get_lr ext) (tv_scheduler st) optimizer' of
             (scheduler', optimizer'') \<Rightarrow>
               (let st1 = st\<lparr>tv_model := model', tv_optimizer := optimizer'',
                              tv_scheduler := scheduler',
                              events := events st
                                @ [TrainEpoch epoch, SchedulerStep,
                                   AppendRow (train_log_path a epoch_max)
                                     [CInt epoch, CFloat train_loss, CFloat r2, CFloat mse, CFloat corr],
                                   Save (checkpoint_file save_path ''last'') model']\<rparr>;
                    st2 = (if fl_less train_loss (best_loss st1)
                           then st1\<lparr>best_loss := train_loss\<rparr> else st1)
                in if epoch mod epoch_val = 0
                   then eval_half ext delta eval_loader save_path a fold_no epoch_max st2 epoch
                   else Inr st2)))"

text \<open>
  \<^verbatim>\<open>
  def train_and_validate(model, tokenizer, loss, optimizer, num_epoch, batch_size,
                         lr_scheduler, train_loader, eval_loader, save_path, args, fold):
      epoch_max = num_epoch
      epoch_val = 1
      max_r2 = -1e8
      min_mse = 1e8
      max_corr = -1e8
      best_loss = 1e8
      best_eval_loss = 1e8
      ...
      for epoch in range(1, num_epoch + 1):
          ...
      return max_r2, min_mse, max_corr
  \<close>
  The model returns the final state, which holds the three returned values.
\<close>

definition tv_init :: "CodenBert \<Rightarrow> AdamW \<Rightarrow> CosineAnnealingLR \<Rightarrow> tv_state" where
  "tv_init model optimizer lr_scheduler =
     \<lparr>tv_model = model, tv_optimizer = optimizer, tv_scheduler = lr_scheduler,
      max_r2 = Fin (- 100000000), min_mse = Fin 100000000, max_corr = Fin (- 100000000),
      best_loss = Fin 100000000, best_eval_loss = Fin 100000000, events = []\<rparr>"

definition train_and_validate ::
  "externals \<Rightarrow> CodenBert \<Rightarrow> real \<Rightarrow> AdamW \<Rightarrow> int \<Rightarrow> CosineAnnealingLR \<Rightarrow> DataLoader \<Rightarrow> DataLoader
     \<Rightarrow> string \<Rightarrow> args \<Rightarrow> nat \<Rightarrow> exn + tv_state" where
  "train_and_validate ext model delta optimizer num_epoch lr_scheduler train_loader eval_loader
       save_path a fold_no =
     foldM_e (tv_epoch ext delta train_loader eval_loader save_path a fold_no num_epoch)
       (tv_init model optimizer lr_scheduler) [1..num_epoch]"

section \<open>Fold orchestrator\<close>

text \<open>
  The variables of the fold loop of \<^verbatim>\<open>main\<close>: the three lists of per-fold results and
  the events so far.
\<close>

record main_state =
  m_r2_list :: "pyfloat list"
  m_mse_list :: "pyfloat list"
  m_corr_list :: "pyfloat list"
  m_events :: "event list"

text \<open>
  \<^verbatim>\<open>
  additional_feature_dim = 0
  if args.aa:
      additional_feature_dim += 21
  if args.protein:
      additional_feature_dim += 6
  if args.ss:
      additional_feature_dim += 8
  \<close>
\<close>

definition additional_feature_dim :: "args \<Rightarrow> nat" where
  "additional_feature_dim a =
     (let d0 = 0;
          d1 = (if aa a then d0 + 21 else d0);
          d2 = (if protein a then d1 + 6 else d1);
          d3 = (if ss a then d2 + 8 else d2)
      in d3)"

text \<open>
  The objects a fold constructs:
  \<^verbatim>\<open>
  if args.calm:
      bert_model = CaLM()
  else:
      bert_model = BertModel.from_pretrained(model_path, config=config, cache_dir=args.cache_dir)
  model = CodenBert(bert_model, num_labels=1,
                    additional_feature_dim=additional_feature_dim, args=args).to(device)
  optimizer = AdamW(model.parameters(), lr=args.learning_rate)
  lr_scheduler = CosineAnnealingLR(optimizer, T_max=num_epoch, eta_min=lr_min)
  \<close>
\<close>

definition new_encoder :: "externals \<Rightarrow> args \<Rightarrow> nat \<Rightarrow> encoder" where
  "new_encoder ext a i =
     (if calm a then (case new_CaLM ext i of (f, embed_dim) \<Rightarrow> CaLM f embed_dim)
      else (case from_pretrained ext i of (f, h) \<Rightarrow> BertModel f h))"

definition new_model :: "externals \<Rightarrow> args \<Rightarrow> nat \<Rightarrow> exn + CodenBert" where
  "new_model ext a i =
     CodenBert_init (init ext i) (new_encoder ext a i) 1 (additional_feature_dim a) a"

definition new_AdamW :: "real \<Rightarrow> AdamW" where
  "new_AdamW rate = \<lparr>lr = rate, opt_state = []\<rparr>"

text \<open>
  \<^verbatim>\<open>
  train_file = os.path.join(base_path, f"E.coli.summary.add.pro.SS_{i}_train.txt")
  test_file = os.path.join(base_path, f"E.coli.summary.add.pro.SS_{i}_test.txt")
  train_dataset = GeneSequenceDataset(train_file, ...) if args.do_train else None
  test_dataset = GeneSequenceDataset(test_file, ...) if args.do_eval else None
  print("train dataset: ", len(train_dataset))
  print("test dataset: ", len(test_dataset))
  train_loader = DataLoader(train_dataset, batch_size=batch_size, shuffle=True)
  test_loader = DataLoader(test_dataset, batch_size=1)
  \<close>
  \<^verbatim>\<open>len(None)\<close> raises \<open>TypeError\<close>.
\<close>

definition train_file :: "args \<Rightarrow> nat \<Rightarrow> string" where
  "train_file a i =
     os_path_join (data_dir a) (''E.coli.summary.add.pro.SS_'' @ str_nat i @ ''_train.txt'')"

definition test_file :: "args \<Rightarrow> nat \<Rightarrow> string" where
  "test_file a i =
     os_path_join (data_dir a) (''E.coli.summary.add.pro.SS_'' @ str_nat i @ ''_test.txt'')"

definition load_datasets :: "externals \<Rightarrow> args \<Rightarrow> nat \<Rightarrow> exn + (sample list \<times> sample list)" where
  "load_datasets ext a i =
     (case (if do_train a then
              (case GeneSequenceDataset ext (train_file a i) of
                 Inl e \<Rightarrow> Inl e | Inr d \<Rightarrow> Inr (Some d))
            else Inr None) of
        Inl e \<Rightarrow> Inl e
      | Inr train_dataset \<Rightarrow>
     (case (if do_eval a then
              (case GeneSequenceDataset ext (test_file a i) of
                 Inl e \<Rightarrow> Inl e | Inr d \<Rightarrow> Inr (Some d))
            else Inr None) of
        Inl e \<Rightarrow> Inl e
      | Inr test_dataset \<Rightarrow>
     (case train_dataset of
        None \<Rightarrow> Inl TypeError
      | Some tr \<Rightarrow>
     (case test_dataset of
        None \<Rightarrow> Inl TypeError
      | Some te \<Rightarrow> Inr (tr, te)))))"

definition new_loaders :: "args \<Rightarrow> sample list \<Rightarrow> sample list \<Rightarrow> exn + (DataLoader \<times> DataLoader)" where
  "new_loaders a train_dataset test_dataset =
     (case new_DataLoader train_dataset (batch_size a) True of
        Inl e \<Rightarrow> Inl e
      | Inr train_loader \<Rightarrow>
          (case new_DataLoader test_dataset 1 False of
             Inl e \<Rightarrow> Inl e
           | Inr test_loader \<Rightarrow> Inr (train_loader, test_loader)))"

text \<open>
  One fold, up to the return of \<^verbatim>\<open>train_and_validate\<close>:
  \<^verbatim>\<open>
  loss = MaskedHuberLoss()
  save_path = os.path.join(args.output_dir, f'checkpoints/fold_{i+1}')
  max_r2, min_mse, max_corr = train_and_validate(model, tokenizer, loss, optimizer, num_epoch,
      batch_size, lr_scheduler, train_loader, test_loader, save_path, args, fold=i+1)
  \<close>
\<close>

definition save_path_of :: "args \<Rightarrow> nat \<Rightarrow> string" where
  "save_path_of a i = os_path_join (output_dir a) (''checkpoints/fold_'' @ str_nat (i + 1))"

definition run_fold :: "externals \<Rightarrow> args \<Rightarrow> nat \<Rightarrow> exn + tv_state" where
  "run_fold ext a i =
     (case new_model ext a i of
        Inl e \<Rightarrow> Inl e
      | Inr model \<Rightarrow>
     (case load_datasets ext a i of
        Inl e \<Rightarrow> Inl e
      | Inr (train_dataset, test_dataset) \<Rightarrow>
     (case new_loaders a train_dataset test_dataset of
        Inl e \<Rightarrow> Inl e
      | Inr (train_loader, test_loader) \<Rightarrow>
          (let optimizer = new_AdamW (learning_rate a);
               num_epoch = num_train_epochs a;
               lr_scheduler = new_CosineAnnealingLR optimizer num_epoch (lr_min a)
           in train_and_validate ext model 1 optimizer num_epoch lr_scheduler train_loader
                test_loader (save_path_of a i) a (i + 1)))))"

text \<open>
  The body of \<^verbatim>\<open>for i in range(10)\<close> after the fold has run:
  \<^verbatim>\<open>
  with open(best_result_path, 'a', newline='') as f:
      csv_writer.writerow([i+1, max_r2, min_mse, max_corr])
  r2_list.append(max_r2)
  mse_list.append(min_mse)
  corr_list.append(max_corr)
  \<close>
\<close>

definition fold_body :: "externals \<Rightarrow> args \<Rightarrow> main_state \<Rightarrow> nat \<Rightarrow> exn + main_state" where
  "fold_body ext a ms i =
     (case run_fold ext a i of
        Inl e \<Rightarrow> Inl e
      | Inr st \<Rightarrow>
          Inr (ms\<lparr>m_events := m_events ms @ events st
                     @ [AppendRow (best_result_path a)
                          [CInt (int i + 1), CFloat (max_r2 st), CFloat (min_mse st),
                           CFloat (max_corr st)]],
                  m_r2_list := m_r2_list ms @ [max_r2 st],
                  m_mse_list := m_mse_list ms @ [min_mse st],
                  m_corr_list := m_corr_list ms @ [max_corr st]\<rparr>))"

text \<open>
  \<^verbatim>\<open>main\<close>, from the parsed arguments on:
  \<^verbatim>\<open>
  if args.aa or args.protein or args.ss: ...      # use_additional_feature
  if args.should_continue:
      sorted_checkpoints = _sorted_checkpoints(args)   # not defined anywhere: NameError
  ...
  for i in range(10):
      ...
  average_r2 = sum(r2_list) / len(r2_list)
  average_mse = sum(mse_list) / len(mse_list)
  average_corr = sum(corr_list) / len(corr_list)
  \<close>
  The model returns the three averages and the events of the run.
\<close>

definition main :: "externals \<Rightarrow> args \<Rightarrow> exn + ((pyfloat \<times> pyfloat \<times> pyfloat) \<times> event list)" where
  "main ext args0 =
     (let a = set_use_additional_feature args0 in
      if should_continue a then Inl NameError
      else
     (case foldM_e (fold_body ext a)
             \<lparr>m_r2_list = [], m_mse_list = [], m_corr_list = [], m_events = []\<rparr> [0..<10] of
        Inl e \<Rightarrow> Inl e
      | Inr ms \<Rightarrow>
     (case sum_div_len (m_r2_list ms) of
        Inl e \<Rightarrow> Inl e
      | Inr average_r2 \<Rightarrow>
     (case sum_div_len (m_mse_list ms) of
        Inl e \<Rightarrow> Inl e
      | Inr average_mse \<Rightarrow>
     (case sum_div_len (m_corr_list ms) of
        Inl e \<Rightarrow> Inl e
      | Inr average_corr \<Rightarrow> Inr ((average_r2, average_mse, average_corr), m_events ms))))))"

section \<open>What a run shows\<close>

text \<open>
  The state of a fold after its first \<open>k\<close> epochs: the loop of
  \<^verbatim>\<open>train_and_validate\<close> cut after epoch \<open>k\<close>. The whole call is the case
  \<open>k = num_epoch\<close>.
\<close>

definition tv_after ::
  "externals \<Rightarrow> CodenBert \<Rightarrow> real \<Rightarrow> AdamW \<Rightarrow> int \<Rightarrow> CosineAnnealingLR \<Rightarrow> DataLoader \<Rightarrow> DataLoader
     \<Rightarrow> string \<Rightarrow> args \<Rightarrow> nat \<Rightarrow> int \<Rightarrow> exn + tv_state" where
  "tv_after ext model delta optimizer num_epoch lr_scheduler train_loader eval_loader save_path a
       fold_no k =
     foldM_e (tv_epoch ext delta train_loader eval_loader save_path a fold_no num_epoch)
       (tv_init model optimizer lr_scheduler) [1..k]"

text \<open>
  The values one epoch produces: the model after its training pass, the four values of
  the training pass and the four of the evaluation pass.
\<close>

record outcome =
  o_epoch :: int
  o_model :: CodenBert
  o_train_loss :: pyfloat
  o_train_r2 :: pyfloat
  o_train_mse :: pyfloat
  o_train_corr :: pyfloat
  o_eval_loss :: pyfloat
  o_r2 :: pyfloat
  o_mse :: pyfloat
  o_corr :: pyfloat

text \<open>
  Keeping the better of a running value and a new one, under Python's comparisons: the
  new value replaces the running one only when it is strictly greater (strictly less).
\<close>

definition better_max :: "pyfloat \<Rightarrow> pyfloat \<Rightarrow> pyfloat" where
  "better_max best v = (if fl_greater v best then v else best)"

definition better_min :: "pyfloat \<Rightarrow> pyfloat \<Rightarrow> pyfloat" where
  "better_min best v = (if fl_less v best then v else best)"

text \<open>The running values before epoch number \<open>j\<close> (counted from 0) of a list of outcomes.\<close>

definition r2_before :: "outcome list \<Rightarrow> nat \<Rightarrow> pyfloat" where
  "r2_before outs j = foldl better_max (Fin (- 100000000)) (map o_r2 (take j outs))"

definition eval_loss_before :: "outcome list \<Rightarrow> nat \<Rightarrow> pyfloat" where
  "eval_loss_before outs j = foldl better_min (Fin 100000000) (map o_eval_loss (take j outs))"

definition train_loss_before :: "outcome list \<Rightarrow> nat \<Rightarrow> pyfloat" where
  "train_loss_before outs j = foldl better_min (Fin 100000000) (map o_train_loss (take j outs))"

text \<open>
  The triple of the best R2 with the MSE and correlation of the same evaluation: a new
  triple replaces the running one when its R2 is strictly greater.
\<close>

definition better_triple ::
  "pyfloat \<times> pyfloat \<times> pyfloat \<Rightarrow> pyfloat \<times> pyfloat \<times> pyfloat \<Rightarrow> pyfloat \<times> pyfloat \<times> pyfloat" where
  "better_triple best v = (if fl_greater (fst v) (fst best) then v else best)"

definition eval_triple :: "outcome \<Rightarrow> pyfloat \<times> pyfloat \<times> pyfloat" where
  "eval_triple x = (o_r2 x, o_mse x, o_corr x)"

text \<open>The rows of the two logs that an outcome gives.\<close>

definition train_row :: "outcome \<Rightarrow> cell list" where
  "train_row x =
     [CInt (o_epoch x), CFloat (o_train_loss x), CFloat (o_train_r2 x), CFloat (o_train_mse x),
      CFloat (o_train_corr x)]"

definition eval_row :: "outcome \<Rightarrow> cell list" where
  "eval_row x =
     [CInt (o_epoch x), CFloat (o_eval_loss x), CFloat (o_r2 x), CFloat (o_mse x), CFloat (o_corr x)]"

text \<open>Observers of a list of events.\<close>

fun csv_rows :: "string \<Rightarrow> event list \<Rightarrow> cell list list" where
  "csv_rows p [] = []"
| "csv_rows p (AppendRow q row # evs) = (if q = p then row # csv_rows p evs else csv_rows p evs)"
| "csv_rows p (_ # evs) = csv_rows p evs"

fun saves :: "event list \<Rightarrow> (string \<times> CodenBert) list" where
  "saves [] = []"
| "saves (Save p m # evs) = (p, m) # saves evs"
| "saves (_ # evs) = saves evs"

fun plots :: "event list \<Rightarrow> (nat \<times> pyfloat) list" where
  "plots [] = []"
| "plots (Plot f s # evs) = (f, s) # plots evs"
| "plots (_ # evs) = plots evs"

text \<open>The calls and schedule steps among the events, in order.\<close>

fun is_pass_or_step :: "event \<Rightarrow> bool" where
  "is_pass_or_step (TrainEpoch e) = True"
| "is_pass_or_step SchedulerStep = True"
| "is_pass_or_step (Evaluate e) = True"
| "is_pass_or_step _ = False"

definition passes_and_steps :: "event list \<Rightarrow> event list" where
  "passes_and_steps evs = filter is_pass_or_step evs"

text \<open>
  The checkpoint writes of one epoch, given the running values before it: \<^verbatim>\<open>last\<close>
  always, \<^verbatim>\<open>best_eval_loss\<close> when the evaluation loss is strictly lower, \<^verbatim>\<open>best\<close>
  when R2 is strictly higher; each holds the model after the epoch's training pass.
\<close>

definition epoch_saves :: "string \<Rightarrow> pyfloat \<Rightarrow> pyfloat \<Rightarrow> outcome \<Rightarrow> (string \<times> CodenBert) list" where
  "epoch_saves save_path eval_loss_so_far r2_so_far x =
     [(checkpoint_file save_path ''last'', o_model x)]
     @ (if fl_less (o_eval_loss x) eval_loss_so_far
        then [(checkpoint_file save_path ''best_eval_loss'', o_model x)] else [])
     @ (if fl_greater (o_r2 x) r2_so_far
        then [(checkpoint_file save_path ''best'', o_model x)] else [])"

text \<open>A short view of the state after a run, for the concrete runs.\<close>

definition tv_view ::
  "exn + tv_state \<Rightarrow> exn + (pyfloat \<times> pyfloat \<times> pyfloat \<times> pyfloat \<times> pyfloat)" where
  "tv_view r =
     (case r of
        Inl e \<Rightarrow> Inl e
      | Inr st \<Rightarrow> Inr (max_r2 st, min_mse st, max_corr st, best_loss st, best_eval_loss st))"

definition tv_events :: "exn + tv_state \<Rightarrow> event list" where
  "tv_events r = (case r of Inl e \<Rightarrow> [] | Inr st \<Rightarrow> events st)"

text \<open>
  The events of one epoch, given the running evaluation loss and R2 before it, and the
  events of a sequence of epochs.
\<close>

definition epoch_events ::
  "string \<Rightarrow> args \<Rightarrow> nat \<Rightarrow> int \<Rightarrow> pyfloat \<Rightarrow> pyfloat \<Rightarrow> outcome \<Rightarrow> event list" where
  "epoch_events save_path a fold_no epoch_max eval_loss_so_far r2_so_far x =
     [TrainEpoch (o_epoch x), SchedulerStep,
      AppendRow (train_log_path a epoch_max) (train_row x),
      Save (checkpoint_file save_path ''last'') (o_model x),
      EmptyCache, Evaluate (o_epoch x)]
     @ (if fl_greater (o_r2 x) r2_so_far then [Plot fold_no (o_r2 x)] else [])
     @ (if fl_less (o_eval_loss x) eval_loss_so_far
        then [Save (checkpoint_file save_path ''best_eval_loss'') (o_model x)] else [])
     @ (if fl_greater (o_r2 x) r2_so_far
        then [Save (checkpoint_file save_path ''best'') (o_model x)] else [])
     @ [AppendRow (eval_log_path a epoch_max) (eval_row x)]"

fun loop_events ::
  "string \<Rightarrow> args \<Rightarrow> nat \<Rightarrow> int \<Rightarrow> pyfloat \<Rightarrow> pyfloat \<Rightarrow> outcome list \<Rightarrow> event list" where
  "loop_events save_path a fold_no epoch_max eval_loss_so_far r2_so_far [] = []"
| "loop_events save_path a fold_no epoch_max eval_loss_so_far r2_so_far (x # xs) =
     epoch_events save_path a fold_no epoch_max eval_loss_so_far r2_so_far x
     @ loop_events save_path a fold_no epoch_max
         (better_min eval_loss_so_far (o_eval_loss x)) (better_max r2_so_far (o_r2 x)) xs"

text \<open>One column of a list of rows, and the names of the files written.\<close>

definition column :: "nat \<Rightarrow> cell list list \<Rightarrow> cell list" where
  "column k rows = map (\<lambda>row. row ! k) rows"

definition saved_files :: "event list \<Rightarrow> string list" where
  "saved_files evs = map fst (saves evs)"

text \<open>
  What a file holds after a list of writes: the content of the last write to it (a write
  replaces the file).
\<close>

fun final_write :: "string \<Rightarrow> (string \<times> 'a) list \<Rightarrow> 'a option" where
  "final_write p [] = None"
| "final_write p ((q, c) # ws) =
     (case final_write p ws of
        Some c' \<Rightarrow> Some c'
      | None \<Rightarrow> if q = p then Some c else None)"

text \<open>The checkpoint writes with the regressor's bias of the model written.\<close>

definition regressor_bias :: "CodenBert \<Rightarrow> real list" where
  "regressor_bias m = bias (regressor m)"

definition saved_biases :: "event list \<Rightarrow> (string \<times> real list) list" where
  "saved_biases evs = map (\<lambda>w. (fst w, regressor_bias (snd w))) (saves evs)"

text \<open>
  The row of the cross-fold summary that fold \<open>i\<close> (counted from 0) appends, and what a
  whole run returns and does.
\<close>

definition summary_row :: "nat \<Rightarrow> tv_state \<Rightarrow> cell list" where
  "summary_row i st = [CInt (int i + 1), CFloat (max_r2 st), CFloat (min_mse st), CFloat (max_corr st)]"

definition main_view ::
  "exn + ((pyfloat \<times> pyfloat \<times> pyfloat) \<times> event list) \<Rightarrow> exn + (pyfloat \<times> pyfloat \<times> pyfloat)" where
  "main_view r = (case r of Inl e \<Rightarrow> Inl e | Inr (avgs, evs) \<Rightarrow> Inr avgs)"

definition main_events :: "exn + ((pyfloat \<times> pyfloat \<times> pyfloat) \<times> event list) \<Rightarrow> event list" where
  "main_events r = (case r of Inl e \<Rightarrow> [] | Inr (avgs, evs) \<Rightarrow> evs)"

section \<open>A small concrete configuration\<close>

text \<open>
  A toy instance of the external collaborators, for the concrete runs: an encoder of
  width 1 whose hidden representation of a token is its id, linear layers that start
  with every weight 1 and every bias 0, an optimizer step that raises the regressor's
  bias by 1, a schedule that sets the floor rate, loaders that do not permute, the metric library as documented, and a
  dataset reader that returns one list for the training files and one for the test files.
\<close>

definition toy_hidden :: "int list list \<Rightarrow> tensor3" where
  "toy_hidden ids = map (map (\<lambda>i. [real_of_int i])) ids"

definition toy_init :: init_params where
  "toy_init =
     \<lparr>regressor_w = (\<lambda>j k. 1), regressor_b = (\<lambda>j. 0),
      additional_w = (\<lambda>j k. 1), additional_b = (\<lambda>j. 0),
      down_w = (\<lambda>j k. 1), down_b = (\<lambda>j. 0)\<rparr>"

definition toy_step :: optimizer_step where
  "toy_step optimizer model b additional_features =
     (optimizer, model\<lparr>regressor := (regressor model)\<lparr>bias := map (\<lambda>x. x + 1) (bias (regressor model))\<rparr>\<rparr>)"

definition toy_sample :: "int list \<Rightarrow> real list \<Rightarrow> real list \<Rightarrow> sample" where
  "toy_sample ids dens valid =
     \<lparr>s_input_ids = ids, s_attention_mask = map (\<lambda>_. 1) ids,
      s_token_type_ids = map (\<lambda>_. 0) ids, s_density = dens, s_valid_sequence = valid,
      s_aa = map (\<lambda>_. [1]) ids, s_pro_feature = map (\<lambda>_. [2]) ids,
      s_ss = map (\<lambda>_. [3]) ids\<rparr>"

definition toy_reader :: "sample list \<Rightarrow> sample list \<Rightarrow> string \<Rightarrow> exn + sample list" where
  "toy_reader train_set test_set path =
     (if rev path ! 8 = CHR ''_'' then Inr test_set else Inr train_set)"

definition toy_ext :: "sample list \<Rightarrow> sample list \<Rightarrow> externals" where
  "toy_ext train_set test_set =
     \<lparr>lib = documented_lib, step = toy_step, get_lr = eta_min, shuffle = (\<lambda>fold_no epoch xs. xs),
      new_CaLM = (\<lambda>i. (toy_hidden, 1)),
      from_pretrained = (\<lambda>i. (\<lambda>ids am tts. toy_hidden ids, 1)),
      init = (\<lambda>i. toy_init),
      GeneSequenceDataset = toy_reader train_set test_set\<rparr>"

definition toy_args :: "int \<Rightarrow> args" where
  "toy_args n =
     \<lparr>data_dir = ''data'', output_dir = ''out'', should_continue = False, do_train = True,
      do_eval = True, batch_size = 16, learning_rate = 5 / 100000, lr_min = 1 / 10000000,
      num_train_epochs = n, aa = False, protein = False, ss = False, calm = False,
      use_additional_feature = False\<rparr>"

text \<open>The fusion head that a fold constructs from these, without auxiliary features.\<close>

definition toy_model :: CodenBert where
  "toy_model =
     \<lparr>bert = BertModel (\<lambda>ids am tts. toy_hidden ids) 1, self_args = toy_args 1,
      self_calm = False, hidden_size = 1, regressor = nn_Linear 1 1 (\<lambda>j k. 1) (\<lambda>j. 0),
      additional_feature_layer = nn_Linear 0 1 (\<lambda>j k. 1) (\<lambda>j. 0),
      down_project = nn_Linear 2 1 (\<lambda>j k. 1) (\<lambda>j. 0)\<rparr>"

text \<open>A batch of one sequence of two positions, with auxiliary features 1 wide each.\<close>

definition toy_batch :: batch where
  "toy_batch = collate [toy_sample [0, 1] [1, 2] [1, 1]]"

text \<open>A second batch, and an optimizer step that leaves the model as it is.\<close>

definition toy_batch' :: batch where
  "toy_batch' = collate [toy_sample [0, 1] [0, 1] [1, 1]]"

definition idle_step :: optimizer_step where
  "idle_step optimizer model b additional_features = (optimizer, model)"

text \<open>Two sequences, as a training or test set.\<close>

definition toy_set :: "sample list" where
  "toy_set = [toy_sample [0, 1] [1, 2] [1, 1], toy_sample [0, 1] [0, 1] [1, 1]]"

text \<open>
  Datasets of one sequence of two positions for the concrete runs: a training set, a test
  set, a test set whose targets are nearly equal, a test set whose targets are equal, and
  a training set and a test set with one valid position.
\<close>

definition train_set1 :: "sample list" where
  "train_set1 = [toy_sample [0, 1] [1, 2] [1, 1]]"

definition test_set1 :: "sample list" where
  "test_set1 = [toy_sample [0, 1] [0, 1] [1, 1]]"

definition test_set_near_constant :: "sample list" where
  "test_set_near_constant = [toy_sample [0, 1] [0, 1 / 10000] [1, 1]]"

definition test_set_constant :: "sample list" where
  "test_set_constant = [toy_sample [0, 1] [1, 1] [1, 1]]"

definition train_set_one_valid :: "sample list" where
  "train_set_one_valid = [toy_sample [0, 1] [1, 2] [1, 0]]"

definition test_set_one_valid :: "sample list" where
  "test_set_one_valid = [toy_sample [0, 1] [0, 1] [1, 0]]"

text \<open>
  The first \<open>k\<close> epochs of a fold of \<open>n\<close> epochs on these, with the objects as
  \<^verbatim>\<open>main\<close> constructs them for its first fold.
\<close>

definition toy_run :: "sample list \<Rightarrow> sample list \<Rightarrow> int \<Rightarrow> int \<Rightarrow> exn + tv_state" where
  "toy_run train_set test_set n k =
     tv_after (toy_ext train_set test_set) toy_model 1 (new_AdamW (5 / 100000)) n
       (new_CosineAnnealingLR (new_AdamW (5 / 100000)) n (1 / 10000000))
       \<lparr>dl_dataset = train_set, dl_batch_size = 16, dl_shuffle = True\<rparr>
       \<lparr>dl_dataset = test_set, dl_batch_size = 1, dl_shuffle = False\<rparr>
       ''out/checkpoints/fold_1'' (toy_args 1) 1 k"

text \<open>
  Two batches of one sequence of three positions whose last position is not valid, and a
  batch with one valid position.
\<close>

definition masked_batch :: batch where
  "masked_batch = collate [toy_sample [0, 1, 5] [1, 2, 0] [1, 1, 0]]"

definition masked_batch' :: batch where
  "masked_batch' = collate [toy_sample [0, 1, 7] [0, 1, 0] [1, 1, 0]]"

definition one_valid_batch :: batch where
  "one_valid_batch = collate [toy_sample [0, 1] [1, 2] [1, 0]]"

text \<open>
  A test set whose first sequence has no position (the loss of its batch is the mean of
  no element), a metric library whose \<^verbatim>\<open>r2_score\<close> returns NaN, and a dataset reader
  that gives the second fold a training set with one valid position.
\<close>

definition test_set_empty_sequence :: "sample list" where
  "test_set_empty_sequence = [toy_sample [] [] [], toy_sample [0, 1] [0, 1] [1, 1]]"

definition nan_r2_lib :: metrics_lib where
  "nan_r2_lib = documented_lib\<lparr>r2_score := (\<lambda>y_true y_pred. Inr NaN)\<rparr>"

definition nan_r2_ext :: externals where
  "nan_r2_ext = (toy_ext train_set1 test_set1)\<lparr>lib := nan_r2_lib\<rparr>"

definition nan_r2_run :: "int \<Rightarrow> int \<Rightarrow> exn + tv_state" where
  "nan_r2_run n k =
     tv_after nan_r2_ext toy_model 1 (new_AdamW (5 / 100000)) n
       (new_CosineAnnealingLR (new_AdamW (5 / 100000)) n (1 / 10000000))
       \<lparr>dl_dataset = train_set1, dl_batch_size = 16, dl_shuffle = True\<rparr>
       \<lparr>dl_dataset = test_set1, dl_batch_size = 1, dl_shuffle = False\<rparr>
       ''out/checkpoints/fold_1'' (toy_args 1) 1 k"

definition second_fold_reader :: "string \<Rightarrow> exn + sample list" where
  "second_fold_reader path =
     (if path = ''data/E.coli.summary.add.pro.SS_1_train.txt'' then Inr train_set_one_valid
      else toy_reader train_set1 test_set1 path)"

definition second_fold_ext :: externals where
  "second_fold_ext = (toy_ext train_set1 test_set1)\<lparr>GeneSequenceDataset := second_fold_reader\<rparr>"
section \<open>Properties of the masked regression loss\<close>


lemma concat_map2_map2:
  "map length a = map length b \<Longrightarrow> concat (map2 (map2 f) a b) = map2 f (concat a) (concat b)"
proof (induction a arbitrary: b)
  case Nil
  then show ?case by simp
next
  case (Cons x xs)
  then obtain y ys where b: "b = y # ys" by (cases b) auto
  with Cons.prems have l: "length x = length y" and r: "map length xs = map length ys" by auto
  show ?case using Cons.IH[OF r] l by (simp add: b zip_append)
qed

lemma map_length_map2_map2:
  "map length a = map length b \<Longrightarrow> map length (map2 (map2 f) a b) = map length a"
proof (induction a arbitrary: b)
  case Nil
  then show ?case by simp
next
  case (Cons x xs)
  then obtain y ys where b: "b = y # ys" by (cases b) auto
  with Cons show ?case by auto
qed

lemma same_shape2_elementwise2:
  "same_shape2 a b \<Longrightarrow> same_shape2 (elementwise2 f a b) a"
  unfolding same_shape2_def elementwise2_def by (rule map_length_map2_map2)

lemma concat_elementwise2:
  "same_shape2 a b \<Longrightarrow> concat (elementwise2 f a b) = map2 f (concat a) (concat b)"
  unfolding same_shape2_def elementwise2_def by (rule concat_map2_map2)

lemma same_shape2_ones_like: "same_shape2 (ones_like t) t"
  by (simp add: same_shape2_def ones_like_def comp_def)

lemma concat_ones_like: "concat (ones_like t) = replicate (numel2 t) 1"
  unfolding ones_like_def numel2_def
  by (induction t) (simp_all add: replicate_add map_replicate_const)

lemma concat_zeros_like: "concat (zeros_like t) = replicate (numel2 t) 0"
  unfolding zeros_like_def numel2_def
  by (induction t) (simp_all add: replicate_add map_replicate_const)


lemma same_shape2_trans: "same_shape2 a b \<Longrightarrow> same_shape2 b c \<Longrightarrow> same_shape2 a c"
  by (simp add: same_shape2_def)

lemma same_shape2_concat_length: "same_shape2 a b \<Longrightarrow> length (concat a) = length (concat b)"
  unfolding same_shape2_def by (simp add: length_concat)

lemma masked_loss_general:
  assumes pl: "same_shape2 pred label" and vl: "same_shape2 valid label"
  shows "MaskedHuberLoss_forward delta pred label valid =
           Inr (torch_mean (masked_terms delta pred label valid))"
proof -
  have ov: "same_shape2 (ones_like label) valid"
    using same_shape2_ones_like vl by (simp add: same_shape2_def)
  let ?w = "elementwise2 (*) (ones_like label) valid"
  let ?u = "elementwise2 (huber delta) pred label"
  have wshape: "same_shape2 ?w label"
    using same_shape2_elementwise2[OF ov] same_shape2_ones_like by (simp add: same_shape2_def)
  have ushape: "same_shape2 ?u pred" by (rule same_shape2_elementwise2[OF pl])
  have uw: "same_shape2 ?u ?w" using ushape pl wshape by (simp add: same_shape2_def)
  have cw: "concat ?w = concat valid"
  proof -
    have "concat ?w = map2 (*) (replicate (numel2 label) 1) (concat valid)"
      by (simp add: concat_elementwise2[OF ov] concat_ones_like)
    moreover have "length (concat valid) = numel2 label"
      using same_shape2_concat_length[OF vl] by (simp add: numel2_def)
    ultimately show ?thesis
      by (simp add: list_eq_iff_nth_eq)
  qed
  have lp: "length (concat pred) = numel2 label"
    using same_shape2_concat_length[OF pl] by (simp add: numel2_def)
  have lv: "length (concat valid) = numel2 label"
    using same_shape2_concat_length[OF vl] by (simp add: numel2_def)
  have "concat (elementwise2 (*) ?u ?w) = map2 (*) (map2 (huber delta) (concat pred) (concat label)) (concat valid)"
    by (simp add: concat_elementwise2[OF uw] concat_elementwise2[OF pl] cw)
  also have "\<dots> = masked_terms delta pred label valid"
  proof (rule nth_equalityI)
    show "length (map2 (*) (map2 (huber delta) (concat pred) (concat label)) (concat valid))
            = length (masked_terms delta pred label valid)"
      using lp lv by (simp add: masked_terms_def numel2_def)
  next
    fix i
    assume "i < length (map2 (*) (map2 (huber delta) (concat pred) (concat label)) (concat valid))"
    then have i: "i < numel2 label" using lp lv by (simp add: numel2_def)
    then show "map2 (*) (map2 (huber delta) (concat pred) (concat label)) (concat valid) ! i
            = masked_terms delta pred label valid ! i"
      using lp lv by (simp add: masked_terms_def numel2_def)
  qed
  finally have fin: "concat (elementwise2 (*) ?u ?w) = masked_terms delta pred label valid" .
  have "MaskedHuberLoss_forward delta pred label valid = Inr (torch_mean (concat (elementwise2 (*) ?u ?w)))"
    unfolding MaskedHuberLoss_forward_def HuberLoss_forward_none_def Let_def
    by (simp only: ov pl uw if_True if_False not_True_eq_False sum.case)
  then show ?thesis by (simp only: fin)
qed


lemma sum_list_masked_terms:
  "sum_list (masked_terms delta pred label valid) =
     (\<Sum>i<numel2 label. huber delta (concat pred ! i) (concat label ! i) * (concat valid ! i))"
  unfolding masked_terms_def by (simp add: sum_list_sum_nth atLeast0LessThan)

lemma torch_mean_masked_terms:
  "torch_mean (masked_terms delta pred label valid) =
     (if numel2 label = 0 then NaN
      else Fin ((\<Sum>i<numel2 label. huber delta (concat pred ! i) (concat label ! i) * (concat valid ! i))
                  / real (numel2 label)))"
proof -
  have len: "length (masked_terms delta pred label valid) = numel2 label"
    by (simp add: masked_terms_def)
  have ne: "masked_terms delta pred label valid = [] \<longleftrightarrow> numel2 label = 0"
    using len by (metis length_0_conv)
  show ?thesis
    unfolding torch_mean_def by (simp only: ne len sum_list_masked_terms)
qed

lemma huber_mean_general:
  assumes pl: "same_shape2 pred label"
  shows "HuberLoss_forward_mean delta pred label =
           Inr (torch_mean (map2 (huber delta) (concat pred) (concat label)))"
  unfolding HuberLoss_forward_mean_def HuberLoss_forward_none_def
  using pl by (simp add: concat_elementwise2)

lemma masked_terms_ones:
  assumes pl: "same_shape2 pred label"
  shows "masked_terms delta pred label (ones_like label) = map2 (huber delta) (concat pred) (concat label)"
proof (rule nth_equalityI)
  have lp: "length (concat pred) = numel2 label"
    using same_shape2_concat_length[OF pl] by (simp add: numel2_def)
  show "length (masked_terms delta pred label (ones_like label)) = length (map2 (huber delta) (concat pred) (concat label))"
    using lp by (simp add: masked_terms_def numel2_def)
  fix i assume "i < length (masked_terms delta pred label (ones_like label))"
  then have "i < numel2 label" by (simp add: masked_terms_def)
  then show "masked_terms delta pred label (ones_like label) ! i = map2 (huber delta) (concat pred) (concat label) ! i"
    using lp by (simp add: masked_terms_def concat_ones_like numel2_def)
qed

lemma masked_terms_zeros:
  "masked_terms delta pred label (zeros_like label) = replicate (numel2 label) 0"
  by (rule nth_equalityI) (simp_all add: masked_terms_def concat_zeros_like)

text \<open>
  C1. For predictions, targets and validity indicators of one shape, the masked loss is
  the sum over all positions of the elementwise Huber loss times the validity indicator,
  divided by the total number of elements. With every position valid it is the standard
  Huber loss with mean reduction; with every position invalid (and at least one element)
  it is 0.
\<close>

theorem MaskedHuberLoss_mean_over_all_elements:
  assumes "same_shape2 pred label" and "same_shape2 valid label"
  shows "MaskedHuberLoss_forward delta pred label valid =
           Inr (if numel2 label = 0 then NaN
                else Fin ((\<Sum>i<numel2 label.
                             huber delta (concat pred ! i) (concat label ! i) * (concat valid ! i))
                          / real (numel2 label)))
         \<and> MaskedHuberLoss_forward delta pred label (ones_like label) =
             HuberLoss_forward_mean delta pred label
         \<and> (0 < numel2 label \<longrightarrow>
              MaskedHuberLoss_forward delta pred label (zeros_like label) = Inr (Fin 0))"
proof (intro conjI impI)
  show "MaskedHuberLoss_forward delta pred label valid =
           Inr (if numel2 label = 0 then NaN
                else Fin ((\<Sum>i<numel2 label.
                             huber delta (concat pred ! i) (concat label ! i) * (concat valid ! i))
                          / real (numel2 label)))"
    using masked_loss_general[OF assms] by (simp only: torch_mean_masked_terms)
next
  have "same_shape2 (ones_like label) label" by (rule same_shape2_ones_like)
  from masked_loss_general[OF assms(1) this]
  show "MaskedHuberLoss_forward delta pred label (ones_like label) = HuberLoss_forward_mean delta pred label"
    by (simp only: masked_terms_ones[OF assms(1)] huber_mean_general[OF assms(1)])
next
  assume pos: "0 < numel2 label"
  have "same_shape2 (zeros_like label) label"
    by (simp add: same_shape2_def zeros_like_def comp_def)
  from masked_loss_general[OF assms(1) this]
  show "MaskedHuberLoss_forward delta pred label (zeros_like label) = Inr (Fin 0)"
    using pos by (simp add: masked_terms_zeros torch_mean_def sum_list_replicate)
qed

theorem MaskedHuberLoss_mean_over_all_elements_witness:
  "same_shape2 [[1, 3], [0, 5::real]] [[1, 1], [2, 2::real]]
   \<and> same_shape2 [[1, 0], [1, 0::real]] [[1, 1], [2, 2::real]]
   \<and> MaskedHuberLoss_forward 1 [[1, 3], [0, 5]] [[1, 1], [2, 2]] [[1, 0], [1, 0]] = Inr (Fin (3 / 8))
   \<and> HuberLoss_forward_mean 1 [[1, 3], [0, 5]] [[1, 1], [2, 2]] = Inr (Fin (11 / 8))
   \<and> MaskedHuberLoss_forward 1 [[1, 3], [0, 5]] [[1, 1], [2, 2]] (ones_like [[1, 1], [2, 2]]) = Inr (Fin (11 / 8))
   \<and> MaskedHuberLoss_forward 1 [[1, 3], [0, 5]] [[1, 1], [2, 2]] (zeros_like [[1, 1], [2, 2]]) = Inr (Fin 0)"
proof -
  have s1: "same_shape2 [[1, 3], [0, 5::real]] [[1, 1], [2, 2::real]]"
    by (simp add: same_shape2_def)
  have s2: "same_shape2 [[1, 0], [1, 0::real]] [[1, 1], [2, 2::real]]"
    by (simp add: same_shape2_def)
  have n: "numel2 [[1, 1], [2, 2::real]] = 4" by (simp add: numel2_def)
  have m: "HuberLoss_forward_mean 1 [[1, 3], [0, 5]] [[1, 1], [2, 2]] = Inr (Fin (11 / 8))"
    by (simp add: HuberLoss_forward_mean_def HuberLoss_forward_none_def same_shape2_def
        elementwise2_def torch_mean_def huber_def)
  have lt: "{..<4::nat} = {0, 1, 2, 3}" by auto
  from MaskedHuberLoss_mean_over_all_elements[OF s1 s2, of 1]
  show ?thesis using s1 s2 m by (simp add: n lt huber_def)
qed
section \<open>Properties of the feature fusion head\<close>

lemma mapM_e_Inr:
  "mapM_e f xs = Inr ys \<Longrightarrow> length ys = length xs \<and> (\<forall>i<length xs. f (xs ! i) = Inr (ys ! i))"
proof (induction xs arbitrary: ys)
  case Nil
  then show ?case by simp
next
  case (Cons x xs)
  from Cons.prems obtain y ys' where fx: "f x = Inr y" and r: "mapM_e f xs = Inr ys'" and ys: "ys = y # ys'"
    by (auto split: sum.splits)
  from Cons.IH[OF r] have l: "length ys' = length xs" and a: "\<forall>i<length xs. f (xs ! i) = Inr (ys' ! i)" by auto
  show ?case
  proof (intro conjI allI impI)
    show "length ys = length (x # xs)" using l ys by simp
  next
    fix i assume "i < length (x # xs)"
    then show "f ((x # xs) ! i) = Inr (ys ! i)"
      using fx a ys by (cases i) auto
  qed
qed

lemma Linear_apply_length:
  "Linear_wf l \<Longrightarrow> Linear_apply l x = Inr y \<Longrightarrow> length y = out_features l"
  by (auto simp: Linear_wf_def Linear_apply_def split: if_splits)

lemma Linear_forward_shape:
  assumes "Linear_forward l t = Inr r"
  shows "same_shape2 r t"
proof -
  from assms have m: "mapM_e (mapM_e (Linear_apply l)) t = Inr r" by (simp add: Linear_forward_def)
  from mapM_e_Inr[OF m] have len: "length r = length t"
    and rows: "\<forall>i<length t. mapM_e (Linear_apply l) (t ! i) = Inr (r ! i)" by auto
  have "\<forall>i<length t. length (r ! i) = length (t ! i)"
    using rows mapM_e_Inr by blast
  then show ?thesis
    unfolding same_shape2_def using len by (simp add: list_eq_iff_nth_eq)
qed

lemma Linear_forward_width:
  assumes "Linear_forward l t = Inr r" and "Linear_wf l"
  shows "list_all (list_all (\<lambda>v. length v = out_features l)) r"
proof -
  from assms have m: "mapM_e (mapM_e (Linear_apply l)) t = Inr r" by (simp add: Linear_forward_def)
  from mapM_e_Inr[OF m] have len: "length r = length t"
    and rows: "\<forall>i<length t. mapM_e (Linear_apply l) (t ! i) = Inr (r ! i)" by auto
  have "\<forall>i<length r. \<forall>j<length (r ! i). length (r ! i ! j) = out_features l"
  proof (intro allI impI)
    fix i j assume i: "i < length r" and j: "j < length (r ! i)"
    from rows i len have ri: "mapM_e (Linear_apply l) (t ! i) = Inr (r ! i)" by simp
    from mapM_e_Inr[OF ri] j have "Linear_apply l (t ! i ! j) = Inr (r ! i ! j)" by simp
    then show "length (r ! i ! j) = out_features l"
      using Linear_apply_length[OF assms(2)] by blast
  qed
  then show ?thesis by (simp add: list_all_length)
qed

lemma relu_nonneg: "list_all (list_all (list_all (\<lambda>x. 0 \<le> x))) (relu t)"
  by (simp add: relu_def list_all_iff)

lemma relu_shape: "same_shape2 (relu t) t"
  by (simp add: relu_def same_shape2_def comp_def)

lemma relu_width:
  "list_all (list_all (\<lambda>v. length v = n)) t \<Longrightarrow> list_all (list_all (\<lambda>v. length v = n)) (relu t)"
  by (simp add: relu_def list_all_iff)

lemma same_shape2_map2_append:
  "same_shape2 a b \<Longrightarrow> same_shape2 (map2 (map2 f) a b) a"
  unfolding same_shape2_def by (rule map_length_map2_map2)

lemma torch_cat_last_pair_shape:
  "torch_cat_last [s, t] = Inr r \<Longrightarrow> same_shape2 r s"
  by (auto simp: same_shape2_map2_append split: if_splits)

lemma fuse_shape:
  assumes "fuse self h af = Inr h'"
  shows "same_shape2 h' h"
proof (cases "use_additional_feature (self_args self)")
  case False
  with assms show ?thesis by (simp add: fuse_def same_shape2_def)
next
  case True
  with assms obtain x afo fused fused' where
    af: "af = Some x" and
    a: "Linear_forward (additional_feature_layer self) x = Inr afo" and
    c: "torch_cat_last [h, afo] = Inr fused" and
    d: "Linear_forward (down_project self) fused = Inr fused'" and
    e: "h' = relu fused'"
    by (auto simp: fuse_def split: option.splits sum.splits simp del: torch_cat_last.simps)
  have "same_shape2 fused h" by (rule torch_cat_last_pair_shape[OF c])
  moreover have "same_shape2 fused' fused" by (rule Linear_forward_shape[OF d])
  moreover have "same_shape2 h' fused'" unfolding e by (rule relu_shape)
  ultimately show ?thesis by (simp add: same_shape2_def)
qed

lemma nn_Linear_wf: "Linear_wf (nn_Linear n_in n_out w0 b0)"
  by (simp add: Linear_wf_def nn_Linear_def list_all_iff)

lemma CodenBert_init_regressor:
  "CodenBert_init ini enc k d a = Inr m \<Longrightarrow>
     Linear_wf (regressor m) \<and> out_features (regressor m) = k \<and> in_features (regressor m) = hidden_size m"
  by (auto simp: CodenBert_init_def nn_Linear_wf split: sum.splits if_splits encoder.splits)
     (simp_all add: nn_Linear_def)

text \<open>
  C8. Whenever the fusion head returns, its output has one entry per position of the
  encoder's output (batch, sequence length), each a vector of exactly one value, and
  every value is non-negative: the rectified-linear unit is the last operation, after
  the regressor of output width 1 (the width \<^verbatim>\<open>main\<close> constructs it with).
\<close>

theorem CodenBert_forward_output:
  assumes fw: "CodenBert_forward self ids am tts af = Inr out"
      and wf: "Linear_wf (regressor self)"
      and one: "out_features (regressor self) = 1"
  shows "list_all (list_all (list_all (\<lambda>x. 0 \<le> x))) out
         \<and> list_all (list_all (\<lambda>v. length v = 1)) out
         \<and> (\<exists>h. encode self ids am tts = Inr h \<and> same_shape2 out h)"
proof -
  from fw obtain h h' p where
    enc: "encode self ids am tts = Inr h" and
    fu: "fuse self h af = Inr h'" and
    reg: "Linear_forward (regressor self) h' = Inr p" and
    out: "out = relu p"
    by (auto simp: CodenBert_forward_def split: sum.splits)
  have nonneg: "list_all (list_all (list_all (\<lambda>x. 0 \<le> x))) out"
    unfolding out by (rule relu_nonneg)
  have width: "list_all (list_all (\<lambda>v. length v = 1)) out"
    unfolding out using Linear_forward_width[OF reg wf] one by (simp add: relu_width)
  have "same_shape2 out p" unfolding out by (rule relu_shape)
  moreover have "same_shape2 p h'" by (rule Linear_forward_shape[OF reg])
  moreover have "same_shape2 h' h" by (rule fuse_shape[OF fu])
  ultimately have "same_shape2 out h" by (simp add: same_shape2_def)
  with enc nonneg width show ?thesis by blast
qed

lemma toy_model_init:
  "CodenBert_init toy_init (BertModel (\<lambda>ids am tts. toy_hidden ids) 1) 1 0 (toy_args 1) = Inr toy_model"
  by (simp add: CodenBert_init_def toy_model_def toy_args_def toy_init_def)

theorem CodenBert_forward_output_witness:
  "CodenBert_forward toy_model [[0, 2, - 3]] [[1, 1, 1]] [[0, 0, 0]] None = Inr [[[0], [2], [0]]]
   \<and> Linear_wf (regressor toy_model) \<and> out_features (regressor toy_model) = 1
   \<and> list_all (list_all (list_all (\<lambda>x. 0 \<le> x))) [[[0], [2], [0::real]]]
   \<and> list_all (list_all (\<lambda>v. length v = 1)) [[[0], [2], [0::real]]]
   \<and> (\<exists>h. encode toy_model [[0, 2, - 3]] [[1, 1, 1]] [[0, 0, 0]] = Inr h
          \<and> same_shape2 [[[0], [2], [0::real]]] h)"
proof -
  have fw: "CodenBert_forward toy_model [[0, 2, - 3]] [[1, 1, 1]] [[0, 0, 0]] None = Inr [[[0], [2], [0]]]"
    by (simp add: CodenBert_forward_def encode_def fuse_def toy_model_def toy_args_def toy_hidden_def
        Linear_forward_def Linear_apply_def nn_Linear_def dot_def relu_def)
  from CodenBert_init_regressor[OF toy_model_init]
  have wf: "Linear_wf (regressor toy_model)" and one: "out_features (regressor toy_model) = 1"
    by simp_all
  from CodenBert_forward_output[OF fw wf one] fw wf one show ?thesis by simp
qed










section \<open>Properties of the epoch runner\<close>

lemma foldM_e_append:
  "foldM_e f s (xs @ ys) = (case foldM_e f s xs of Inl e \<Rightarrow> Inl e | Inr s' \<Rightarrow> foldM_e f s' ys)"
  by (induction xs arbitrary: s) (auto split: sum.splits)

lemma train_batch_via_scores:
  "train_batch ml stp delta a st b =
     (case train_batch_scores ml delta a (ts_model st) b of
        Inl e \<Rightarrow> Inl e
      | Inr (af, s) \<Rightarrow>
          (case stp (ts_optimizer st) (ts_model st) b af of
             (optimizer', model') \<Rightarrow>
               Inr (st\<lparr>ts_model := model', ts_optimizer := optimizer',
                       r2_list := r2_list st @ [b_r2 s], mse_list := mse_list st @ [b_mse s],
                       corr_list := corr_list st @ [b_corr s],
                       loss_list := loss_list st @ [b_loss s]\<rparr>)))"
  by (simp add: train_batch_def train_batch_scores_def split: sum.splits prod.splits)

lemma train_loop_values:
  "foldM_e (train_batch ml stp delta a) st bs =
     (case train_values ml stp delta a (ts_model st) (ts_optimizer st) bs of
        Inl e \<Rightarrow> Inl e
      | Inr (model', optimizer', scs) \<Rightarrow>
          Inr (st\<lparr>ts_model := model', ts_optimizer := optimizer',
                  r2_list := r2_list st @ map b_r2 scs, mse_list := mse_list st @ map b_mse scs,
                  corr_list := corr_list st @ map b_corr scs,
                  loss_list := loss_list st @ map b_loss scs\<rparr>))"
proof (induction bs arbitrary: st)
  case Nil
  show ?case by simp
next
  case (Cons b bs)
  show ?case
  proof (cases "train_batch_scores ml delta a (ts_model st) b")
    case (Inl e)
    then show ?thesis by (simp add: train_batch_via_scores)
  next
    case (Inr p)
    obtain af s where p: "p = (af, s)" by (cases p)
    obtain o' m' where st: "stp (ts_optimizer st) (ts_model st) b af = (o', m')"
      by (cases "stp (ts_optimizer st) (ts_model st) b af")
    show ?thesis
      using Inr p st Cons.IH
      by (simp add: train_batch_via_scores split: sum.splits prod.splits)
  qed
qed

lemma eval_batch_via_values:
  "eval_batch model delta a st b =
     (case eval_batch_values model delta a b of
        Inl e \<Rightarrow> Inl e
      | Inr v \<Rightarrow> Inr (st\<lparr>trues := trues st @ e_true v, preds := preds st @ e_pred v,
                          eval_loss_list := eval_loss_list st @ [e_loss v]\<rparr>))"
  by (simp add: eval_batch_def eval_batch_values_def split: sum.splits prod.splits)

lemma eval_loop_values:
  "foldM_e (eval_batch model delta a) st bs =
     (case mapM_e (eval_batch_values model delta a) bs of
        Inl e \<Rightarrow> Inl e
      | Inr vs \<Rightarrow> Inr (st\<lparr>trues := trues st @ concat (map e_true vs),
                           preds := preds st @ concat (map e_pred vs),
                           eval_loss_list := eval_loss_list st @ map e_loss vs\<rparr>))"
proof (induction bs arbitrary: st)
  case Nil
  show ?case by simp
next
  case (Cons b bs)
  show ?case
    using Cons.IH by (simp add: eval_batch_via_values split: sum.splits)
qed

lemma py_sum_Fin_acc: "foldl fl_add (Fin c) (map Fin rs) = Fin (c + sum_list rs)"
  by (induction rs arbitrary: c) (simp_all add: add.assoc)

lemma sum_div_len_Fin:
  "rs \<noteq> [] \<Longrightarrow> sum_div_len (map Fin rs) = Inr (Fin (sum_list rs / real (length rs)))"
  by (simp add: sum_div_len_def py_sum_def py_sum_Fin_acc)

lemma sum_div_len_Nil: "sum_div_len [] = Inl ZeroDivisionError"
  by (simp add: sum_div_len_def)


lemma evaluate_values:
  "evaluate ml model eval_loader delta a best_r2 =
     (case mapM_e (eval_batch_values model delta a) eval_loader of
        Inl e \<Rightarrow> Inl e
      | Inr vs \<Rightarrow>
     (case score_reg ml (concat (map e_pred vs)) (concat (map e_true vs)) of
        Inl e \<Rightarrow> Inl e
      | Inr (r2, mse, corr) \<Rightarrow>
     (case sum_div_len (map e_loss vs) of
        Inl e \<Rightarrow> Inl e
      | Inr avg_loss \<Rightarrow> Inr ((avg_loss, r2, mse, corr), fl_greater r2 best_r2))))"
  unfolding evaluate_def
  by (simp add: eval_loop_values split: sum.splits prod.splits)

lemma chunks_one: "chunks (Suc 0) xs = map (\<lambda>x. [x]) xs"
proof (induction xs)
  case Nil
  show ?case by (simp add: chunks.simps)
next
  case (Cons x xs)
  then show ?case by (subst chunks.simps) simp
qed

lemma mapM_e_map: "mapM_e f (map g xs) = mapM_e (\<lambda>x. f (g x)) xs"
  by (induction xs) (simp_all split: sum.splits)


lemmas batch_eval_defs =
  forward_batch_def additional_features_of_def CodenBert_forward_def encode_def fuse_def
  Linear_forward_def Linear_apply_def nn_Linear_def dot_def relu_def squeeze_last_def
  masked_select_def MaskedHuberLoss_forward_def HuberLoss_forward_none_def huber_def
  elementwise2_def ones_like_def same_shape2_def torch_mean_def score_reg_def sum_div_len_def
  py_sum_def fl_greater_def

lemmas toy_defs =
  toy_ext_def toy_args_def toy_reader_def toy_sample_def toy_step_def toy_init_def toy_hidden_def
  toy_model_def toy_batch_def toy_batch'_def idle_step_def collate_def
  masked_batch_def masked_batch'_def one_valid_batch_def nan_r2_lib_def nan_r2_ext_def
  second_fold_reader_def second_fold_ext_def
  documented_lib_def sklearn_r2_score_def sklearn_mean_squared_error_def scipy_pearsonr_def
  is_constant_def mean_of_def sq_residuals_def sq_deviations_def


lemma zip_as_nth:
  "length xs = length ys \<Longrightarrow> zip xs ys = map (\<lambda>i. (xs ! i, ys ! i)) [0..<length xs]"
  by (rule nth_equalityI) simp_all

lemma same_shape2_concat: "same_shape2 t v \<Longrightarrow> length (concat t) = length (concat v)"
  by (simp add: same_shape2_def length_concat)

lemma masked_select_positions:
  assumes "masked_select t valid = Inr xs"
  shows "xs = map (\<lambda>i. concat t ! i) (filter (\<lambda>i. concat valid ! i = 1) [0..<length (concat t)])"
proof -
  from assms have sh: "same_shape2 t valid"
    and xs: "xs = map fst (filter (\<lambda>(x, v). v = 1) (zip (concat t) (concat valid)))"
    by (auto simp: masked_select_def split: if_splits)
  show ?thesis
    unfolding xs zip_as_nth[OF same_shape2_concat[OF sh]]
    by (simp add: filter_map comp_def)
qed

lemma train_batch_scores_Inr:
  assumes "train_batch_scores ml delta a model b = Inr (af, s)"
  shows "\<exists>outputs. forward_batch model a b = Inr (af, outputs)
         \<and> MaskedHuberLoss_forward delta outputs (density b) (valid_sequence b) = Inr (b_loss s)
         \<and> score_reg ml
              (map (\<lambda>i. concat outputs ! i)
                 (filter (\<lambda>i. concat (valid_sequence b) ! i = 1) [0..<length (concat outputs)]))
              (map (\<lambda>i. concat (density b) ! i)
                 (filter (\<lambda>i. concat (valid_sequence b) ! i = 1) [0..<length (concat (density b))]))
             = Inr (b_r2 s, b_mse s, b_corr s)"
proof -
  from assms obtain outputs l y_pred y_true r2 mse corr where
    f: "forward_batch model a b = Inr (af, outputs)"
    and l: "MaskedHuberLoss_forward delta outputs (density b) (valid_sequence b) = Inr l"
    and p: "masked_select outputs (valid_sequence b) = Inr y_pred"
    and t: "masked_select (density b) (valid_sequence b) = Inr y_true"
    and sc: "score_reg ml y_pred y_true = Inr (r2, mse, corr)"
    and s: "s = \<lparr>b_loss = l, b_r2 = r2, b_mse = mse, b_corr = corr\<rparr>"
    by (auto simp: train_batch_scores_def split: sum.splits prod.splits)
  show ?thesis
    using f l sc s masked_select_positions[OF p] masked_select_positions[OF t] by simp
qed

lemma eval_batch_values_Inr:
  assumes "eval_batch_values model delta a b = Inr v"
  shows "\<exists>af outputs. forward_batch model a b = Inr (af, outputs)
         \<and> MaskedHuberLoss_forward delta outputs (density b) (valid_sequence b) = Inr (e_loss v)
         \<and> e_pred v = map (\<lambda>i. concat outputs ! i)
                 (filter (\<lambda>i. concat (valid_sequence b) ! i = 1) [0..<length (concat outputs)])
         \<and> e_true v = map (\<lambda>i. concat (density b) ! i)
                 (filter (\<lambda>i. concat (valid_sequence b) ! i = 1) [0..<length (concat (density b))])"
proof -
  from assms obtain af outputs l y_pred y_true where
    f: "forward_batch model a b = Inr (af, outputs)"
    and l: "MaskedHuberLoss_forward delta outputs (density b) (valid_sequence b) = Inr l"
    and p: "masked_select outputs (valid_sequence b) = Inr y_pred"
    and t: "masked_select (density b) (valid_sequence b) = Inr y_true"
    and v: "v = \<lparr>e_loss = l, e_pred = y_pred, e_true = y_true\<rparr>"
    by (auto simp: eval_batch_values_def split: sum.splits prod.splits)
  show ?thesis
    using f l v masked_select_positions[OF p] masked_select_positions[OF t] by simp
qed

lemma masked_forward:
  "forward_batch toy_model (toy_args 1) masked_batch = Inr (None, [[0, 1, 5]])"
  "forward_batch toy_model (toy_args 1) masked_batch' = Inr (None, [[0, 1, 7]])"
  by (simp_all add: batch_eval_defs toy_defs)

lemma masked_train_values:
  "train_values documented_lib idle_step 1 (toy_args 1) toy_model (new_AdamW 1)
              [masked_batch, masked_batch'] =
            Inr (toy_model, new_AdamW 1,
                 [\<lparr>b_loss = Fin (1 / 3), b_r2 = Fin (- 3), b_mse = Fin 1, b_corr = Fin 1\<rparr>,
                  \<lparr>b_loss = Fin 0, b_r2 = Fin 1, b_mse = Fin 0, b_corr = Fin 1\<rparr>])"
  by (simp add: train_batch_scores_def batch_eval_defs toy_defs new_AdamW_def
        real_sqrt_divide power2_eq_square)

lemma masked_eval_values:
  "mapM_e (eval_batch_values toy_model 1 (toy_args 1)) [masked_batch, masked_batch'] =
            Inr [\<lparr>e_loss = Fin (1 / 3), e_pred = [0, 1], e_true = [1, 2]\<rparr>,
                 \<lparr>e_loss = Fin 0, e_pred = [0, 1], e_true = [0, 1]\<rparr>]"
  by (simp add: eval_batch_values_def batch_eval_defs toy_defs)

text \<open>
  C6. The training pass returns, for the loss and for each of R2, MSE and correlation,
  \<^verbatim>\<open>sum(xs) / len(xs)\<close> of the per-batch values (each metric computed on one batch's
  valid positions, with the model as the optimizer steps have left it); the evaluation
  pass returns the same kind of mean for the loss only, and computes R2, MSE and
  correlation by one call on the valid predictions and targets of all batches pooled.
  \<^verbatim>\<open>sum(xs) / len(xs)\<close> of finite values is their arithmetic mean. Both equations
  hold for every call, so for every epoch. The predictions and targets that a batch
  contributes, to its own metrics in training and to the pool in evaluation, are the
  entries of the model's output and of the density at the positions where
  \<^verbatim>\<open>valid_sequence\<close> is 1, in row-major order, and no other.
\<close>

theorem epoch_metrics_asymmetry:
  "train_epoch ml stp model train_loader optimizer delta a =
     (case train_values ml stp delta a model optimizer train_loader of
        Inl e \<Rightarrow> Inl e
      | Inr (model', optimizer', scs) \<Rightarrow>
     (case sum_div_len (map b_loss scs) of
        Inl e \<Rightarrow> Inl e
      | Inr avg_loss \<Rightarrow>
     (case sum_div_len (map b_r2 scs) of
        Inl e \<Rightarrow> Inl e
      | Inr r2 \<Rightarrow>
     (case sum_div_len (map b_mse scs) of
        Inl e \<Rightarrow> Inl e
      | Inr mse \<Rightarrow>
     (case sum_div_len (map b_corr scs) of
        Inl e \<Rightarrow> Inl e
      | Inr corr \<Rightarrow> Inr (model', optimizer', avg_loss, r2, mse, corr))))))
   \<and> evaluate ml model eval_loader delta a r2_so_far =
     (case mapM_e (eval_batch_values model delta a) eval_loader of
        Inl e \<Rightarrow> Inl e
      | Inr vs \<Rightarrow>
     (case score_reg ml (concat (map e_pred vs)) (concat (map e_true vs)) of
        Inl e \<Rightarrow> Inl e
      | Inr (r2, mse, corr) \<Rightarrow>
     (case sum_div_len (map e_loss vs) of
        Inl e \<Rightarrow> Inl e
      | Inr avg_loss \<Rightarrow> Inr ((avg_loss, r2, mse, corr), fl_greater r2 r2_so_far))))
   \<and> sum_div_len (map Fin (r # rs)) = Inr (Fin (sum_list (r # rs) / real (length (r # rs))))
   \<and> (train_batch_scores ml delta a model b = Inr (af, s) \<longrightarrow>
        (\<exists>outputs. forward_batch model a b = Inr (af, outputs)
          \<and> MaskedHuberLoss_forward delta outputs (density b) (valid_sequence b) = Inr (b_loss s)
          \<and> score_reg ml
               (map (\<lambda>i. concat outputs ! i)
                  (filter (\<lambda>i. concat (valid_sequence b) ! i = 1) [0..<length (concat outputs)]))
               (map (\<lambda>i. concat (density b) ! i)
                  (filter (\<lambda>i. concat (valid_sequence b) ! i = 1)
                     [0..<length (concat (density b))]))
              = Inr (b_r2 s, b_mse s, b_corr s)))
   \<and> (eval_batch_values model delta a b = Inr v \<longrightarrow>
        (\<exists>af' outputs. forward_batch model a b = Inr (af', outputs)
          \<and> MaskedHuberLoss_forward delta outputs (density b) (valid_sequence b) = Inr (e_loss v)
          \<and> e_pred v = map (\<lambda>i. concat outputs ! i)
                  (filter (\<lambda>i. concat (valid_sequence b) ! i = 1) [0..<length (concat outputs)])
          \<and> e_true v = map (\<lambda>i. concat (density b) ! i)
                  (filter (\<lambda>i. concat (valid_sequence b) ! i = 1)
                     [0..<length (concat (density b))])))"
proof (intro conjI impI)
  show "train_epoch ml stp model train_loader optimizer delta a =
     (case train_values ml stp delta a model optimizer train_loader of
        Inl e \<Rightarrow> Inl e
      | Inr (model', optimizer', scs) \<Rightarrow>
     (case sum_div_len (map b_loss scs) of
        Inl e \<Rightarrow> Inl e
      | Inr avg_loss \<Rightarrow>
     (case sum_div_len (map b_r2 scs) of
        Inl e \<Rightarrow> Inl e
      | Inr r2 \<Rightarrow>
     (case sum_div_len (map b_mse scs) of
        Inl e \<Rightarrow> Inl e
      | Inr mse \<Rightarrow>
     (case sum_div_len (map b_corr scs) of
        Inl e \<Rightarrow> Inl e
      | Inr corr \<Rightarrow> Inr (model', optimizer', avg_loss, r2, mse, corr))))))"
    unfolding train_epoch_def
    by (simp add: train_loop_values split: sum.splits prod.splits)
next
  show "evaluate ml model eval_loader delta a r2_so_far =
     (case mapM_e (eval_batch_values model delta a) eval_loader of
        Inl e \<Rightarrow> Inl e
      | Inr vs \<Rightarrow>
     (case score_reg ml (concat (map e_pred vs)) (concat (map e_true vs)) of
        Inl e \<Rightarrow> Inl e
      | Inr (r2, mse, corr) \<Rightarrow>
     (case sum_div_len (map e_loss vs) of
        Inl e \<Rightarrow> Inl e
      | Inr avg_loss \<Rightarrow> Inr ((avg_loss, r2, mse, corr), fl_greater r2 r2_so_far))))"
    unfolding evaluate_def
    by (simp add: eval_loop_values split: sum.splits prod.splits)
next
  show "sum_div_len (map Fin (r # rs)) = Inr (Fin (sum_list (r # rs) / real (length (r # rs))))"
    by (rule sum_div_len_Fin) simp
next
  assume "train_batch_scores ml delta a model b = Inr (af, s)"
  then show "\<exists>outputs. forward_batch model a b = Inr (af, outputs)
          \<and> MaskedHuberLoss_forward delta outputs (density b) (valid_sequence b) = Inr (b_loss s)
          \<and> score_reg ml
               (map (\<lambda>i. concat outputs ! i)
                  (filter (\<lambda>i. concat (valid_sequence b) ! i = 1) [0..<length (concat outputs)]))
               (map (\<lambda>i. concat (density b) ! i)
                  (filter (\<lambda>i. concat (valid_sequence b) ! i = 1)
                     [0..<length (concat (density b))]))
              = Inr (b_r2 s, b_mse s, b_corr s)"
    by (rule train_batch_scores_Inr)
next
  assume "eval_batch_values model delta a b = Inr v"
  then show "\<exists>af' outputs. forward_batch model a b = Inr (af', outputs)
          \<and> MaskedHuberLoss_forward delta outputs (density b) (valid_sequence b) = Inr (e_loss v)
          \<and> e_pred v = map (\<lambda>i. concat outputs ! i)
                  (filter (\<lambda>i. concat (valid_sequence b) ! i = 1) [0..<length (concat outputs)])
          \<and> e_true v = map (\<lambda>i. concat (density b) ! i)
                  (filter (\<lambda>i. concat (valid_sequence b) ! i = 1)
                     [0..<length (concat (density b))])"
    by (rule eval_batch_values_Inr)
qed

text \<open>
  Two batches whose third position is not valid: the model's outputs there (5 and 7,
  against the density 0) enter neither the per-batch metrics nor the pooled ones.
\<close>

theorem epoch_metrics_asymmetry_witness:
  "(case train_epoch documented_lib idle_step toy_model [masked_batch, masked_batch'] (new_AdamW 1) 1
           (toy_args 1) of
      Inl e \<Rightarrow> False
    | Inr (model', optimizer', avg_loss, r2, mse, corr) \<Rightarrow>
        avg_loss = Fin (1 / 6) \<and> r2 = Fin (- 1) \<and> mse = Fin (1 / 2))
   \<and> (case evaluate documented_lib toy_model [masked_batch, masked_batch'] 1 (toy_args 1) (Fin 0) of
      Inl e \<Rightarrow> False
    | Inr ((avg_loss, r2, mse, corr), plotted) \<Rightarrow>
        avg_loss = Fin (1 / 6) \<and> r2 = Fin 0 \<and> mse = Fin (1 / 2))
   \<and> forward_batch toy_model (toy_args 1) masked_batch = Inr (None, [[0, 1, 5]])
   \<and> density masked_batch = [[1, 2, 0]] \<and> valid_sequence masked_batch = [[1, 1, 0]]
   \<and> train_batch_scores documented_lib 1 (toy_args 1) toy_model masked_batch
       = Inr (None, \<lparr>b_loss = Fin (1 / 3), b_r2 = Fin (- 3), b_mse = Fin 1, b_corr = Fin 1\<rparr>)
   \<and> score_reg documented_lib [0, 1] [1, 2] = Inr (Fin (- 3), Fin 1, Fin 1)
   \<and> eval_batch_values toy_model 1 (toy_args 1) masked_batch
       = Inr \<lparr>e_loss = Fin (1 / 3), e_pred = [0, 1], e_true = [1, 2]\<rparr>
   \<and> (\<exists>v. eval_batch_values toy_model 1 (toy_args 1) masked_batch = Inr v
        \<and> e_pred v = map (\<lambda>i. [0, 1, 5 :: real] ! i) (filter (\<lambda>i. [1, 1, 0 :: real] ! i = 1) [0..<3])
        \<and> e_pred v = [0, 1])"
proof -
  note E = epoch_metrics_asymmetry[where ml = documented_lib and stp = idle_step
      and model = toy_model and train_loader = "[masked_batch, masked_batch']"
      and optimizer = "new_AdamW 1" and delta = 1 and a = "toy_args 1"
      and eval_loader = "[masked_batch, masked_batch']" and r2_so_far = "Fin 0"
      and b = masked_batch and af = None
      and s = "\<lparr>b_loss = Fin (1 / 3), b_r2 = Fin (- 3), b_mse = Fin 1, b_corr = Fin 1\<rparr>"
      and v = "\<lparr>e_loss = Fin (1 / 3), e_pred = [0, 1], e_true = [1, 2]\<rparr>"]
  note tv = masked_train_values
  note ev = masked_eval_values
  have sc: "\<exists>c. score_reg documented_lib [0, 1, 0, 1] [1, 2, 0, 1] = Inr (Fin 0, Fin (1 / 2), c)"
    by (simp add: score_reg_def toy_defs power2_eq_square)
  then obtain c where sc': "score_reg documented_lib [0, 1, 0, 1] [1, 2, 0, 1] = Inr (Fin 0, Fin (1 / 2), c)" ..
  have sums:
    "sum_div_len [Fin (1 / 3), Fin 0] = Inr (Fin (1 / 6))"
    "sum_div_len [Fin (- 3), Fin 1] = Inr (Fin (- 1))"
    "sum_div_len [Fin 1, Fin 0] = Inr (Fin (1 / 2))"
    "sum_div_len [Fin 1, Fin 1] = Inr (Fin 1)"
    by (simp_all add: sum_div_len_def py_sum_def)
  from E[THEN conjunct1, unfolded tv]
  have tr: "train_epoch documented_lib idle_step toy_model [masked_batch, masked_batch'] (new_AdamW 1) 1
           (toy_args 1) = Inr (toy_model, new_AdamW 1, Fin (1 / 6), Fin (- 1), Fin (1 / 2), Fin 1)"
    by (simp add: sums)
  from E[THEN conjunct2, THEN conjunct1, unfolded ev]
  have el: "evaluate documented_lib toy_model [masked_batch, masked_batch'] 1 (toy_args 1) (Fin 0)
      = Inr ((Fin (1 / 6), Fin 0, Fin (1 / 2), c), False)"
    by (simp add: sc' sums fl_greater_def)
  have fields: "density masked_batch = [[1, 2, 0]]" "valid_sequence masked_batch = [[1, 1, 0]]"
    by (simp_all add: masked_batch_def collate_def toy_sample_def)
  have up: "[0..<3] = [0, 1, 2]"
    by (simp add: upt_conv_Cons)
  have tbs: "train_batch_scores documented_lib 1 (toy_args 1) toy_model masked_batch
       = Inr (None, \<lparr>b_loss = Fin (1 / 3), b_r2 = Fin (- 3), b_mse = Fin 1, b_corr = Fin 1\<rparr>)"
    by (simp add: train_batch_scores_def batch_eval_defs toy_defs real_sqrt_divide
        power2_eq_square)
  have ebv: "eval_batch_values toy_model 1 (toy_args 1) masked_batch
       = Inr \<lparr>e_loss = Fin (1 / 3), e_pred = [0, 1], e_true = [1, 2]\<rparr>"
    by (simp add: eval_batch_values_def batch_eval_defs toy_defs)
  from E[THEN conjunct2, THEN conjunct2, THEN conjunct2, THEN conjunct1, rule_format, OF tbs]
  have sr: "score_reg documented_lib [0, 1] [1, 2] = Inr (Fin (- 3), Fin 1, Fin 1)"
    by (simp add: masked_forward fields up)
  from E[THEN conjunct2, THEN conjunct2, THEN conjunct2, THEN conjunct2, rule_format, OF ebv]
  have ep: "[0, 1] = map (\<lambda>i. [0, 1, 5 :: real] ! i) (filter (\<lambda>i. [1, 1, 0 :: real] ! i = 1) [0..<3])"
    by (simp add: masked_forward fields up)
  have ex: "\<exists>v. eval_batch_values toy_model 1 (toy_args 1) masked_batch = Inr v
        \<and> e_pred v = map (\<lambda>i. [0, 1, 5 :: real] ! i) (filter (\<lambda>i. [1, 1, 0 :: real] ! i = 1) [0..<3])
        \<and> e_pred v = [0, 1]"
    using ebv ep by (intro exI[of _ "\<lparr>e_loss = Fin (1 / 3), e_pred = [0, 1], e_true = [1, 2]\<rparr>"]) simp
  show ?thesis
    using tr el masked_forward(1) fields tbs sr ebv ex by (intro conjI) simp_all
qed

text \<open>
  C10. The evaluation loader that \<^verbatim>\<open>main\<close> constructs has batch size 1 whatever
  \<^verbatim>\<open>args.batch_size\<close> is (that one sizes the training loader only); an iteration
  yields one batch per sequence, so the evaluation loss that is reported is
  \<^verbatim>\<open>sum / len\<close> of one loss per sequence.
\<close>

theorem eval_loader_batch_size_one:
  assumes "new_loaders a train_dataset test_dataset = Inr (train_loader, test_loader)"
  shows "test_loader = \<lparr>dl_dataset = test_dataset, dl_batch_size = 1, dl_shuffle = False\<rparr>
       \<and> int (dl_batch_size train_loader) = batch_size a
       \<and> iterate perm test_loader = map (\<lambda>s. collate [s]) test_dataset
       \<and> evaluate ml model (iterate perm test_loader) delta a best_r2 =
           (case mapM_e (\<lambda>s. eval_batch_values model delta a (collate [s])) test_dataset of
              Inl e \<Rightarrow> Inl e
            | Inr vs \<Rightarrow>
           (case score_reg ml (concat (map e_pred vs)) (concat (map e_true vs)) of
              Inl e \<Rightarrow> Inl e
            | Inr (r2, mse, corr) \<Rightarrow>
           (case sum_div_len (map e_loss vs) of
              Inl e \<Rightarrow> Inl e
            | Inr avg_loss \<Rightarrow> Inr ((avg_loss, r2, mse, corr), fl_greater r2 best_r2))))"
proof -
  from assms have te: "test_loader = \<lparr>dl_dataset = test_dataset, dl_batch_size = 1, dl_shuffle = False\<rparr>"
    and tr: "int (dl_batch_size train_loader) = batch_size a"
    by (auto simp: new_loaders_def new_DataLoader_def split: sum.splits if_splits)
  have it: "iterate perm test_loader = map (\<lambda>s. collate [s]) test_dataset"
    by (simp add: te iterate_def chunks_one comp_def)
  show ?thesis
    using te tr it by (simp add: evaluate_values mapM_e_map)
qed

theorem eval_loader_batch_size_one_witness:
  "new_loaders (toy_args 1) toy_set toy_set =
     Inr (\<lparr>dl_dataset = toy_set, dl_batch_size = 16, dl_shuffle = True\<rparr>,
          \<lparr>dl_dataset = toy_set, dl_batch_size = 1, dl_shuffle = False\<rparr>)
   \<and> new_loaders ((toy_args 1)\<lparr>batch_size := 2\<rparr>) toy_set toy_set =
     Inr (\<lparr>dl_dataset = toy_set, dl_batch_size = 2, dl_shuffle = True\<rparr>,
          \<lparr>dl_dataset = toy_set, dl_batch_size = 1, dl_shuffle = False\<rparr>)
   \<and> iterate (\<lambda>xs. xs) \<lparr>dl_dataset = toy_set, dl_batch_size = 1, dl_shuffle = False\<rparr>
       = [toy_batch, toy_batch']
   \<and> length (iterate (\<lambda>xs. xs) \<lparr>dl_dataset = toy_set, dl_batch_size = 2, dl_shuffle = True\<rparr>) = 1
   \<and> (case evaluate documented_lib toy_model
              (iterate (\<lambda>xs. xs) \<lparr>dl_dataset = toy_set, dl_batch_size = 1, dl_shuffle = False\<rparr>)
              1 (toy_args 1) (Fin 0) of
         Inl e \<Rightarrow> False
       | Inr ((avg_loss, r2, mse, corr), plotted) \<Rightarrow> avg_loss = Fin (1 / 4))"
proof -
  have nl: "new_loaders (toy_args 1) toy_set toy_set =
     Inr (\<lparr>dl_dataset = toy_set, dl_batch_size = 16, dl_shuffle = True\<rparr>,
          \<lparr>dl_dataset = toy_set, dl_batch_size = 1, dl_shuffle = False\<rparr>)"
    by (simp add: new_loaders_def new_DataLoader_def toy_args_def)
  have nl2: "new_loaders ((toy_args 1)\<lparr>batch_size := 2\<rparr>) toy_set toy_set =
     Inr (\<lparr>dl_dataset = toy_set, dl_batch_size = 2, dl_shuffle = True\<rparr>,
          \<lparr>dl_dataset = toy_set, dl_batch_size = 1, dl_shuffle = False\<rparr>)"
    by (simp add: new_loaders_def new_DataLoader_def toy_args_def)
  note T = eval_loader_batch_size_one[OF nl, of "\<lambda>xs. xs" documented_lib toy_model 1 "Fin 0"]
  from T have it: "iterate (\<lambda>xs. xs) \<lparr>dl_dataset = toy_set, dl_batch_size = 1, dl_shuffle = False\<rparr>
       = [toy_batch, toy_batch']"
    by (simp add: toy_set_def toy_batch_def toy_batch'_def)
  have it2: "length (iterate (\<lambda>xs. xs) \<lparr>dl_dataset = toy_set, dl_batch_size = 2, dl_shuffle = True\<rparr>) = 1"
    by (simp add: iterate_def toy_set_def chunks.simps[of 2])
  have ev: "mapM_e (\<lambda>s. eval_batch_values toy_model 1 (toy_args 1) (collate [s])) toy_set =
            Inr [\<lparr>e_loss = Fin (1 / 2), e_pred = [0, 1], e_true = [1, 2]\<rparr>,
                 \<lparr>e_loss = Fin 0, e_pred = [0, 1], e_true = [0, 1]\<rparr>]"
    by (simp add: toy_set_def eval_batch_values_def batch_eval_defs toy_defs)
  have sc: "\<exists>c. score_reg documented_lib [0, 1, 0, 1] [1, 2, 0, 1] = Inr (Fin 0, Fin (1 / 2), c)"
    by (simp add: score_reg_def toy_defs power2_eq_square)
  then obtain c where sc': "score_reg documented_lib [0, 1, 0, 1] [1, 2, 0, 1] = Inr (Fin 0, Fin (1 / 2), c)" ..
  have sums: "sum_div_len [Fin (1 / 2), Fin 0] = Inr (Fin (1 / 4))"
    by (simp add: sum_div_len_def py_sum_def)
  note Tev = T[THEN conjunct2, THEN conjunct2, THEN conjunct2]
  from Tev[unfolded ev] have el: "evaluate documented_lib toy_model
              (iterate (\<lambda>xs. xs) \<lparr>dl_dataset = toy_set, dl_batch_size = 1, dl_shuffle = False\<rparr>)
              1 (toy_args 1) (Fin 0) = Inr ((Fin (1 / 4), Fin 0, Fin (1 / 2), c), False)"
    by (simp add: sc' sums fl_greater_def)
  have c5: "(case evaluate documented_lib toy_model
              (iterate (\<lambda>xs. xs) \<lparr>dl_dataset = toy_set, dl_batch_size = 1, dl_shuffle = False\<rparr>)
              1 (toy_args 1) (Fin 0) of
         Inl e \<Rightarrow> False
       | Inr ((avg_loss, r2, mse, corr), plotted) \<Rightarrow> avg_loss = Fin (1 / 4))"
    by (simp only: el sum.case prod.case)
  show ?thesis using nl nl2 it it2 c5 by blast
qed
section \<open>Properties of the epoch loop\<close>

lemma tv_epoch_Inr:
  assumes "tv_epoch ext delta trl evl sp a f n st epoch = Inr st'"
  shows "\<exists>x opt'. o_epoch x = epoch
      \<and> train_epoch (lib ext) (step ext) (tv_model st) (iterate (shuffle ext f epoch) trl)
            (tv_optimizer st) delta a
          = Inr (o_model x, opt', o_train_loss x, o_train_r2 x, o_train_mse x, o_train_corr x)
      \<and> evaluate (lib ext) (o_model x) (iterate (\<lambda>xs. xs) evl) delta a (max_r2 st)
          = Inr ((o_eval_loss x, o_r2 x, o_mse x, o_corr x), fl_greater (o_r2 x) (max_r2 st))
      \<and> tv_model st' = o_model x
      \<and> best_loss st' = better_min (best_loss st) (o_train_loss x)
      \<and> best_eval_loss st' = better_min (best_eval_loss st) (o_eval_loss x)
      \<and> max_r2 st' = better_max (max_r2 st) (o_r2 x)
      \<and> (max_r2 st', min_mse st', max_corr st')
          = better_triple (max_r2 st, min_mse st, max_corr st) (eval_triple x)
      \<and> events st' = events st @ epoch_events sp a f n (best_eval_loss st) (max_r2 st) x
      \<and> last_epoch (tv_scheduler st') = last_epoch (tv_scheduler st) + 1
      \<and> T_max (tv_scheduler st') = T_max (tv_scheduler st)
      \<and> eta_min (tv_scheduler st') = eta_min (tv_scheduler st)"
proof -
  from assms obtain m' o' tl tr2 tmse tcorr where
    tr: "train_epoch (lib ext) (step ext) (tv_model st) (iterate (shuffle ext f epoch) trl)
            (tv_optimizer st) delta a = Inr (m', o', tl, tr2, tmse, tcorr)"
    by (auto simp: tv_epoch_def split: sum.splits)
  obtain s' o'' where ss: "scheduler_step (get_lr ext) (tv_scheduler st) o' = (s', o'')"
    by (cases "scheduler_step (get_lr ext) (tv_scheduler st) o'")
  have s': "last_epoch s' = last_epoch (tv_scheduler st) + 1" "T_max s' = T_max (tv_scheduler st)"
    "eta_min s' = eta_min (tv_scheduler st)"
    using ss by (auto simp: scheduler_step_def Let_def)
  define st1 where "st1 = st\<lparr>tv_model := m', tv_optimizer := o'', tv_scheduler := s',
        events := events st @ [TrainEpoch epoch, SchedulerStep,
           AppendRow (train_log_path a n) [CInt epoch, CFloat tl, CFloat tr2, CFloat tmse, CFloat tcorr],
           Save (checkpoint_file sp ''last'') m']\<rparr>"
  define st2 where "st2 = (if fl_less tl (best_loss st1) then st1\<lparr>best_loss := tl\<rparr> else st1)"
  from assms tr ss have eh: "eval_half ext delta evl sp a f n st2 epoch = Inr st'"
    by (cases "fl_less tl (best_loss st)")
       (simp_all add: tv_epoch_def Let_def st1_def st2_def epoch_val_def)
  have st2_f: "tv_model st2 = m'" "max_r2 st2 = max_r2 st" "min_mse st2 = min_mse st"
    "max_corr st2 = max_corr st" "best_eval_loss st2 = best_eval_loss st"
    "best_loss st2 = better_min (best_loss st) tl" "tv_scheduler st2 = s'"
    "events st2 = events st @ [TrainEpoch epoch, SchedulerStep,
           AppendRow (train_log_path a n) [CInt epoch, CFloat tl, CFloat tr2, CFloat tmse, CFloat tcorr],
           Save (checkpoint_file sp ''last'') m']"
    by (simp_all add: st1_def st2_def better_min_def)
  from eh obtain el r2 mse corr plotted where
    ev: "evaluate (lib ext) m' (iterate (\<lambda>xs. xs) evl) delta a (max_r2 st)
           = Inr ((el, r2, mse, corr), plotted)"
    by (auto simp: eval_half_def st2_f split: sum.splits)
  have pl: "plotted = fl_greater r2 (max_r2 st)"
    using ev by (auto simp: evaluate_def split: sum.splits prod.splits)
  define x where "x = \<lparr>o_epoch = epoch, o_model = m', o_train_loss = tl, o_train_r2 = tr2,
     o_train_mse = tmse, o_train_corr = tcorr, o_eval_loss = el, o_r2 = r2, o_mse = mse,
     o_corr = corr\<rparr>"
  have st': "st' = (st2\<lparr>
       best_eval_loss := better_min (best_eval_loss st) el,
       max_r2 := better_max (max_r2 st) r2,
       min_mse := (if fl_greater r2 (max_r2 st) then mse else min_mse st),
       max_corr := (if fl_greater r2 (max_r2 st) then corr else max_corr st),
       events := events st2 @ [EmptyCache, Evaluate epoch]
          @ (if plotted then [Plot f r2] else [])
          @ (if fl_less el (best_eval_loss st)
             then [Save (checkpoint_file sp ''best_eval_loss'') m'] else [])
          @ (if fl_greater r2 (max_r2 st) then [Save (checkpoint_file sp ''best'') m'] else [])
          @ [AppendRow (eval_log_path a n)
               [CInt epoch, CFloat el, CFloat r2, CFloat mse, CFloat corr]]\<rparr>)"
    using eh ev
    by (cases plotted; cases "fl_less el (best_eval_loss st)"; cases "fl_greater r2 (max_r2 st)")
       (auto simp add: eval_half_def Let_def st2_f better_min_def better_max_def)
  show ?thesis
  proof (intro exI[of _ x] exI[of _ o'] conjI)
    show "o_epoch x = epoch" by (simp add: x_def)
    show "train_epoch (lib ext) (step ext) (tv_model st) (iterate (shuffle ext f epoch) trl)
            (tv_optimizer st) delta a
          = Inr (o_model x, o', o_train_loss x, o_train_r2 x, o_train_mse x, o_train_corr x)"
      using tr by (simp add: x_def)
    show "evaluate (lib ext) (o_model x) (iterate (\<lambda>xs. xs) evl) delta a (max_r2 st)
          = Inr ((o_eval_loss x, o_r2 x, o_mse x, o_corr x), fl_greater (o_r2 x) (max_r2 st))"
      using ev pl by (simp add: x_def)
    show "tv_model st' = o_model x" by (simp add: st' st2_f x_def)
    show "best_loss st' = better_min (best_loss st) (o_train_loss x)"
      by (simp add: st' st2_f x_def)
    show "best_eval_loss st' = better_min (best_eval_loss st) (o_eval_loss x)"
      by (simp add: st' st2_f x_def)
    show "max_r2 st' = better_max (max_r2 st) (o_r2 x)"
      by (simp add: st' st2_f x_def)
    show "(max_r2 st', min_mse st', max_corr st')
          = better_triple (max_r2 st, min_mse st, max_corr st) (eval_triple x)"
      by (simp add: st' st2_f x_def better_triple_def eval_triple_def better_max_def)
    show "events st' = events st @ epoch_events sp a f n (best_eval_loss st) (max_r2 st) x"
      by (simp add: st' st2_f x_def epoch_events_def train_row_def eval_row_def pl)
    show "last_epoch (tv_scheduler st') = last_epoch (tv_scheduler st) + 1"
      by (simp add: st' st2_f s')
    show "T_max (tv_scheduler st') = T_max (tv_scheduler st)"
      by (simp add: st' st2_f s')
    show "eta_min (tv_scheduler st') = eta_min (tv_scheduler st)"
      by (simp add: st' st2_f s')
  qed
qed


lemma tv_loop_Inr:
  assumes "foldM_e (tv_epoch ext delta trl evl sp a f n) st es = Inr st'"
  shows "\<exists>outs. map o_epoch outs = es
      \<and> best_loss st' = foldl better_min (best_loss st) (map o_train_loss outs)
      \<and> best_eval_loss st' = foldl better_min (best_eval_loss st) (map o_eval_loss outs)
      \<and> max_r2 st' = foldl better_max (max_r2 st) (map o_r2 outs)
      \<and> (max_r2 st', min_mse st', max_corr st')
          = foldl better_triple (max_r2 st, min_mse st, max_corr st) (map eval_triple outs)
      \<and> events st' = events st @ loop_events sp a f n (best_eval_loss st) (max_r2 st) outs
      \<and> last_epoch (tv_scheduler st') = last_epoch (tv_scheduler st) + int (length es)
      \<and> T_max (tv_scheduler st') = T_max (tv_scheduler st)
      \<and> eta_min (tv_scheduler st') = eta_min (tv_scheduler st)
      \<and> tv_model st' = (if outs = [] then tv_model st else o_model (last outs))"
  using assms
proof (induction es arbitrary: st)
  case Nil
  then have "st' = st" by simp
  then show ?case by (intro exI[of _ "[]"]) simp
next
  case (Cons e es)
  from Cons.prems obtain s1 where
    e1: "tv_epoch ext delta trl evl sp a f n st e = Inr s1" and
    rest: "foldM_e (tv_epoch ext delta trl evl sp a f n) s1 es = Inr st'"
    by (auto split: sum.splits)
  from tv_epoch_Inr[OF e1] obtain x where x:
    "o_epoch x = e" "tv_model s1 = o_model x"
    "best_loss s1 = better_min (best_loss st) (o_train_loss x)"
    "best_eval_loss s1 = better_min (best_eval_loss st) (o_eval_loss x)"
    "max_r2 s1 = better_max (max_r2 st) (o_r2 x)"
    "(max_r2 s1, min_mse s1, max_corr s1)
          = better_triple (max_r2 st, min_mse st, max_corr st) (eval_triple x)"
    "events s1 = events st @ epoch_events sp a f n (best_eval_loss st) (max_r2 st) x"
    "last_epoch (tv_scheduler s1) = last_epoch (tv_scheduler st) + 1"
    "T_max (tv_scheduler s1) = T_max (tv_scheduler st)"
    "eta_min (tv_scheduler s1) = eta_min (tv_scheduler st)"
    by blast
  from Cons.IH[OF rest] obtain outs where o:
    "map o_epoch outs = es"
    "best_loss st' = foldl better_min (best_loss s1) (map o_train_loss outs)"
    "best_eval_loss st' = foldl better_min (best_eval_loss s1) (map o_eval_loss outs)"
    "max_r2 st' = foldl better_max (max_r2 s1) (map o_r2 outs)"
    "(max_r2 st', min_mse st', max_corr st')
          = foldl better_triple (max_r2 s1, min_mse s1, max_corr s1) (map eval_triple outs)"
    "events st' = events s1 @ loop_events sp a f n (best_eval_loss s1) (max_r2 s1) outs"
    "last_epoch (tv_scheduler st') = last_epoch (tv_scheduler s1) + int (length es)"
    "T_max (tv_scheduler st') = T_max (tv_scheduler s1)"
    "eta_min (tv_scheduler st') = eta_min (tv_scheduler s1)"
    "tv_model st' = (if outs = [] then tv_model s1 else o_model (last outs))"
    by blast
  show ?case
  proof (intro exI[of _ "x # outs"] conjI)
    show "map o_epoch (x # outs) = e # es" using x(1) o(1) by simp
    show "best_loss st' = foldl better_min (best_loss st) (map o_train_loss (x # outs))"
      using o(2) x(3) by simp
    show "best_eval_loss st' = foldl better_min (best_eval_loss st) (map o_eval_loss (x # outs))"
      using o(3) x(4) by simp
    show "max_r2 st' = foldl better_max (max_r2 st) (map o_r2 (x # outs))"
      using o(4) x(5) by simp
    show "(max_r2 st', min_mse st', max_corr st')
          = foldl better_triple (max_r2 st, min_mse st, max_corr st) (map eval_triple (x # outs))"
      using o(5) x(6) by simp
    show "events st' = events st @ loop_events sp a f n (best_eval_loss st) (max_r2 st) (x # outs)"
      using o(6) x(4,5,7) by simp
    show "last_epoch (tv_scheduler st') = last_epoch (tv_scheduler st) + int (length (e # es))"
      using o(7) x(8) by simp
    show "T_max (tv_scheduler st') = T_max (tv_scheduler st)" using o(8) x(9) by simp
    show "eta_min (tv_scheduler st') = eta_min (tv_scheduler st)" using o(9) x(10) by simp
    show "tv_model st' = (if x # outs = [] then tv_model st else o_model (last (x # outs)))"
      using o(10) x(2) by simp
  qed
qed

lemma csv_rows_append: "csv_rows p (xs @ ys) = csv_rows p xs @ csv_rows p ys"
  by (induction p xs rule: csv_rows.induct) simp_all

lemma saves_append: "saves (xs @ ys) = saves xs @ saves ys"
  by (induction xs rule: saves.induct) simp_all

lemma plots_append: "plots (xs @ ys) = plots xs @ plots ys"
  by (induction xs rule: plots.induct) simp_all

lemma passes_and_steps_append:
  "passes_and_steps (xs @ ys) = passes_and_steps xs @ passes_and_steps ys"
  by (simp add: passes_and_steps_def)

lemma os_path_join_relative:
  "b \<noteq> [] \<Longrightarrow> hd b \<noteq> CHR ''/'' \<Longrightarrow>
     os_path_join a b = (if a = [] \<or> last a = CHR ''/'' then a else a @ ''/'') @ b"
  by (simp add: os_path_join_def)

lemma add_feature_suffix_append:
  "add_feature_suffix a (p @ q) = p @ add_feature_suffix a q"
  by (simp add: add_feature_suffix_def Let_def)

lemma add_feature_suffix_Cons:
  "add_feature_suffix a (c # p) = c # add_feature_suffix a p"
  by (simp add: add_feature_suffix_def Let_def)

lemma log_paths_distinct:
  "train_log_path a n \<noteq> eval_log_path a n"
  "train_log_path a n \<noteq> best_result_path a"
  "eval_log_path a n \<noteq> best_result_path a"
  by (simp_all add: train_log_path_def eval_log_path_def best_result_path_def
      os_path_join_relative add_feature_suffix_append add_feature_suffix_Cons)

lemma csv_rows_epoch_events:
  "csv_rows p (epoch_events sp a f n el r2 x) =
     (if p = train_log_path a n then [train_row x] else [])
     @ (if p = eval_log_path a n then [eval_row x] else [])"
  by (auto simp: epoch_events_def csv_rows_append)

lemma csv_rows_loop_events:
  "csv_rows p (loop_events sp a f n el r2 outs) =
     concat (map (\<lambda>x. (if p = train_log_path a n then [train_row x] else [])
                      @ (if p = eval_log_path a n then [eval_row x] else [])) outs)"
  by (induction outs arbitrary: el r2) (simp_all add: csv_rows_append csv_rows_epoch_events)

lemma concat_map_singleton: "concat (map (\<lambda>x. [g x]) xs) = map g xs"
  by (induction xs) simp_all

lemma train_rows_loop_events:
  "csv_rows (train_log_path a n) (loop_events sp a f n el r2 outs) = map train_row outs"
  using log_paths_distinct(1)[of a n]
  by (simp add: csv_rows_loop_events concat_map_singleton)

lemma eval_rows_loop_events:
  "csv_rows (eval_log_path a n) (loop_events sp a f n el r2 outs) = map eval_row outs"
  using log_paths_distinct(1)[of a n]
  by (simp add: csv_rows_loop_events concat_map_singleton)

lemma other_rows_loop_events:
  "p \<noteq> train_log_path a n \<Longrightarrow> p \<noteq> eval_log_path a n \<Longrightarrow>
     csv_rows p (loop_events sp a f n el r2 outs) = []"
  by (simp add: csv_rows_loop_events)

lemma saves_epoch_events:
  "saves (epoch_events sp a f n el r2 x) = epoch_saves sp el r2 x"
  by (simp add: epoch_events_def epoch_saves_def saves_append)

lemma saves_loop_events:
  "saves (loop_events sp a f n el r2 outs) =
     concat (map (\<lambda>j. epoch_saves sp
                        (foldl better_min el (map o_eval_loss (take j outs)))
                        (foldl better_max r2 (map o_r2 (take j outs))) (outs ! j))
               [0..<length outs])"
proof (induction outs arbitrary: el r2)
  case Nil
  show ?case by simp
next
  case (Cons x xs)
  have "map (\<lambda>j. epoch_saves sp
                        (foldl better_min el (map o_eval_loss (take j (x # xs))))
                        (foldl better_max r2 (map o_r2 (take j (x # xs)))) ((x # xs) ! j))
               [0..<length (x # xs)]
        = epoch_saves sp el r2 x
          # map (\<lambda>j. epoch_saves sp
                        (foldl better_min (better_min el (o_eval_loss x)) (map o_eval_loss (take j xs)))
                        (foldl better_max (better_max r2 (o_r2 x)) (map o_r2 (take j xs))) (xs ! j))
               [0..<length xs]"
    by (simp add: upt_conv_Cons map_Suc_upt[symmetric] del: upt_Suc)
  then show ?case
    by (simp add: saves_append saves_epoch_events Cons.IH del: upt_Suc)
qed

lemma passes_epoch_events:
  "passes_and_steps (epoch_events sp a f n el r2 x)
     = [TrainEpoch (o_epoch x), SchedulerStep, Evaluate (o_epoch x)]"
  by (simp add: epoch_events_def passes_and_steps_def)

lemma passes_loop_events:
  "passes_and_steps (loop_events sp a f n el r2 outs)
     = concat (map (\<lambda>x. [TrainEpoch (o_epoch x), SchedulerStep, Evaluate (o_epoch x)]) outs)"
  by (induction outs arbitrary: el r2)
     (simp_all add: passes_and_steps_append passes_epoch_events, simp add: passes_and_steps_def)

lemma plots_loop_events:
  "plots (loop_events sp a f n el r2 outs) =
     concat (map (\<lambda>j. if fl_greater (o_r2 (outs ! j)) (foldl better_max r2 (map o_r2 (take j outs)))
                      then [(f, o_r2 (outs ! j))] else [])
               [0..<length outs])"
proof (induction outs arbitrary: el r2)
  case Nil
  show ?case by simp
next
  case (Cons x xs)
  have pe: "plots (epoch_events sp a f n el r2 x) = (if fl_greater (o_r2 x) r2 then [(f, o_r2 x)] else [])"
    by (simp add: epoch_events_def plots_append)
  have "map (\<lambda>j. if fl_greater (o_r2 ((x # xs) ! j)) (foldl better_max r2 (map o_r2 (take j (x # xs))))
                      then [(f, o_r2 ((x # xs) ! j))] else [])
               [0..<length (x # xs)]
        = (if fl_greater (o_r2 x) r2 then [(f, o_r2 x)] else [])
          # map (\<lambda>j. if fl_greater (o_r2 (xs ! j)) (foldl better_max (better_max r2 (o_r2 x)) (map o_r2 (take j xs)))
                      then [(f, o_r2 (xs ! j))] else [])
               [0..<length xs]"
    by (simp add: upt_conv_Cons map_Suc_upt[symmetric] del: upt_Suc)
  then show ?case
    by (simp add: plots_append pe Cons.IH del: upt_Suc)
qed

lemma tv_after_Inr:
  assumes "tv_after ext model delta optimizer n sched trl evl sp a f k = Inr st"
  shows "\<exists>outs. map o_epoch outs = [1..k]
      \<and> best_loss st = train_loss_before outs (length outs)
      \<and> best_eval_loss st = eval_loss_before outs (length outs)
      \<and> max_r2 st = r2_before outs (length outs)
      \<and> (max_r2 st, min_mse st, max_corr st)
          = foldl better_triple (Fin (- 100000000), Fin 100000000, Fin (- 100000000))
              (map eval_triple outs)
      \<and> events st = loop_events sp a f n (Fin 100000000) (Fin (- 100000000)) outs
      \<and> last_epoch (tv_scheduler st) = last_epoch sched + int (length outs)
      \<and> T_max (tv_scheduler st) = T_max sched
      \<and> eta_min (tv_scheduler st) = eta_min sched
      \<and> tv_model st = (if outs = [] then model else o_model (last outs))"
proof -
  from assms have "foldM_e (tv_epoch ext delta trl evl sp a f n) (tv_init model optimizer sched) [1..k] = Inr st"
    by (simp add: tv_after_def)
  from tv_loop_Inr[OF this] obtain outs where o:
    "map o_epoch outs = [1..k]"
    "best_loss st = foldl better_min (best_loss (tv_init model optimizer sched)) (map o_train_loss outs)"
    "best_eval_loss st = foldl better_min (best_eval_loss (tv_init model optimizer sched)) (map o_eval_loss outs)"
    "max_r2 st = foldl better_max (max_r2 (tv_init model optimizer sched)) (map o_r2 outs)"
    "(max_r2 st, min_mse st, max_corr st)
          = foldl better_triple (max_r2 (tv_init model optimizer sched), min_mse (tv_init model optimizer sched), max_corr (tv_init model optimizer sched)) (map eval_triple outs)"
    "events st = events (tv_init model optimizer sched) @ loop_events sp a f n (best_eval_loss (tv_init model optimizer sched)) (max_r2 (tv_init model optimizer sched)) outs"
    "last_epoch (tv_scheduler st) = last_epoch (tv_scheduler (tv_init model optimizer sched)) + int (length [1..k])"
    "T_max (tv_scheduler st) = T_max (tv_scheduler (tv_init model optimizer sched))"
    "eta_min (tv_scheduler st) = eta_min (tv_scheduler (tv_init model optimizer sched))"
    "tv_model st = (if outs = [] then tv_model (tv_init model optimizer sched) else o_model (last outs))"
    by blast
  have len: "length [1..k] = length outs" using o(1) by (metis length_map)
  have le: "last_epoch (tv_scheduler st) = last_epoch sched + int (length outs)"
    using o(7) len by (simp only: tv_init_def CosineAnnealingLR.simps tv_state.simps)
  show ?thesis
    using o(1-6,8-10) le
    by (intro exI[of _ outs])
       (simp add: tv_init_def train_loss_before_def eval_loss_before_def r2_before_def)
qed

lemma train_and_validate_tv_after:
  "train_and_validate ext model delta optimizer n sched trl evl sp a f
     = tv_after ext model delta optimizer n sched trl evl sp a f n"
  by (simp add: train_and_validate_def tv_after_def)

lemma tv_after_0:
  "tv_after ext model delta optimizer n sched trl evl sp a f 0 = Inr (tv_init model optimizer sched)"
  by (simp add: tv_after_def)

lemma foldl_better_max_Fin:
  "foldl better_max (Fin b) (map Fin vs) = Fin (foldl max b vs)"
  by (induction vs arbitrary: b) (simp_all add: better_max_def fl_greater_def max_def)

lemma foldl_better_min_Fin:
  "foldl better_min (Fin b) (map Fin vs) = Fin (foldl min b vs)"
  by (induction vs arbitrary: b) (simp_all add: better_min_def min_def)

lemma foldl_max_Max: "foldl max (b::real) vs = Max (set (b # vs))"
proof -
  have "(\<lambda>x a. max a x) = (max :: real \<Rightarrow> real \<Rightarrow> real)"
    by (intro ext) (rule max.commute)
  then show ?thesis by (simp only: Max.set_eq_fold foldl_conv_fold)
qed

lemma foldl_min_Min: "foldl min (b::real) vs = Min (set (b # vs))"
proof -
  have "(\<lambda>x a. min a x) = (min :: real \<Rightarrow> real \<Rightarrow> real)"
    by (intro ext) (rule min.commute)
  then show ?thesis by (simp only: Min.set_eq_fold foldl_conv_fold)
qed

lemma best_of_Fin_max:
  assumes "\<exists>v\<in>set vs. b < v"
  shows "foldl better_max (Fin b) (map Fin vs) = Fin (Max (set vs))"
proof -
  from assms obtain v where v: "v \<in> set vs" "b < v" by blast
  then have ne: "set vs \<noteq> {}" by auto
  have "Max (set (b # vs)) = max b (Max (set vs))" using ne by simp
  also have "\<dots> = Max (set vs)"
  proof -
    have "v \<le> Max (set vs)" using v(1) by simp
    with v(2) show ?thesis by simp
  qed
  finally show ?thesis by (simp add: foldl_better_max_Fin foldl_max_Max del: set_simps)
qed

lemma best_of_Fin_min:
  assumes "\<exists>v\<in>set vs. v < b"
  shows "foldl better_min (Fin b) (map Fin vs) = Fin (Min (set vs))"
proof -
  from assms obtain v where v: "v \<in> set vs" "v < b" by blast
  then have ne: "set vs \<noteq> {}" by auto
  have "Min (set (b # vs)) = min b (Min (set vs))" using ne by simp
  also have "\<dots> = Min (set vs)"
  proof -
    have "Min (set vs) \<le> v" using v(1) by simp
    with v(2) show ?thesis by simp
  qed
  finally show ?thesis by (simp add: foldl_better_min_Fin foldl_min_Min del: set_simps)
qed

lemma checkpoint_files_distinct:
  "checkpoint_file sp ''last'' \<noteq> checkpoint_file sp ''best''"
  "checkpoint_file sp ''best_eval_loss'' \<noteq> checkpoint_file sp ''best''"
  "checkpoint_file sp ''last'' \<noteq> checkpoint_file sp ''best_eval_loss''"
  by (simp_all add: checkpoint_file_def os_path_join_relative)

lemma best_saves_epoch:
  "filter (\<lambda>w. fst w = checkpoint_file sp ''best'') (epoch_saves sp el r2 x)
     = (if fl_greater (o_r2 x) r2 then [(checkpoint_file sp ''best'', o_model x)] else [])"
  using checkpoint_files_distinct(1,2)[of sp]
  by (simp add: epoch_saves_def)

lemma filter_concat_map:
  "filter P (concat (map g xs)) = concat (map (\<lambda>x. filter P (g x)) xs)"
  by (induction xs) simp_all


section \<open>Evaluating the concrete runs\<close>

lemmas run_defs =
  run_fold_def new_model_def new_encoder_def CodenBert_init_def load_datasets_def new_loaders_def
  new_DataLoader_def new_AdamW_def new_CosineAnnealingLR_def train_and_validate_def tv_init_def
  tv_epoch_def eval_half_def epoch_val_def scheduler_step_def iterate_def
  train_epoch_def train_batch_def evaluate_def eval_batch_def
  additional_feature_dim_def train_file_def test_file_def save_path_of_def os_path_join_def
  checkpoint_file_def train_log_path_def eval_log_path_def best_result_path_def
  add_feature_suffix_def str_int_def digit_char_def

lemmas set_defs = train_set1_def test_set1_def test_set_near_constant_def test_set_constant_def
  train_set_one_valid_def test_set_one_valid_def test_set_empty_sequence_def

lemma str_nat_small: "n < 10 \<Longrightarrow> str_nat n = [digit_char n]"
  by (simp add: str_nat.simps)

lemma str_nat_10: "str_nat 10 = ''10''"
  by (simp add: str_nat.simps[of 10] str_nat_small digit_char_def)

lemma chunks_Nil: "chunks n [] = []" by (simp add: chunks.simps)
lemma chunks_Cons: "0 < n \<Longrightarrow> chunks n (x # xs) = take n (x # xs) # chunks n (drop n (x # xs))"
  by (subst chunks.simps) simp

lemmas eval_simps = run_defs batch_eval_defs toy_defs set_defs str_nat_small chunks_Nil chunks_Cons
  upto_rec1 Let_def power2_eq_square


lemmas toy_run_simps = toy_run_def tv_after_def eval_simps real_sqrt_divide

lemma toy_run_3_ok: "\<exists>st. toy_run train_set1 test_set1 3 3 = Inr st"
  by (simp add: toy_run_simps)

lemma toy_run_3_eval_rows:
  "csv_rows (eval_log_path (toy_args 1) 3) (tv_events (toy_run train_set1 test_set1 3 3))
     = [[CInt 1, CFloat (Fin (1 / 2)), CFloat (Fin (- 3)), CFloat (Fin 1), CFloat (Fin 1)],
        [CInt 2, CFloat (Fin (3 / 2)), CFloat (Fin (- 15)), CFloat (Fin 4), CFloat (Fin 1)],
        [CInt 3, CFloat (Fin (5 / 2)), CFloat (Fin (- 35)), CFloat (Fin 9), CFloat (Fin 1)]]"
  by (simp add: tv_events_def toy_run_simps)

lemma toy_run_3_train_rows:
  "csv_rows (train_log_path (toy_args 1) 3) (tv_events (toy_run train_set1 test_set1 3 3))
     = [[CInt 1, CFloat (Fin (1 / 2)), CFloat (Fin (- 3)), CFloat (Fin 1), CFloat (Fin 1)],
        [CInt 2, CFloat (Fin 0), CFloat (Fin 1), CFloat (Fin 0), CFloat (Fin 1)],
        [CInt 3, CFloat (Fin (1 / 2)), CFloat (Fin (- 3)), CFloat (Fin 1), CFloat (Fin 1)]]"
  by (simp add: tv_events_def toy_run_simps)

lemma map_eval_row_3:
  assumes "map eval_row outs = [[CInt e1, CFloat l1, CFloat r1, CFloat m1, CFloat c1],
        [CInt e2, CFloat l2, CFloat r2, CFloat m2, CFloat c2],
        [CInt e3, CFloat l3, CFloat r3, CFloat m3, CFloat c3]]"
  shows "map o_r2 outs = [r1, r2, r3] \<and> map o_eval_loss outs = [l1, l2, l3]
       \<and> map eval_triple outs = [(r1, m1, c1), (r2, m2, c2), (r3, m3, c3)]"
proof -
  from assms obtain x y z where outs: "outs = [x, y, z]"
    by (auto simp: map_eq_Cons_conv)
  with assms show ?thesis by (simp add: eval_row_def eval_triple_def)
qed

lemma map_train_row_3:
  assumes "map train_row outs = [[CInt e1, CFloat l1, CFloat r1, CFloat m1, CFloat c1],
        [CInt e2, CFloat l2, CFloat r2, CFloat m2, CFloat c2],
        [CInt e3, CFloat l3, CFloat r3, CFloat m3, CFloat c3]]"
  shows "map o_train_loss outs = [l1, l2, l3]"
proof -
  from assms obtain x y z where outs: "outs = [x, y, z]"
    by (auto simp: map_eq_Cons_conv)
  with assms show ?thesis by (simp add: train_row_def)
qed


section \<open>The fold loop\<close>

lemma run_fold_Inr:
  assumes "run_fold ext a i = Inr st"
  shows "\<exists>model trd ted outs.
      new_model ext a i = Inr model \<and> load_datasets ext a i = Inr (trd, ted) \<and> 0 < batch_size a
    \<and> train_and_validate ext model 1 (new_AdamW (learning_rate a)) (num_train_epochs a)
        (new_CosineAnnealingLR (new_AdamW (learning_rate a)) (num_train_epochs a) (lr_min a))
        \<lparr>dl_dataset = trd, dl_batch_size = nat (batch_size a), dl_shuffle = True\<rparr>
        \<lparr>dl_dataset = ted, dl_batch_size = 1, dl_shuffle = False\<rparr>
        (save_path_of a i) a (i + 1) = Inr st
    \<and> map o_epoch outs = [1..num_train_epochs a]
    \<and> events st = loop_events (save_path_of a i) a (i + 1) (num_train_epochs a)
                     (Fin 100000000) (Fin (- 100000000)) outs
    \<and> last_epoch (tv_scheduler st) = int (length outs)
    \<and> T_max (tv_scheduler st) = num_train_epochs a
    \<and> eta_min (tv_scheduler st) = lr_min a"
proof -
  from assms obtain model where m: "new_model ext a i = Inr model"
    by (auto simp: run_fold_def split: sum.splits)
  from assms m obtain trd ted where d: "load_datasets ext a i = Inr (trd, ted)"
    by (auto simp: run_fold_def split: sum.splits)
  from assms m d obtain trl tel where l: "new_loaders a trd ted = Inr (trl, tel)"
    by (auto simp: run_fold_def split: sum.splits)
  from l have bs: "0 < batch_size a"
    and trl: "trl = \<lparr>dl_dataset = trd, dl_batch_size = nat (batch_size a), dl_shuffle = True\<rparr>"
    and tel: "tel = \<lparr>dl_dataset = ted, dl_batch_size = 1, dl_shuffle = False\<rparr>"
    by (auto simp: new_loaders_def new_DataLoader_def split: sum.splits if_splits)
  from assms m d l have tv: "train_and_validate ext model 1 (new_AdamW (learning_rate a)) (num_train_epochs a)
        (new_CosineAnnealingLR (new_AdamW (learning_rate a)) (num_train_epochs a) (lr_min a))
        trl tel (save_path_of a i) a (i + 1) = Inr st"
    by (simp add: run_fold_def Let_def)
  from tv_after_Inr[OF tv[unfolded train_and_validate_tv_after]] obtain outs where o:
    "map o_epoch outs = [1..num_train_epochs a]"
    "events st = loop_events (save_path_of a i) a (i + 1) (num_train_epochs a)
                     (Fin 100000000) (Fin (- 100000000)) outs"
    "last_epoch (tv_scheduler st)
       = last_epoch (new_CosineAnnealingLR (new_AdamW (learning_rate a)) (num_train_epochs a) (lr_min a))
         + int (length outs)"
    "T_max (tv_scheduler st)
       = T_max (new_CosineAnnealingLR (new_AdamW (learning_rate a)) (num_train_epochs a) (lr_min a))"
    "eta_min (tv_scheduler st)
       = eta_min (new_CosineAnnealingLR (new_AdamW (learning_rate a)) (num_train_epochs a) (lr_min a))"
    by blast
  show ?thesis
    using m d bs tv[unfolded trl tel] o
    by (intro exI[of _ model] exI[of _ trd] exI[of _ ted] exI[of _ outs])
       (simp add: new_CosineAnnealingLR_def)
qed

lemma fold_loop_Inr:
  assumes "foldM_e (fold_body ext a) ms idx = Inr ms'"
  shows "\<exists>sts. map (run_fold ext a) idx = map Inr sts
      \<and> m_events ms' = m_events ms
           @ concat (map2 (\<lambda>i st. events st @ [AppendRow (best_result_path a) (summary_row i st)])
                       idx sts)
      \<and> m_r2_list ms' = m_r2_list ms @ map max_r2 sts
      \<and> m_mse_list ms' = m_mse_list ms @ map min_mse sts
      \<and> m_corr_list ms' = m_corr_list ms @ map max_corr sts"
  using assms
proof (induction idx arbitrary: ms)
  case Nil
  then have "ms' = ms" by simp
  then show ?case by simp
next
  case (Cons i idx)
  from Cons.prems obtain st where st: "run_fold ext a i = Inr st"
    by (auto simp: fold_body_def split: sum.splits)
  define ms1 where "ms1 = ms\<lparr>m_events := m_events ms @ events st
                     @ [AppendRow (best_result_path a)
                          [CInt (int i + 1), CFloat (max_r2 st), CFloat (min_mse st),
                           CFloat (max_corr st)]],
                  m_r2_list := m_r2_list ms @ [max_r2 st],
                  m_mse_list := m_mse_list ms @ [min_mse st],
                  m_corr_list := m_corr_list ms @ [max_corr st]\<rparr>"
  have fb: "fold_body ext a ms i = Inr ms1"
    by (simp add: fold_body_def st ms1_def)
  from Cons.prems have "foldM_e (fold_body ext a) ms1 idx = Inr ms'"
    by (simp add: fb)
  from Cons.IH[OF this] obtain sts where s:
    "map (run_fold ext a) idx = map Inr sts"
    "m_events ms' = m_events ms1
           @ concat (map2 (\<lambda>i st. events st @ [AppendRow (best_result_path a) (summary_row i st)])
                       idx sts)"
    "m_r2_list ms' = m_r2_list ms1 @ map max_r2 sts"
    "m_mse_list ms' = m_mse_list ms1 @ map min_mse sts"
    "m_corr_list ms' = m_corr_list ms1 @ map max_corr sts"
    by blast
  show ?case
    using st s by (intro exI[of _ "st # sts"]) (simp add: ms1_def summary_row_def)
qed

lemma zip_upt_nth:
  "length xs = n \<Longrightarrow> zip [0..<n] xs = map (\<lambda>i. (i, xs ! i)) [0..<n]"
  by (rule nth_equalityI) simp_all

lemma main_Inr:
  assumes "main ext args0 = Inr (avgs, evs)" and "a = set_use_additional_feature args0"
  shows "\<not> should_continue a
     \<and> (\<exists>sts. length sts = 10 \<and> map (run_fold ext a) [0..<10] = map Inr sts
          \<and> evs = concat (map (\<lambda>i. events (sts ! i)
                                   @ [AppendRow (best_result_path a) (summary_row i (sts ! i))])
                            [0..<10])
          \<and> avgs = (fl_div_nat (py_sum (map max_r2 sts)) 10,
                    fl_div_nat (py_sum (map min_mse sts)) 10,
                    fl_div_nat (py_sum (map max_corr sts)) 10))"
proof -
  from assms have sc: "\<not> should_continue a"
    by (auto simp: main_def Let_def split: if_splits)
  from assms sc obtain ms where
    ms: "foldM_e (fold_body ext a)
           \<lparr>m_r2_list = [], m_mse_list = [], m_corr_list = [], m_events = []\<rparr> [0..<10] = Inr ms"
    by (auto simp: main_def Let_def split: sum.splits)
  from fold_loop_Inr[OF ms] obtain sts where s:
    "map (run_fold ext a) [0..<10] = map Inr sts"
    "m_events ms = concat (map2 (\<lambda>i st. events st @ [AppendRow (best_result_path a) (summary_row i st)])
                       [0..<10] sts)"
    "m_r2_list ms = map max_r2 sts"
    "m_mse_list ms = map min_mse sts"
    "m_corr_list ms = map max_corr sts"
    by auto
  from s(1) have len: "length sts = 10"
    using length_map[of "run_fold ext a" "[0..<10]"] length_map[of Inr sts] by simp
  have ev: "m_events ms = concat (map (\<lambda>i. events (sts ! i)
                                   @ [AppendRow (best_result_path a) (summary_row i (sts ! i))])
                            [0..<10])"
    unfolding s(2) zip_upt_nth[OF len] by (simp add: comp_def)
  from assms sc ms have res: "evs = m_events ms"
    "sum_div_len (m_r2_list ms) = Inr (fst avgs)"
    "sum_div_len (m_mse_list ms) = Inr (fst (snd avgs))"
    "sum_div_len (m_corr_list ms) = Inr (snd (snd avgs))"
    by (auto simp: main_def Let_def split: sum.splits)
  have av: "avgs = (fl_div_nat (py_sum (map max_r2 sts)) 10,
                    fl_div_nat (py_sum (map min_mse sts)) 10,
                    fl_div_nat (py_sum (map max_corr sts)) 10)"
    using res(2-4) len by (cases avgs) (auto simp: s sum_div_len_def)
  show ?thesis
    using sc len s(1) ev res(1) av by blast
qed

lemma map_const_replicate:
  "(\<And>x. x \<in> set xs \<Longrightarrow> f x = c) \<Longrightarrow> map f xs = replicate (length xs) c"
  by (induction xs) simp_all

lemma csv_rows_concat: "csv_rows p (concat xss) = concat (map (csv_rows p) xss)"
  by (induction xss) (simp_all add: csv_rows_append)

lemma passes_and_steps_concat:
  "passes_and_steps (concat xss) = concat (map passes_and_steps xss)"
  by (induction xss) (simp_all add: passes_and_steps_append, simp add: passes_and_steps_def)

lemma new_model_bert: "new_model ext a i = Inr model \<Longrightarrow> bert model = new_encoder ext a i"
  by (auto simp: new_model_def CodenBert_init_def split: sum.splits if_splits encoder.splits)

lemma passes_of_epochs:
  "concat (map (\<lambda>x. [TrainEpoch (o_epoch x), SchedulerStep, Evaluate (o_epoch x)]) outs)
     = concat (map (\<lambda>e. [TrainEpoch e, SchedulerStep, Evaluate e]) (map o_epoch outs))"
  by (simp add: comp_def)

lemma runs_nth:
  assumes "map (run_fold ext a) [0..<n] = map Inr sts" and "i < n"
  shows "run_fold ext a i = Inr (sts ! i)"
proof -
  from assms(1) have len: "length sts = n"
    using length_map[of "run_fold ext a" "[0..<n]"] length_map[of Inr sts] by simp
  from assms(1) have "map (run_fold ext a) [0..<n] ! i = map Inr sts ! i" by simp
  with assms(2) len show ?thesis by simp
qed

text \<open>A whole run of one epoch per fold on the small configuration.\<close>

lemma toy_main_1:
  "\<exists>evs. main (toy_ext train_set1 test_set1) (toy_args 1) = Inr ((Fin (- 3), Fin 1, Fin 1), evs)
     \<and> csv_rows ''out/logs/train_log_1.csv'' evs
        = [[CInt 1, CFloat (Fin (1 / 2)), CFloat (Fin (- 3)), CFloat (Fin 1), CFloat (Fin 1)],
           [CInt 1, CFloat (Fin (1 / 2)), CFloat (Fin (- 3)), CFloat (Fin 1), CFloat (Fin 1)],
           [CInt 1, CFloat (Fin (1 / 2)), CFloat (Fin (- 3)), CFloat (Fin 1), CFloat (Fin 1)],
           [CInt 1, CFloat (Fin (1 / 2)), CFloat (Fin (- 3)), CFloat (Fin 1), CFloat (Fin 1)],
           [CInt 1, CFloat (Fin (1 / 2)), CFloat (Fin (- 3)), CFloat (Fin 1), CFloat (Fin 1)],
           [CInt 1, CFloat (Fin (1 / 2)), CFloat (Fin (- 3)), CFloat (Fin 1), CFloat (Fin 1)],
           [CInt 1, CFloat (Fin (1 / 2)), CFloat (Fin (- 3)), CFloat (Fin 1), CFloat (Fin 1)],
           [CInt 1, CFloat (Fin (1 / 2)), CFloat (Fin (- 3)), CFloat (Fin 1), CFloat (Fin 1)],
           [CInt 1, CFloat (Fin (1 / 2)), CFloat (Fin (- 3)), CFloat (Fin 1), CFloat (Fin 1)],
           [CInt 1, CFloat (Fin (1 / 2)), CFloat (Fin (- 3)), CFloat (Fin 1), CFloat (Fin 1)]]
     \<and> csv_rows ''out/best_results.csv'' evs
        = [[CInt 1, CFloat (Fin (- 3)), CFloat (Fin 1), CFloat (Fin 1)],
           [CInt 2, CFloat (Fin (- 3)), CFloat (Fin 1), CFloat (Fin 1)],
           [CInt 3, CFloat (Fin (- 3)), CFloat (Fin 1), CFloat (Fin 1)],
           [CInt 4, CFloat (Fin (- 3)), CFloat (Fin 1), CFloat (Fin 1)],
           [CInt 5, CFloat (Fin (- 3)), CFloat (Fin 1), CFloat (Fin 1)],
           [CInt 6, CFloat (Fin (- 3)), CFloat (Fin 1), CFloat (Fin 1)],
           [CInt 7, CFloat (Fin (- 3)), CFloat (Fin 1), CFloat (Fin 1)],
           [CInt 8, CFloat (Fin (- 3)), CFloat (Fin 1), CFloat (Fin 1)],
           [CInt 9, CFloat (Fin (- 3)), CFloat (Fin 1), CFloat (Fin 1)],
           [CInt 10, CFloat (Fin (- 3)), CFloat (Fin 1), CFloat (Fin 1)]]"
  by (simp add: main_def fold_body_def set_use_additional_feature_def upt_conv_Cons str_nat_10
        eval_simps real_sqrt_divide)

lemma toy_paths_1:
  "train_log_path (toy_args 1) 1 = ''out/logs/train_log_1.csv''"
  "eval_log_path (toy_args 1) 1 = ''out/logs/eval_log_1.csv''"
  "best_result_path (toy_args 1) = ''out/best_results.csv''"
  by (simp_all add: eval_simps)

lemma toy_args_unchanged: "set_use_additional_feature (toy_args n) = toy_args n"
  by (simp add: set_use_additional_feature_def toy_args_def)
section \<open>Checkpoint selector\<close>

text \<open>
  C5 (as amended). A fold starts with the trackers at the sentinels (max R2 and its
  paired correlation at \<open>-1e8\<close>, paired MSE, min evaluation loss and min training loss
  at \<open>1e8\<close>). After every epoch each of the three trackers is the sentinel folded with
  the values seen so far, a value replacing the running one only when Python's comparison
  finds it strictly better; so it is the best value seen so far whenever the values are
  numbers and one of them beats the sentinel. The triple (max R2, paired MSE, paired
  correlation) is replaced as a whole exactly when the evaluation R2 strictly exceeds the
  running maximum, and exactly then the \<^verbatim>\<open>best\<close> checkpoint is written, with the model
  of that epoch.
\<close>

theorem trackers_after_every_epoch:
  assumes run: "tv_after ext model delta optimizer n sched trl evl sp a f k = Inr st"
  shows "train_and_validate ext model delta optimizer n sched trl evl sp a f
           = tv_after ext model delta optimizer n sched trl evl sp a f n
       \<and> tv_view (tv_after ext model delta optimizer n sched trl evl sp a f 0)
           = Inr (Fin (- 100000000), Fin 100000000, Fin (- 100000000), Fin 100000000, Fin 100000000)
       \<and> (\<exists>outs. map o_epoch outs = [1..k]
          \<and> csv_rows (train_log_path a n) (events st) = map train_row outs
          \<and> csv_rows (eval_log_path a n) (events st) = map eval_row outs
          \<and> best_loss st = foldl better_min (Fin 100000000) (map o_train_loss outs)
          \<and> best_eval_loss st = foldl better_min (Fin 100000000) (map o_eval_loss outs)
          \<and> max_r2 st = foldl better_max (Fin (- 100000000)) (map o_r2 outs)
          \<and> (max_r2 st, min_mse st, max_corr st)
              = foldl better_triple (Fin (- 100000000), Fin 100000000, Fin (- 100000000))
                  (map eval_triple outs)
          \<and> filter (\<lambda>w. fst w = checkpoint_file sp ''best'') (saves (events st))
              = concat (map (\<lambda>j. if fl_greater (o_r2 (outs ! j)) (r2_before outs j)
                                  then [(checkpoint_file sp ''best'', o_model (outs ! j))] else [])
                          [0..<length outs])
          \<and> (\<forall>vs. map o_train_loss outs = map Fin vs \<and> (\<exists>v\<in>set vs. v < 100000000)
                 \<longrightarrow> best_loss st = Fin (Min (set vs)))
          \<and> (\<forall>vs. map o_eval_loss outs = map Fin vs \<and> (\<exists>v\<in>set vs. v < 100000000)
                 \<longrightarrow> best_eval_loss st = Fin (Min (set vs)))
          \<and> (\<forall>vs. map o_r2 outs = map Fin vs \<and> (\<exists>v\<in>set vs. - 100000000 < v)
                 \<longrightarrow> max_r2 st = Fin (Max (set vs))))"
proof (intro conjI)
  show "train_and_validate ext model delta optimizer n sched trl evl sp a f
           = tv_after ext model delta optimizer n sched trl evl sp a f n"
    by (rule train_and_validate_tv_after)
  show "tv_view (tv_after ext model delta optimizer n sched trl evl sp a f 0)
           = Inr (Fin (- 100000000), Fin 100000000, Fin (- 100000000), Fin 100000000, Fin 100000000)"
    by (simp add: tv_after_0 tv_view_def tv_init_def)
  from tv_after_Inr[OF run] obtain outs where o:
    "map o_epoch outs = [1..k]"
    "best_loss st = train_loss_before outs (length outs)"
    "best_eval_loss st = eval_loss_before outs (length outs)"
    "max_r2 st = r2_before outs (length outs)"
    "(max_r2 st, min_mse st, max_corr st)
          = foldl better_triple (Fin (- 100000000), Fin 100000000, Fin (- 100000000))
              (map eval_triple outs)"
    "events st = loop_events sp a f n (Fin 100000000) (Fin (- 100000000)) outs"
    by blast
  have bl: "best_loss st = foldl better_min (Fin 100000000) (map o_train_loss outs)"
    using o(2) by (simp add: train_loss_before_def)
  have bel: "best_eval_loss st = foldl better_min (Fin 100000000) (map o_eval_loss outs)"
    using o(3) by (simp add: eval_loss_before_def)
  have mr: "max_r2 st = foldl better_max (Fin (- 100000000)) (map o_r2 outs)"
    using o(4) by (simp add: r2_before_def)
  have sv: "filter (\<lambda>w. fst w = checkpoint_file sp ''best'') (saves (events st))
              = concat (map (\<lambda>j. if fl_greater (o_r2 (outs ! j)) (r2_before outs j)
                                  then [(checkpoint_file sp ''best'', o_model (outs ! j))] else [])
                          [0..<length outs])"
    unfolding o(6) saves_loop_events filter_concat_map best_saves_epoch r2_before_def
    by (simp add: comp_def)
  show "\<exists>outs. map o_epoch outs = [1..k]
          \<and> csv_rows (train_log_path a n) (events st) = map train_row outs
          \<and> csv_rows (eval_log_path a n) (events st) = map eval_row outs
          \<and> best_loss st = foldl better_min (Fin 100000000) (map o_train_loss outs)
          \<and> best_eval_loss st = foldl better_min (Fin 100000000) (map o_eval_loss outs)
          \<and> max_r2 st = foldl better_max (Fin (- 100000000)) (map o_r2 outs)
          \<and> (max_r2 st, min_mse st, max_corr st)
              = foldl better_triple (Fin (- 100000000), Fin 100000000, Fin (- 100000000))
                  (map eval_triple outs)
          \<and> filter (\<lambda>w. fst w = checkpoint_file sp ''best'') (saves (events st))
              = concat (map (\<lambda>j. if fl_greater (o_r2 (outs ! j)) (r2_before outs j)
                                  then [(checkpoint_file sp ''best'', o_model (outs ! j))] else [])
                          [0..<length outs])
          \<and> (\<forall>vs. map o_train_loss outs = map Fin vs \<and> (\<exists>v\<in>set vs. v < 100000000)
                 \<longrightarrow> best_loss st = Fin (Min (set vs)))
          \<and> (\<forall>vs. map o_eval_loss outs = map Fin vs \<and> (\<exists>v\<in>set vs. v < 100000000)
                 \<longrightarrow> best_eval_loss st = Fin (Min (set vs)))
          \<and> (\<forall>vs. map o_r2 outs = map Fin vs \<and> (\<exists>v\<in>set vs. - 100000000 < v)
                 \<longrightarrow> max_r2 st = Fin (Max (set vs)))"
  proof (intro exI[of _ outs] conjI allI impI)
    show "map o_epoch outs = [1..k]" by (rule o(1))
    show "csv_rows (train_log_path a n) (events st) = map train_row outs"
      by (simp add: o(6) train_rows_loop_events)
    show "csv_rows (eval_log_path a n) (events st) = map eval_row outs"
      by (simp add: o(6) eval_rows_loop_events)
    show "best_loss st = foldl better_min (Fin 100000000) (map o_train_loss outs)" by (rule bl)
    show "best_eval_loss st = foldl better_min (Fin 100000000) (map o_eval_loss outs)" by (rule bel)
    show "max_r2 st = foldl better_max (Fin (- 100000000)) (map o_r2 outs)" by (rule mr)
    show "(max_r2 st, min_mse st, max_corr st)
              = foldl better_triple (Fin (- 100000000), Fin 100000000, Fin (- 100000000))
                  (map eval_triple outs)" by (rule o(5))
    show "filter (\<lambda>w. fst w = checkpoint_file sp ''best'') (saves (events st))
              = concat (map (\<lambda>j. if fl_greater (o_r2 (outs ! j)) (r2_before outs j)
                                  then [(checkpoint_file sp ''best'', o_model (outs ! j))] else [])
                          [0..<length outs])" by (rule sv)
  next
    fix vs assume "map o_train_loss outs = map Fin vs \<and> (\<exists>v\<in>set vs. v < 100000000)"
    then show "best_loss st = Fin (Min (set vs))"
      using bl best_of_Fin_min[of vs 100000000] by simp
  next
    fix vs assume "map o_eval_loss outs = map Fin vs \<and> (\<exists>v\<in>set vs. v < 100000000)"
    then show "best_eval_loss st = Fin (Min (set vs))"
      using bel best_of_Fin_min[of vs 100000000] by simp
  next
    fix vs assume "map o_r2 outs = map Fin vs \<and> (\<exists>v\<in>set vs. - 100000000 < v)"
    then show "max_r2 st = Fin (Max (set vs))"
      using mr best_of_Fin_max[of vs "- 100000000"] by simp
  qed
qed

theorem trackers_after_every_epoch_witness:
  "\<exists>st. toy_run train_set1 test_set1 3 3 = Inr st
     \<and> (\<exists>outs :: outcome list. map o_epoch outs = [1..3]
          \<and> map o_train_loss outs = map Fin [1 / 2, 0, 1 / 2]
          \<and> (\<exists>v\<in>set [1 / 2, 0, 1 / 2 :: real]. v < 100000000)
          \<and> best_loss st = Fin (Min (set [1 / 2, 0, 1 / 2]))
          \<and> map o_eval_loss outs = map Fin [1 / 2, 3 / 2, 5 / 2]
          \<and> (\<exists>v\<in>set [1 / 2, 3 / 2, 5 / 2 :: real]. v < 100000000)
          \<and> best_eval_loss st = Fin (Min (set [1 / 2, 3 / 2, 5 / 2]))
          \<and> map o_r2 outs = map Fin [- 3, - 15, - 35]
          \<and> (\<exists>v\<in>set [- 3, - 15, - 35 :: real]. - 100000000 < v)
          \<and> max_r2 st = Fin (Max (set [- 3, - 15, - 35]))
          \<and> (max_r2 st, min_mse st, max_corr st) = (Fin (- 3), Fin 1, Fin 1))"
proof -
  from toy_run_3_ok obtain st where st: "toy_run train_set1 test_set1 3 3 = Inr st" ..
  note T = trackers_after_every_epoch[OF st[unfolded toy_run_def]]
  from T obtain outs where o:
    "map o_epoch outs = [1..3]"
    "csv_rows (train_log_path (toy_args 1) 3) (events st) = map train_row outs"
    "csv_rows (eval_log_path (toy_args 1) 3) (events st) = map eval_row outs"
    "(max_r2 st, min_mse st, max_corr st)
              = foldl better_triple (Fin (- 100000000), Fin 100000000, Fin (- 100000000))
                  (map eval_triple outs)"
    "\<forall>vs. map o_train_loss outs = map Fin vs \<and> (\<exists>v\<in>set vs. v < 100000000)
                 \<longrightarrow> best_loss st = Fin (Min (set vs))"
    "\<forall>vs. map o_eval_loss outs = map Fin vs \<and> (\<exists>v\<in>set vs. v < 100000000)
                 \<longrightarrow> best_eval_loss st = Fin (Min (set vs))"
    "\<forall>vs. map o_r2 outs = map Fin vs \<and> (\<exists>v\<in>set vs. - 100000000 < v)
                 \<longrightarrow> max_r2 st = Fin (Max (set vs))"
    by blast
  have ev: "events st = tv_events (toy_run train_set1 test_set1 3 3)"
    by (simp add: st tv_events_def)
  from o(3) have er: "map eval_row outs = [[CInt 1, CFloat (Fin (1 / 2)), CFloat (Fin (- 3)), CFloat (Fin 1), CFloat (Fin 1)],
        [CInt 2, CFloat (Fin (3 / 2)), CFloat (Fin (- 15)), CFloat (Fin 4), CFloat (Fin 1)],
        [CInt 3, CFloat (Fin (5 / 2)), CFloat (Fin (- 35)), CFloat (Fin 9), CFloat (Fin 1)]]"
    by (simp only: ev toy_run_3_eval_rows)
  from o(2) have tr: "map train_row outs = [[CInt 1, CFloat (Fin (1 / 2)), CFloat (Fin (- 3)), CFloat (Fin 1), CFloat (Fin 1)],
        [CInt 2, CFloat (Fin 0), CFloat (Fin 1), CFloat (Fin 0), CFloat (Fin 1)],
        [CInt 3, CFloat (Fin (1 / 2)), CFloat (Fin (- 3)), CFloat (Fin 1), CFloat (Fin 1)]]"
    by (simp only: ev toy_run_3_train_rows)
  from map_eval_row_3[OF er] have r2s: "map o_r2 outs = map Fin [- 3, - 15, - 35]"
    and els: "map o_eval_loss outs = map Fin [1 / 2, 3 / 2, 5 / 2]"
    and trs: "map eval_triple outs = [(Fin (- 3), Fin 1, Fin 1), (Fin (- 15), Fin 4, Fin 1), (Fin (- 35), Fin 9, Fin 1)]"
    by simp_all
  from map_train_row_3[OF tr] have tls: "map o_train_loss outs = map Fin [1 / 2, 0, 1 / 2]" by simp
  have h1: "\<exists>v\<in>set [1 / 2, 0, 1 / 2 :: real]. v < 100000000" by simp
  have h2: "\<exists>v\<in>set [1 / 2, 3 / 2, 5 / 2 :: real]. v < 100000000" by simp
  have h3: "\<exists>v\<in>set [- 3, - 15, - 35 :: real]. - 100000000 < v" by simp
  from o(5) tls h1 have c1: "best_loss st = Fin (Min (set [1 / 2, 0, 1 / 2]))" by blast
  from o(6) els h2 have c2: "best_eval_loss st = Fin (Min (set [1 / 2, 3 / 2, 5 / 2]))" by blast
  from o(7) r2s h3 have c3: "max_r2 st = Fin (Max (set [- 3, - 15, - 35]))" by blast
  have c4: "(max_r2 st, min_mse st, max_corr st) = (Fin (- 3), Fin 1, Fin 1)"
    unfolding o(4) trs by (simp add: better_triple_def fl_greater_def)
  show ?thesis
  proof (intro exI[of _ st] conjI)
    show "toy_run train_set1 test_set1 3 3 = Inr st" by (rule st)
    show "\<exists>outs :: outcome list. map o_epoch outs = [1..3]
          \<and> map o_train_loss outs = map Fin [1 / 2, 0, 1 / 2]
          \<and> (\<exists>v\<in>set [1 / 2, 0, 1 / 2 :: real]. v < 100000000)
          \<and> best_loss st = Fin (Min (set [1 / 2, 0, 1 / 2]))
          \<and> map o_eval_loss outs = map Fin [1 / 2, 3 / 2, 5 / 2]
          \<and> (\<exists>v\<in>set [1 / 2, 3 / 2, 5 / 2 :: real]. v < 100000000)
          \<and> best_eval_loss st = Fin (Min (set [1 / 2, 3 / 2, 5 / 2]))
          \<and> map o_r2 outs = map Fin [- 3, - 15, - 35]
          \<and> (\<exists>v\<in>set [- 3, - 15, - 35 :: real]. - 100000000 < v)
          \<and> max_r2 st = Fin (Max (set [- 3, - 15, - 35]))
          \<and> (max_r2 st, min_mse st, max_corr st) = (Fin (- 3), Fin 1, Fin 1)"
      by (intro exI[of _ outs] conjI) (fact o(1) tls h1 c1 els h2 c2 r2s h3 c3 c4)+
  qed
qed

text \<open>
  The claim as stated fails when no value beats the sentinel: with test targets
  \<open>[0, 0.0001]\<close> and predictions \<open>[1, 2]\<close> the only R2 seen is
  \<open>-999920001\<close>, and the tracker stays at \<open>-1e8\<close>.
\<close>

theorem trackers_sentinel_counterexample:
  "tv_view (run_fold (toy_ext train_set1 test_set_near_constant) (toy_args 1) 0)
     = Inr (Fin (- 100000000), Fin 100000000, Fin (- 100000000), Fin (1 / 2), Fin (99995 / 100000))
   \<and> column 2 (csv_rows ''out/logs/eval_log_1.csv''
        (tv_events (run_fold (toy_ext train_set1 test_set_near_constant) (toy_args 1) 0)))
     = [CFloat (Fin (- 999920001))]
   \<and> Fin (- 100000000) \<noteq> Fin (- 999920001)"
  by (simp add: tv_view_def tv_events_def column_def eval_simps)

section \<open>Checkpoints\<close>

lemma saved_files_subset_epoch:
  "set (map fst (epoch_saves sp el r2 x))
     \<subseteq> {checkpoint_file sp ''last'', checkpoint_file sp ''best_eval_loss'', checkpoint_file sp ''best''}"
  by (auto simp: epoch_saves_def)

lemma saved_files_loop_events_subset:
  "set (saved_files (loop_events sp a f n el r2 outs))
     \<subseteq> {checkpoint_file sp ''last'', checkpoint_file sp ''best_eval_loss'', checkpoint_file sp ''best''}"
proof (induction outs arbitrary: el r2)
  case Nil
  show ?case by (simp add: saved_files_def)
next
  case (Cons x xs)
  have "set (saved_files (loop_events sp a f n el r2 (x # xs)))
        = set (map fst (epoch_saves sp el r2 x))
          \<union> set (saved_files (loop_events sp a f n (better_min el (o_eval_loss x))
                                 (better_max r2 (o_r2 x)) xs))"
    by (simp add: saved_files_def saves_append saves_epoch_events)
  then show ?case using saved_files_subset_epoch[of sp el r2 x] Cons.IH by blast
qed

text \<open>
  C2 (as amended). In a fold run, the loop keeps three running values: the lowest
  training loss and the lowest evaluation loss, which start at the sentinel \<open>1e8\<close>,
  and the highest evaluation R2, which starts at the sentinel \<open>-1e8\<close>; each is replaced
  on a strict improvement only. The checkpoint writes of an epoch are: \<^verbatim>\<open>last\<close> in
  every epoch, \<^verbatim>\<open>best_eval_loss\<close> when the epoch's evaluation loss is strictly below
  the running lowest evaluation loss (the sentinel \<open>1e8\<close> folded with the evaluation
  losses of the epochs before), \<^verbatim>\<open>best\<close> when the epoch's R2 is strictly above the
  running highest R2 (the sentinel \<open>-1e8\<close> folded with the R2 of the epochs before).
  So an evaluation loss that is not below \<open>1e8\<close>, or an R2 that is not above \<open>-1e8\<close>,
  writes no such checkpoint even in the first epoch. No write depends on the training
  loss, and no other file is written: the lowest training loss is a number that is
  tracked, no checkpoint goes with it.
\<close>

theorem checkpoint_writes:
  assumes run: "tv_after ext model delta optimizer n sched trl evl sp a f k = Inr st"
  shows "\<exists>outs. map o_epoch outs = [1..k]
      \<and> csv_rows (train_log_path a n) (events st) = map train_row outs
      \<and> csv_rows (eval_log_path a n) (events st) = map eval_row outs
      \<and> best_loss st = foldl better_min (Fin 100000000) (map o_train_loss outs)
      \<and> best_eval_loss st = foldl better_min (Fin 100000000) (map o_eval_loss outs)
      \<and> max_r2 st = foldl better_max (Fin (- 100000000)) (map o_r2 outs)
      \<and> saves (events st)
          = concat (map (\<lambda>j. [(checkpoint_file sp ''last'', o_model (outs ! j))]
                          @ (if fl_less (o_eval_loss (outs ! j))
                                   (foldl better_min (Fin 100000000) (map o_eval_loss (take j outs)))
                             then [(checkpoint_file sp ''best_eval_loss'', o_model (outs ! j))]
                             else [])
                          @ (if fl_greater (o_r2 (outs ! j))
                                   (foldl better_max (Fin (- 100000000)) (map o_r2 (take j outs)))
                             then [(checkpoint_file sp ''best'', o_model (outs ! j))] else []))
                      [0..<length outs])
      \<and> set (saved_files (events st))
          \<subseteq> {checkpoint_file sp ''last'', checkpoint_file sp ''best_eval_loss'',
              checkpoint_file sp ''best''}"
proof -
  from tv_after_Inr[OF run] obtain outs where o:
    "map o_epoch outs = [1..k]"
    "best_loss st = train_loss_before outs (length outs)"
    "best_eval_loss st = eval_loss_before outs (length outs)"
    "max_r2 st = r2_before outs (length outs)"
    "events st = loop_events sp a f n (Fin 100000000) (Fin (- 100000000)) outs"
    by blast
  show ?thesis
  proof (intro exI[of _ outs] conjI)
    show "map o_epoch outs = [1..k]" by (rule o(1))
    show "csv_rows (train_log_path a n) (events st) = map train_row outs"
      by (simp add: o(5) train_rows_loop_events)
    show "csv_rows (eval_log_path a n) (events st) = map eval_row outs"
      by (simp add: o(5) eval_rows_loop_events)
    show "best_loss st = foldl better_min (Fin 100000000) (map o_train_loss outs)"
      using o(2) by (simp add: train_loss_before_def)
    show "best_eval_loss st = foldl better_min (Fin 100000000) (map o_eval_loss outs)"
      using o(3) by (simp add: eval_loss_before_def)
    show "max_r2 st = foldl better_max (Fin (- 100000000)) (map o_r2 outs)"
      using o(4) by (simp add: r2_before_def)
    show "saves (events st)
          = concat (map (\<lambda>j. [(checkpoint_file sp ''last'', o_model (outs ! j))]
                          @ (if fl_less (o_eval_loss (outs ! j))
                                   (foldl better_min (Fin 100000000) (map o_eval_loss (take j outs)))
                             then [(checkpoint_file sp ''best_eval_loss'', o_model (outs ! j))]
                             else [])
                          @ (if fl_greater (o_r2 (outs ! j))
                                   (foldl better_max (Fin (- 100000000)) (map o_r2 (take j outs)))
                             then [(checkpoint_file sp ''best'', o_model (outs ! j))] else []))
                      [0..<length outs])"
      unfolding o(5) saves_loop_events epoch_saves_def ..
    show "set (saved_files (events st))
          \<subseteq> {checkpoint_file sp ''last'', checkpoint_file sp ''best_eval_loss'',
              checkpoint_file sp ''best''}"
      unfolding o(5) by (rule saved_files_loop_events_subset)
  qed
qed

lemma toy_run_3_saved_files:
  "saved_files (tv_events (toy_run train_set1 test_set1 3 3))
   = [''out/checkpoints/fold_1/pytorch_model_Plast.pth'',
      ''out/checkpoints/fold_1/pytorch_model_Pbest_eval_loss.pth'',
      ''out/checkpoints/fold_1/pytorch_model_Pbest.pth'',
      ''out/checkpoints/fold_1/pytorch_model_Plast.pth'',
      ''out/checkpoints/fold_1/pytorch_model_Plast.pth'']"
  by (simp add: tv_events_def saved_files_def toy_run_simps)

lemma toy_run_sentinel_saved_files:
  "saved_files (tv_events (toy_run train_set1 test_set_near_constant 1 1))
   = [''out/checkpoints/fold_1/pytorch_model_Plast.pth'',
      ''out/checkpoints/fold_1/pytorch_model_Pbest_eval_loss.pth'']"
  by (simp add: tv_events_def saved_files_def toy_run_simps)

theorem checkpoint_writes_witness:
  "\<exists>st. toy_run train_set1 test_set1 3 3 = Inr st
     \<and> saved_files (events st)
         = [''out/checkpoints/fold_1/pytorch_model_Plast.pth'',
            ''out/checkpoints/fold_1/pytorch_model_Pbest_eval_loss.pth'',
            ''out/checkpoints/fold_1/pytorch_model_Pbest.pth'',
            ''out/checkpoints/fold_1/pytorch_model_Plast.pth'',
            ''out/checkpoints/fold_1/pytorch_model_Plast.pth'']
     \<and> set (saved_files (events st))
          \<subseteq> {checkpoint_file ''out/checkpoints/fold_1'' ''last'',
              checkpoint_file ''out/checkpoints/fold_1'' ''best_eval_loss'',
              checkpoint_file ''out/checkpoints/fold_1'' ''best''}
     \<and> (\<exists>outs :: outcome list. map o_epoch outs = [1..3]
           \<and> best_loss st = foldl better_min (Fin 100000000) (map o_train_loss outs)
           \<and> map o_train_loss outs = [Fin (1 / 2), Fin 0, Fin (1 / 2)])
     \<and> saved_files (tv_events (toy_run train_set1 test_set_near_constant 1 1))
         = [''out/checkpoints/fold_1/pytorch_model_Plast.pth'',
            ''out/checkpoints/fold_1/pytorch_model_Pbest_eval_loss.pth'']"
proof -
  from toy_run_3_ok obtain st where st: "toy_run train_set1 test_set1 3 3 = Inr st" ..
  note T = checkpoint_writes[OF st[unfolded toy_run_def]]
  from T obtain outs where o:
    "map o_epoch outs = [1..3]"
    "csv_rows (train_log_path (toy_args 1) 3) (events st) = map train_row outs"
    "best_loss st = foldl better_min (Fin 100000000) (map o_train_loss outs)"
    "set (saved_files (events st))
          \<subseteq> {checkpoint_file ''out/checkpoints/fold_1'' ''last'',
              checkpoint_file ''out/checkpoints/fold_1'' ''best_eval_loss'',
              checkpoint_file ''out/checkpoints/fold_1'' ''best''}"
    by blast
  have ev: "events st = tv_events (toy_run train_set1 test_set1 3 3)"
    by (simp add: st tv_events_def)
  from o(2) have tr: "map train_row outs = [[CInt 1, CFloat (Fin (1 / 2)), CFloat (Fin (- 3)), CFloat (Fin 1), CFloat (Fin 1)],
        [CInt 2, CFloat (Fin 0), CFloat (Fin 1), CFloat (Fin 0), CFloat (Fin 1)],
        [CInt 3, CFloat (Fin (1 / 2)), CFloat (Fin (- 3)), CFloat (Fin 1), CFloat (Fin 1)]]"
    by (simp only: ev toy_run_3_train_rows)
  from map_train_row_3[OF tr] have tls: "map o_train_loss outs = [Fin (1 / 2), Fin 0, Fin (1 / 2)]" .
  have sf: "saved_files (events st)
         = [''out/checkpoints/fold_1/pytorch_model_Plast.pth'',
            ''out/checkpoints/fold_1/pytorch_model_Pbest_eval_loss.pth'',
            ''out/checkpoints/fold_1/pytorch_model_Pbest.pth'',
            ''out/checkpoints/fold_1/pytorch_model_Plast.pth'',
            ''out/checkpoints/fold_1/pytorch_model_Plast.pth'']"
    by (simp only: ev toy_run_3_saved_files)
  show ?thesis
  proof (intro exI[of _ st] conjI)
    show "toy_run train_set1 test_set1 3 3 = Inr st" by (rule st)
    show "saved_files (events st)
         = [''out/checkpoints/fold_1/pytorch_model_Plast.pth'',
            ''out/checkpoints/fold_1/pytorch_model_Pbest_eval_loss.pth'',
            ''out/checkpoints/fold_1/pytorch_model_Pbest.pth'',
            ''out/checkpoints/fold_1/pytorch_model_Plast.pth'',
            ''out/checkpoints/fold_1/pytorch_model_Plast.pth'']" by (rule sf)
    show "set (saved_files (events st))
          \<subseteq> {checkpoint_file ''out/checkpoints/fold_1'' ''last'',
              checkpoint_file ''out/checkpoints/fold_1'' ''best_eval_loss'',
              checkpoint_file ''out/checkpoints/fold_1'' ''best''}" by (rule o(4))
    show "\<exists>outs :: outcome list. map o_epoch outs = [1..3]
           \<and> best_loss st = foldl better_min (Fin 100000000) (map o_train_loss outs)
           \<and> map o_train_loss outs = [Fin (1 / 2), Fin 0, Fin (1 / 2)]"
      by (intro exI[of _ outs] conjI) (fact o(1) o(3) tls)+
    show "saved_files (tv_events (toy_run train_set1 test_set_near_constant 1 1))
         = [''out/checkpoints/fold_1/pytorch_model_Plast.pth'',
            ''out/checkpoints/fold_1/pytorch_model_Pbest_eval_loss.pth'']"
      by (rule toy_run_sentinel_saved_files)
  qed
qed

text \<open>
  Three epochs with the training losses 1/2, 0, 1/2: the second epoch has the lowest
  training loss, and the only write of that epoch is \<^verbatim>\<open>last\<close>, which the third epoch
  overwrites. After the run no file holds the model of the second epoch (the one whose
  regressor bias is 2).
\<close>

theorem no_train_loss_checkpoint_counterexample:
  "column 1 (csv_rows ''out/logs/train_log_3.csv''
       (tv_events (run_fold (toy_ext train_set1 test_set1) (toy_args 3) 0)))
     = [CFloat (Fin (1 / 2)), CFloat (Fin 0), CFloat (Fin (1 / 2))]
   \<and> tv_view (run_fold (toy_ext train_set1 test_set1) (toy_args 3) 0)
     = Inr (Fin (- 3), Fin 1, Fin 1, Fin 0, Fin (1 / 2))
   \<and> saved_biases (tv_events (run_fold (toy_ext train_set1 test_set1) (toy_args 3) 0))
     = [(''out/checkpoints/fold_1/pytorch_model_Plast.pth'', [1]),
        (''out/checkpoints/fold_1/pytorch_model_Pbest_eval_loss.pth'', [1]),
        (''out/checkpoints/fold_1/pytorch_model_Pbest.pth'', [1]),
        (''out/checkpoints/fold_1/pytorch_model_Plast.pth'', [2]),
        (''out/checkpoints/fold_1/pytorch_model_Plast.pth'', [3])]
   \<and> final_write ''out/checkpoints/fold_1/pytorch_model_Plast.pth''
        (saved_biases (tv_events (run_fold (toy_ext train_set1 test_set1) (toy_args 3) 0)))
     = Some [3]
   \<and> final_write ''out/checkpoints/fold_1/pytorch_model_Pbest_eval_loss.pth''
        (saved_biases (tv_events (run_fold (toy_ext train_set1 test_set1) (toy_args 3) 0)))
     = Some [1]
   \<and> final_write ''out/checkpoints/fold_1/pytorch_model_Pbest.pth''
        (saved_biases (tv_events (run_fold (toy_ext train_set1 test_set1) (toy_args 3) 0)))
     = Some [1]"
proof -
  have rows: "column 1 (csv_rows ''out/logs/train_log_3.csv''
       (tv_events (run_fold (toy_ext train_set1 test_set1) (toy_args 3) 0)))
     = [CFloat (Fin (1 / 2)), CFloat (Fin 0), CFloat (Fin (1 / 2))]"
    by (simp add: tv_events_def column_def eval_simps real_sqrt_divide)
  have view: "tv_view (run_fold (toy_ext train_set1 test_set1) (toy_args 3) 0)
     = Inr (Fin (- 3), Fin 1, Fin 1, Fin 0, Fin (1 / 2))"
    by (simp add: tv_view_def eval_simps real_sqrt_divide)
  have sb: "saved_biases (tv_events (run_fold (toy_ext train_set1 test_set1) (toy_args 3) 0))
     = [(''out/checkpoints/fold_1/pytorch_model_Plast.pth'', [1]),
        (''out/checkpoints/fold_1/pytorch_model_Pbest_eval_loss.pth'', [1]),
        (''out/checkpoints/fold_1/pytorch_model_Pbest.pth'', [1]),
        (''out/checkpoints/fold_1/pytorch_model_Plast.pth'', [2]),
        (''out/checkpoints/fold_1/pytorch_model_Plast.pth'', [3])]"
    by (simp add: tv_events_def saved_biases_def regressor_bias_def eval_simps real_sqrt_divide)
  show ?thesis
    unfolding sb using rows view by simp
qed

section \<open>Degenerate metric inputs\<close>

lemma fl_less_NaN [simp]: "fl_less NaN b = False" "fl_less b NaN = False"
  by (cases b; simp)+

lemma better_max_NaN: "better_max b NaN = b"
  by (simp add: better_max_def fl_greater_def)

lemma better_min_NaN: "better_min b NaN = b"
  by (simp add: better_min_def)

lemma better_triple_NaN: "fst t = NaN \<Longrightarrow> better_triple b t = b"
  by (simp add: better_triple_def fl_greater_def)

lemma foldl_better_max_filter:
  "foldl better_max b (filter (\<lambda>v. v \<noteq> NaN) vs) = foldl better_max b vs"
  by (induction vs arbitrary: b) (simp_all add: better_max_NaN)

lemma foldl_better_min_filter:
  "foldl better_min b (filter (\<lambda>v. v \<noteq> NaN) vs) = foldl better_min b vs"
  by (induction vs arbitrary: b) (simp_all add: better_min_NaN)

lemma foldl_better_triple_filter:
  "foldl better_triple b (filter (\<lambda>t. fst t \<noteq> NaN) ts) = foldl better_triple b ts"
  by (induction ts arbitrary: b) (simp_all add: better_triple_NaN)

lemma better_max_not_NaN: "b \<noteq> NaN \<Longrightarrow> better_max b v \<noteq> NaN"
  by (cases v) (auto simp: better_max_def fl_greater_def)

lemma better_min_not_NaN: "b \<noteq> NaN \<Longrightarrow> better_min b v \<noteq> NaN"
  by (cases v) (auto simp: better_min_def)

lemma foldl_better_max_not_NaN: "b \<noteq> NaN \<Longrightarrow> foldl better_max b vs \<noteq> NaN"
  by (induction vs arbitrary: b) (simp_all add: better_max_not_NaN)

lemma foldl_better_min_not_NaN: "b \<noteq> NaN \<Longrightarrow> foldl better_min b vs \<noteq> NaN"
  by (induction vs arbitrary: b) (simp_all add: better_min_not_NaN)

lemma tv_after_Inl_later:
  assumes "tv_after ext model delta optimizer n sched trl evl sp a f k = Inl e" and "k \<le> k'"
  shows "tv_after ext model delta optimizer n sched trl evl sp a f k' = Inl e"
proof -
  have k1: "1 \<le> k"
  proof (rule ccontr)
    assume "\<not> 1 \<le> k"
    then have "[1..k] = []" by simp
    with assms(1) show False by (simp add: tv_after_def)
  qed
  have "[1..k'] = [1..k] @ [k + 1..k']"
    using k1 assms(2) by (intro upto_split2) simp_all
  then show ?thesis
    using assms(1) by (simp add: tv_after_def foldM_e_append)
qed

lemma tv_epoch_Inl:
  assumes "train_epoch (lib ext) (step ext) (tv_model s) (iterate (shuffle ext f ep) trl)
             (tv_optimizer s) delta a = Inl e
      \<or> (\<exists>m' opt' sc. train_epoch (lib ext) (step ext) (tv_model s)
               (iterate (shuffle ext f ep) trl) (tv_optimizer s) delta a = Inr (m', opt', sc)
            \<and> evaluate (lib ext) m' (iterate (\<lambda>xs. xs) evl) delta a (max_r2 s) = Inl e)"
  shows "tv_epoch ext delta trl evl sp a f n s ep = Inl e"
  using assms
proof
  assume "train_epoch (lib ext) (step ext) (tv_model s) (iterate (shuffle ext f ep) trl)
             (tv_optimizer s) delta a = Inl e"
  then show ?thesis by (simp add: tv_epoch_def)
next
  assume "\<exists>m' opt' sc. train_epoch (lib ext) (step ext) (tv_model s)
               (iterate (shuffle ext f ep) trl) (tv_optimizer s) delta a = Inr (m', opt', sc)
            \<and> evaluate (lib ext) m' (iterate (\<lambda>xs. xs) evl) delta a (max_r2 s) = Inl e"
  then obtain m' opt' sc where
    tr: "train_epoch (lib ext) (step ext) (tv_model s)
               (iterate (shuffle ext f ep) trl) (tv_optimizer s) delta a = Inr (m', opt', sc)"
    and ev: "evaluate (lib ext) m' (iterate (\<lambda>xs. xs) evl) delta a (max_r2 s) = Inl e"
    by blast
  obtain tl tr2 tmse tcorr where sc: "sc = (tl, tr2, tmse, tcorr)" by (cases sc) auto
  obtain s' o'' where ss: "scheduler_step (get_lr ext) (tv_scheduler s) opt' = (s', o'')"
    by (cases "scheduler_step (get_lr ext) (tv_scheduler s) opt'")
  show ?thesis
    by (cases "fl_less tl (best_loss s)")
       (simp_all add: tv_epoch_def tr sc ss Let_def epoch_val_def eval_half_def ev)
qed

lemma masked_select_same_shape:
  assumes "same_shape2 t valid"
  shows "masked_select t valid
     = Inr (map (\<lambda>i. concat t ! i) (filter (\<lambda>i. concat valid ! i = 1) [0..<length (concat t)]))"
  unfolding masked_select_def zip_as_nth[OF same_shape2_concat[OF assms]]
  using assms by (simp add: filter_map comp_def)

lemma MaskedHuberLoss_forward_shapes:
  assumes "MaskedHuberLoss_forward delta pred label valid = Inr l"
  shows "same_shape2 pred valid" and "same_shape2 label valid"
  using assms
  by (auto simp: MaskedHuberLoss_forward_def HuberLoss_forward_none_def same_shape2_def ones_like_def
      comp_def split: if_splits sum.splits)

lemma train_epoch_metric_exception:
  assumes bsa: "train_values ml stp delta a model optimizer bsa = Inr (mb, ob, scs)"
    and f: "forward_batch mb a b = Inr (af, outputs)"
    and l: "MaskedHuberLoss_forward delta outputs (density b) (valid_sequence b) = Inr l"
    and sc: "score_reg ml
               (map (\<lambda>i. concat outputs ! i)
                  (filter (\<lambda>i. concat (valid_sequence b) ! i = 1) [0..<length (concat outputs)]))
               (map (\<lambda>i. concat (density b) ! i)
                  (filter (\<lambda>i. concat (valid_sequence b) ! i = 1)
                     [0..<length (concat (density b))]))
              = Inl e"
  shows "train_epoch ml stp model (bsa @ b # bsb) optimizer delta a = Inl e"
proof -
  define st0 where "st0 = \<lparr>ts_model = model, ts_optimizer = optimizer, loss_list = [], r2_list = [],
              mse_list = [], corr_list = []\<rparr>"
  define st1 where "st1 = st0\<lparr>ts_model := mb, ts_optimizer := ob,
                  r2_list := r2_list st0 @ map b_r2 scs, mse_list := mse_list st0 @ map b_mse scs,
                  corr_list := corr_list st0 @ map b_corr scs,
                  loss_list := loss_list st0 @ map b_loss scs\<rparr>"
  note p = masked_select_same_shape[OF MaskedHuberLoss_forward_shapes(1)[OF l]]
  note t = masked_select_same_shape[OF MaskedHuberLoss_forward_shapes(2)[OF l]]
  have "foldM_e (train_batch ml stp delta a) st0 bsa = Inr st1"
    using bsa by (simp add: train_loop_values st0_def st1_def)
  moreover have "train_batch ml stp delta a st1 b = Inl e"
    using f l sc by (simp add: train_batch_def st1_def p t)
  ultimately have "foldM_e (train_batch ml stp delta a) st0 (bsa @ b # bsb) = Inl e"
    by (simp add: foldM_e_append)
  then show ?thesis
    by (simp add: train_epoch_def st0_def)
qed

lemma tv_after_step_Inl:
  assumes k: "0 \<le> k" "k < n"
    and s: "tv_after ext model delta optimizer n sched trl evl sp a f k = Inr s"
    and e: "tv_epoch ext delta trl evl sp a f n s (k + 1) = Inl e"
  shows "train_and_validate ext model delta optimizer n sched trl evl sp a f = Inl e"
proof -
  have "[1..k + 1] = [1..k] @ [k + 1]"
    using k(1) upto_rec2[of 1 "k + 1"] by simp
  then have "tv_after ext model delta optimizer n sched trl evl sp a f (k + 1) = Inl e"
    using s e by (simp add: tv_after_def foldM_e_append)
  from tv_after_Inl_later[OF this, of n] k(2)
  show ?thesis by (simp add: train_and_validate_tv_after)
qed

lemma run_fold_Inl:
  assumes "new_model ext a i = Inr model" and "load_datasets ext a i = Inr (trd, ted)"
    and "0 < batch_size a"
    and "train_and_validate ext model 1 (new_AdamW (learning_rate a)) (num_train_epochs a)
        (new_CosineAnnealingLR (new_AdamW (learning_rate a)) (num_train_epochs a) (lr_min a))
        \<lparr>dl_dataset = trd, dl_batch_size = nat (batch_size a), dl_shuffle = True\<rparr>
        \<lparr>dl_dataset = ted, dl_batch_size = 1, dl_shuffle = False\<rparr>
        (save_path_of a i) a (i + 1) = Inl e"
  shows "run_fold ext a i = Inl e"
  using assms by (simp add: run_fold_def new_loaders_def new_DataLoader_def Let_def)

lemma fold_loop_ok:
  "(\<forall>j\<in>set idx. \<exists>st. run_fold ext a j = Inr st)
     \<Longrightarrow> \<exists>ms'. foldM_e (fold_body ext a) ms idx = Inr ms'"
proof (induction idx arbitrary: ms)
  case Nil
  show ?case by simp
next
  case (Cons j idx)
  from Cons.prems obtain st where st: "run_fold ext a j = Inr st" by auto
  then obtain ms1 where fb: "fold_body ext a ms j = Inr ms1"
    by (simp add: fold_body_def)
  from Cons.IH[of ms1] Cons.prems obtain ms' where "foldM_e (fold_body ext a) ms1 idx = Inr ms'"
    by auto
  then show ?case by (simp add: fb)
qed

lemma main_Inl:
  assumes a: "a = set_use_additional_feature args0" and sc: "\<not> should_continue a"
    and i: "i < 10" and before: "\<forall>j<i. \<exists>st. run_fold ext a j = Inr st"
    and e: "run_fold ext a i = Inl e"
  shows "main ext args0 = Inl e"
proof -
  have sp1: "[0..<10] = [0..<i] @ [i..<10]"
    using upt_add_eq_append[of 0 i "10 - i"] i by simp
  have sp2: "[i..<10] = i # [Suc i..<10]"
    using i by (rule upt_conv_Cons)
  have sp: "[0..<10] = [0..<i] @ i # [Suc i..<10]"
    using sp1 sp2 by simp
  from before have "\<forall>j\<in>set [0..<i]. \<exists>st. run_fold ext a j = Inr st" by simp
  from fold_loop_ok[OF this] obtain ms' where
    ms': "foldM_e (fold_body ext a)
            \<lparr>m_r2_list = [], m_mse_list = [], m_corr_list = [], m_events = []\<rparr> [0..<i] = Inr ms'"
    by blast
  have fb: "fold_body ext a ms' i = Inl e"
    using e by (simp add: fold_body_def)
  have "foldM_e (fold_body ext a)
            \<lparr>m_r2_list = [], m_mse_list = [], m_corr_list = [], m_events = []\<rparr> [0..<10] = Inl e"
    unfolding sp by (simp add: foldM_e_append ms' fb)
  then show ?thesis
    using sc by (simp add: main_def a[symmetric] Let_def)
qed

lemma fl_less_guard: "(v \<noteq> NaN \<and> fl_less v b) = fl_less v b"
  by (cases v) simp_all

lemma fl_greater_guard: "(v \<noteq> NaN \<and> fl_greater v b) = fl_greater v b"
  by (cases v) (simp_all add: fl_greater_def)

text \<open>
  C4 (as amended). Degenerate metric inputs are not handled: \<^verbatim>\<open>score_reg\<close> passes on
  what the metric library returns or raises, and nothing catches an exception.

  \<^item> An exception raised by the metric computation on the valid positions of a training
    batch is the result of \<^verbatim>\<open>train_epoch\<close>, and one raised on the pooled values of an
    evaluation pass is the result of \<^verbatim>\<open>evaluate\<close>.
  \<^item> An exception of the training pass or of the evaluation pass is the result of the
    epoch; an exception in an epoch is the result of \<^verbatim>\<open>train_and_validate\<close>, which
    is the result of the fold; and an exception of a fold, the folds before it having
    returned, is the result of \<^verbatim>\<open>main\<close> (called without \<^verbatim>\<open>should_continue\<close>,
    which raises at once): the run ends there.
  \<^item> When the run of a fold returns, the three values compared for the checkpoints
    (best R2, lowest evaluation loss, lowest training loss) are never NaN: a NaN is not
    an improvement, every comparison with NaN being false, so each tracker is its sentinel
    folded with the values that are numbers. An epoch whose R2 is NaN writes no
    \<^verbatim>\<open>best\<close> checkpoint and one whose evaluation loss is NaN writes no
    \<^verbatim>\<open>best_eval_loss\<close> checkpoint; \<^verbatim>\<open>last\<close> is written in every epoch whatever
    the metrics are.
  \<^item> The MSE and the correlation paired with the best R2 are copied as they come, NaN
    included, whenever the R2 improves.
\<close>

theorem degenerate_metrics_unguarded:
  "(train_values ml stp delta a model optimizer bsa = Inr (mb, ob, scs)
      \<and> forward_batch mb a b = Inr (af, outputs)
      \<and> MaskedHuberLoss_forward delta outputs (density b) (valid_sequence b) = Inr l
      \<and> score_reg ml
            (map (\<lambda>i. concat outputs ! i)
               (filter (\<lambda>i. concat (valid_sequence b) ! i = 1) [0..<length (concat outputs)]))
            (map (\<lambda>i. concat (density b) ! i)
               (filter (\<lambda>i. concat (valid_sequence b) ! i = 1)
                  [0..<length (concat (density b))]))
           = Inl e
    \<longrightarrow> train_epoch ml stp model (bsa @ b # bsb) optimizer delta a = Inl e)
   \<and> (mapM_e (eval_batch_values m delta a) eval_batches = Inr vs
      \<and> score_reg ml (concat (map e_pred vs)) (concat (map e_true vs)) = Inl e
    \<longrightarrow> evaluate ml m eval_batches delta a r2_so_far = Inl e)
   \<and> (train_epoch (lib ext) (step ext) (tv_model s) (iterate (shuffle ext f ep) trl)
             (tv_optimizer s) delta a = Inl e
      \<or> (\<exists>m' opt' sc. train_epoch (lib ext) (step ext) (tv_model s)
               (iterate (shuffle ext f ep) trl) (tv_optimizer s) delta a = Inr (m', opt', sc)
            \<and> evaluate (lib ext) m' (iterate (\<lambda>xs. xs) evl) delta a (max_r2 s) = Inl e)
    \<longrightarrow> tv_epoch ext delta trl evl sp a f n s ep = Inl e)
   \<and> (0 \<le> k \<and> k < n
      \<and> tv_after ext model delta optimizer n sched trl evl sp a f k = Inr s
      \<and> tv_epoch ext delta trl evl sp a f n s (k + 1) = Inl e
    \<longrightarrow> train_and_validate ext model delta optimizer n sched trl evl sp a f = Inl e)
   \<and> (new_model ext a i = Inr model \<and> load_datasets ext a i = Inr (trd, ted)
      \<and> 0 < batch_size a
      \<and> train_and_validate ext model 1 (new_AdamW (learning_rate a)) (num_train_epochs a)
          (new_CosineAnnealingLR (new_AdamW (learning_rate a)) (num_train_epochs a) (lr_min a))
          \<lparr>dl_dataset = trd, dl_batch_size = nat (batch_size a), dl_shuffle = True\<rparr>
          \<lparr>dl_dataset = ted, dl_batch_size = 1, dl_shuffle = False\<rparr>
          (save_path_of a i) a (i + 1) = Inl e
    \<longrightarrow> run_fold ext a i = Inl e)
   \<and> (a = set_use_additional_feature args0 \<and> \<not> should_continue a \<and> i < 10
      \<and> (\<forall>j<i. \<exists>st. run_fold ext a j = Inr st) \<and> run_fold ext a i = Inl e
    \<longrightarrow> main ext args0 = Inl e)
   \<and> (tv_after ext model delta optimizer n sched trl evl sp a f k = Inr st
    \<longrightarrow> max_r2 st \<noteq> NaN \<and> best_eval_loss st \<noteq> NaN \<and> best_loss st \<noteq> NaN
      \<and> (\<exists>outs. map o_epoch outs = [1..k]
           \<and> csv_rows (train_log_path a n) (events st) = map train_row outs
           \<and> csv_rows (eval_log_path a n) (events st) = map eval_row outs
           \<and> (max_r2 st, min_mse st, max_corr st)
               = foldl better_triple (Fin (- 100000000), Fin 100000000, Fin (- 100000000))
                   (filter (\<lambda>t. fst t \<noteq> NaN) (map eval_triple outs))
           \<and> best_eval_loss st
               = foldl better_min (Fin 100000000) (filter (\<lambda>v. v \<noteq> NaN) (map o_eval_loss outs))
           \<and> best_loss st
               = foldl better_min (Fin 100000000) (filter (\<lambda>v. v \<noteq> NaN) (map o_train_loss outs))
           \<and> saves (events st)
               = concat (map (\<lambda>j. [(checkpoint_file sp ''last'', o_model (outs ! j))]
                          @ (if o_eval_loss (outs ! j) \<noteq> NaN
                                \<and> fl_less (o_eval_loss (outs ! j))
                                    (foldl better_min (Fin 100000000)
                                       (map o_eval_loss (take j outs)))
                             then [(checkpoint_file sp ''best_eval_loss'', o_model (outs ! j))]
                             else [])
                          @ (if o_r2 (outs ! j) \<noteq> NaN
                                \<and> fl_greater (o_r2 (outs ! j))
                                    (foldl better_max (Fin (- 100000000))
                                       (map o_r2 (take j outs)))
                             then [(checkpoint_file sp ''best'', o_model (outs ! j))] else []))
                      [0..<length outs])))"
proof (intro conjI impI)
  assume h: "train_values ml stp delta a model optimizer bsa = Inr (mb, ob, scs)
      \<and> forward_batch mb a b = Inr (af, outputs)
      \<and> MaskedHuberLoss_forward delta outputs (density b) (valid_sequence b) = Inr l
      \<and> score_reg ml
            (map (\<lambda>i. concat outputs ! i)
               (filter (\<lambda>i. concat (valid_sequence b) ! i = 1) [0..<length (concat outputs)]))
            (map (\<lambda>i. concat (density b) ! i)
               (filter (\<lambda>i. concat (valid_sequence b) ! i = 1)
                  [0..<length (concat (density b))]))
           = Inl e"
  show "train_epoch ml stp model (bsa @ b # bsb) optimizer delta a = Inl e"
    by (rule train_epoch_metric_exception[OF h[THEN conjunct1] h[THEN conjunct2, THEN conjunct1]
          h[THEN conjunct2, THEN conjunct2, THEN conjunct1]
          h[THEN conjunct2, THEN conjunct2, THEN conjunct2]])
next
  assume "mapM_e (eval_batch_values m delta a) eval_batches = Inr vs
      \<and> score_reg ml (concat (map e_pred vs)) (concat (map e_true vs)) = Inl e"
  then show "evaluate ml m eval_batches delta a r2_so_far = Inl e"
    by (simp add: evaluate_values)
next
  assume "train_epoch (lib ext) (step ext) (tv_model s) (iterate (shuffle ext f ep) trl)
             (tv_optimizer s) delta a = Inl e
      \<or> (\<exists>m' opt' sc. train_epoch (lib ext) (step ext) (tv_model s)
               (iterate (shuffle ext f ep) trl) (tv_optimizer s) delta a = Inr (m', opt', sc)
            \<and> evaluate (lib ext) m' (iterate (\<lambda>xs. xs) evl) delta a (max_r2 s) = Inl e)"
  then show "tv_epoch ext delta trl evl sp a f n s ep = Inl e"
    by (rule tv_epoch_Inl)
next
  assume h: "0 \<le> k \<and> k < n
      \<and> tv_after ext model delta optimizer n sched trl evl sp a f k = Inr s
      \<and> tv_epoch ext delta trl evl sp a f n s (k + 1) = Inl e"
  show "train_and_validate ext model delta optimizer n sched trl evl sp a f = Inl e"
    by (rule tv_after_step_Inl[OF h[THEN conjunct1] h[THEN conjunct2, THEN conjunct1]
          h[THEN conjunct2, THEN conjunct2, THEN conjunct1]
          h[THEN conjunct2, THEN conjunct2, THEN conjunct2]])
next
  assume h: "new_model ext a i = Inr model \<and> load_datasets ext a i = Inr (trd, ted)
      \<and> 0 < batch_size a
      \<and> train_and_validate ext model 1 (new_AdamW (learning_rate a)) (num_train_epochs a)
          (new_CosineAnnealingLR (new_AdamW (learning_rate a)) (num_train_epochs a) (lr_min a))
          \<lparr>dl_dataset = trd, dl_batch_size = nat (batch_size a), dl_shuffle = True\<rparr>
          \<lparr>dl_dataset = ted, dl_batch_size = 1, dl_shuffle = False\<rparr>
          (save_path_of a i) a (i + 1) = Inl e"
  show "run_fold ext a i = Inl e"
    by (rule run_fold_Inl[OF h[THEN conjunct1] h[THEN conjunct2, THEN conjunct1]
          h[THEN conjunct2, THEN conjunct2, THEN conjunct1]
          h[THEN conjunct2, THEN conjunct2, THEN conjunct2]])
next
  assume h: "a = set_use_additional_feature args0 \<and> \<not> should_continue a \<and> i < 10
      \<and> (\<forall>j<i. \<exists>st. run_fold ext a j = Inr st) \<and> run_fold ext a i = Inl e"
  show "main ext args0 = Inl e"
    by (rule main_Inl[OF h[THEN conjunct1] h[THEN conjunct2, THEN conjunct1]
          h[THEN conjunct2, THEN conjunct2, THEN conjunct1]
          h[THEN conjunct2, THEN conjunct2, THEN conjunct2, THEN conjunct1]
          h[THEN conjunct2, THEN conjunct2, THEN conjunct2, THEN conjunct2]])
next
  assume run: "tv_after ext model delta optimizer n sched trl evl sp a f k = Inr st"
  from tv_after_Inr[OF run] obtain outs where o:
    "map o_epoch outs = [1..k]"
    "best_loss st = train_loss_before outs (length outs)"
    "best_eval_loss st = eval_loss_before outs (length outs)"
    "max_r2 st = r2_before outs (length outs)"
    "(max_r2 st, min_mse st, max_corr st)
          = foldl better_triple (Fin (- 100000000), Fin 100000000, Fin (- 100000000))
              (map eval_triple outs)"
    "events st = loop_events sp a f n (Fin 100000000) (Fin (- 100000000)) outs"
    by blast
  show "max_r2 st \<noteq> NaN"
    using o(4) by (simp add: r2_before_def foldl_better_max_not_NaN)
  show "best_eval_loss st \<noteq> NaN"
    using o(3) by (simp add: eval_loss_before_def foldl_better_min_not_NaN)
  show "best_loss st \<noteq> NaN"
    using o(2) by (simp add: train_loss_before_def foldl_better_min_not_NaN)
  show "\<exists>outs. map o_epoch outs = [1..k]
           \<and> csv_rows (train_log_path a n) (events st) = map train_row outs
           \<and> csv_rows (eval_log_path a n) (events st) = map eval_row outs
           \<and> (max_r2 st, min_mse st, max_corr st)
               = foldl better_triple (Fin (- 100000000), Fin 100000000, Fin (- 100000000))
                   (filter (\<lambda>t. fst t \<noteq> NaN) (map eval_triple outs))
           \<and> best_eval_loss st
               = foldl better_min (Fin 100000000) (filter (\<lambda>v. v \<noteq> NaN) (map o_eval_loss outs))
           \<and> best_loss st
               = foldl better_min (Fin 100000000) (filter (\<lambda>v. v \<noteq> NaN) (map o_train_loss outs))
           \<and> saves (events st)
               = concat (map (\<lambda>j. [(checkpoint_file sp ''last'', o_model (outs ! j))]
                          @ (if o_eval_loss (outs ! j) \<noteq> NaN
                                \<and> fl_less (o_eval_loss (outs ! j))
                                    (foldl better_min (Fin 100000000)
                                       (map o_eval_loss (take j outs)))
                             then [(checkpoint_file sp ''best_eval_loss'', o_model (outs ! j))]
                             else [])
                          @ (if o_r2 (outs ! j) \<noteq> NaN
                                \<and> fl_greater (o_r2 (outs ! j))
                                    (foldl better_max (Fin (- 100000000))
                                       (map o_r2 (take j outs)))
                             then [(checkpoint_file sp ''best'', o_model (outs ! j))] else []))
                      [0..<length outs])"
  proof (intro exI[of _ outs] conjI)
    show "map o_epoch outs = [1..k]" by (rule o(1))
    show "csv_rows (train_log_path a n) (events st) = map train_row outs"
      by (simp add: o(6) train_rows_loop_events)
    show "csv_rows (eval_log_path a n) (events st) = map eval_row outs"
      by (simp add: o(6) eval_rows_loop_events)
    show "(max_r2 st, min_mse st, max_corr st)
               = foldl better_triple (Fin (- 100000000), Fin 100000000, Fin (- 100000000))
                   (filter (\<lambda>t. fst t \<noteq> NaN) (map eval_triple outs))"
      unfolding foldl_better_triple_filter by (rule o(5))
    show "best_eval_loss st
               = foldl better_min (Fin 100000000) (filter (\<lambda>v. v \<noteq> NaN) (map o_eval_loss outs))"
      unfolding foldl_better_min_filter using o(3) by (simp add: eval_loss_before_def)
    show "best_loss st
               = foldl better_min (Fin 100000000) (filter (\<lambda>v. v \<noteq> NaN) (map o_train_loss outs))"
      unfolding foldl_better_min_filter using o(2) by (simp add: train_loss_before_def)
    show "saves (events st)
               = concat (map (\<lambda>j. [(checkpoint_file sp ''last'', o_model (outs ! j))]
                          @ (if o_eval_loss (outs ! j) \<noteq> NaN
                                \<and> fl_less (o_eval_loss (outs ! j))
                                    (foldl better_min (Fin 100000000)
                                       (map o_eval_loss (take j outs)))
                             then [(checkpoint_file sp ''best_eval_loss'', o_model (outs ! j))]
                             else [])
                          @ (if o_r2 (outs ! j) \<noteq> NaN
                                \<and> fl_greater (o_r2 (outs ! j))
                                    (foldl better_max (Fin (- 100000000))
                                       (map o_r2 (take j outs)))
                             then [(checkpoint_file sp ''best'', o_model (outs ! j))] else []))
                      [0..<length outs])"
      unfolding o(6) saves_loop_events epoch_saves_def fl_less_guard fl_greater_guard ..
  qed
qed

lemma eval_one_valid:
  "\<exists>vs. mapM_e (eval_batch_values toy_model 1 (toy_args 1))
      (iterate (\<lambda>xs. xs) \<lparr>dl_dataset = test_set_one_valid, dl_batch_size = 1, dl_shuffle = False\<rparr>)
       = Inr vs
    \<and> score_reg documented_lib (concat (map e_pred vs)) (concat (map e_true vs)) = Inl ValueError"
  by (simp add: eval_batch_values_def eval_simps)

lemma toy_run_constant:
  "tv_view (toy_run train_set1 test_set_constant 1 1)
     = Inr (Fin 0, Fin (1 / 2), NaN, Fin (1 / 2), Fin (1 / 4))"
  by (simp add: tv_view_def toy_run_simps)

lemma one_valid_batch_values:
  "forward_batch toy_model (toy_args 1) one_valid_batch = Inr (None, [[0, 1]])"
  "MaskedHuberLoss_forward 1 [[0, 1]] (density one_valid_batch) (valid_sequence one_valid_batch)
     = Inr (Fin (1 / 4))"
  "density one_valid_batch = [[1, 2]]" "valid_sequence one_valid_batch = [[1, 0]]"
  "map (\<lambda>i. concat [[0, 1 :: real]] ! i)
     (filter (\<lambda>i. concat [[1, 0 :: real]] ! i = 1) [0..<length (concat [[0, 1 :: real]])]) = [0]"
  "map (\<lambda>i. concat [[1, 2 :: real]] ! i)
     (filter (\<lambda>i. concat [[1, 0 :: real]] ! i = 1) [0..<length (concat [[1, 2 :: real]])]) = [1]"
  "score_reg documented_lib [0] [1] = Inl ValueError"
  by (simp_all add: batch_eval_defs toy_defs upt_conv_Cons)

lemma toy_new_model: "new_model (toy_ext trs tes) (toy_args 1) i = Inr toy_model"
  by (simp add: new_model_def new_encoder_def CodenBert_init_def additional_feature_dim_def
        toy_defs)

lemma toy_load_datasets:
  "i < 10 \<Longrightarrow> load_datasets (toy_ext trs tes) (toy_args 1) i = Inr (trs, tes)"
  by (simp add: load_datasets_def train_file_def test_file_def os_path_join_def toy_defs
        str_nat_small digit_char_def)

lemma eval_side_crash:
  "\<exists>m' opt' sc.
      train_epoch (lib (toy_ext train_set1 test_set_one_valid))
        (step (toy_ext train_set1 test_set_one_valid))
        (tv_model (tv_init toy_model (new_AdamW (5 / 100000))
            (new_CosineAnnealingLR (new_AdamW (5 / 100000)) 1 (1 / 10000000))))
        (iterate (shuffle (toy_ext train_set1 test_set_one_valid) 1 1)
           \<lparr>dl_dataset = train_set1, dl_batch_size = 16, dl_shuffle = True\<rparr>)
        (tv_optimizer (tv_init toy_model (new_AdamW (5 / 100000))
            (new_CosineAnnealingLR (new_AdamW (5 / 100000)) 1 (1 / 10000000)))) 1 (toy_args 1)
      = Inr (m', opt', sc)
    \<and> evaluate (lib (toy_ext train_set1 test_set_one_valid)) m'
        (iterate (\<lambda>xs. xs) \<lparr>dl_dataset = test_set_one_valid, dl_batch_size = 1, dl_shuffle = False\<rparr>)
        1 (toy_args 1)
        (max_r2 (tv_init toy_model (new_AdamW (5 / 100000))
            (new_CosineAnnealingLR (new_AdamW (5 / 100000)) 1 (1 / 10000000))))
      = Inl ValueError"
  by (simp add: eval_simps real_sqrt_divide)

lemma second_fold_runs:
  "\<exists>st. run_fold second_fold_ext (toy_args 1) 0 = Inr st"
  "run_fold second_fold_ext (toy_args 1) 1 = Inl ValueError"
  by (simp_all add: eval_simps real_sqrt_divide)

lemma empty_sequence_run:
  "tv_view (toy_run train_set1 test_set_empty_sequence 1 1)
     = Inr (Fin (- 3), Fin 1, Fin 1, Fin (1 / 2), Fin 100000000)"
  "saved_files (tv_events (toy_run train_set1 test_set_empty_sequence 1 1))
     = [''out/checkpoints/fold_1/pytorch_model_Plast.pth'',
        ''out/checkpoints/fold_1/pytorch_model_Pbest.pth'']"
  "csv_rows (eval_log_path (toy_args 1) 1) (tv_events (toy_run train_set1 test_set_empty_sequence 1 1))
     = [[CInt 1, CFloat NaN, CFloat (Fin (- 3)), CFloat (Fin 1), CFloat (Fin 1)]]"
  by (simp_all add: tv_view_def tv_events_def saved_files_def toy_run_simps)

lemma nan_r2_run_1:
  "tv_view (nan_r2_run 1 1)
     = Inr (Fin (- 100000000), Fin 100000000, Fin (- 100000000), Fin (1 / 2), Fin (1 / 2))"
  "saved_files (tv_events (nan_r2_run 1 1))
     = [''out/checkpoints/fold_1/pytorch_model_Plast.pth'',
        ''out/checkpoints/fold_1/pytorch_model_Pbest_eval_loss.pth'']"
  "csv_rows (eval_log_path (toy_args 1) 1) (tv_events (nan_r2_run 1 1))
     = [[CInt 1, CFloat (Fin (1 / 2)), CFloat NaN, CFloat (Fin 1), CFloat (Fin 1)]]"
  by (simp_all add: tv_view_def tv_events_def saved_files_def nan_r2_run_def toy_run_simps)


lemma toy_init_after_0:
  "tv_after (toy_ext train_set1 test_set_one_valid) toy_model 1 (new_AdamW (5 / 100000)) 1
        (new_CosineAnnealingLR (new_AdamW (5 / 100000)) 1 (1 / 10000000))
        \<lparr>dl_dataset = train_set1, dl_batch_size = 16, dl_shuffle = True\<rparr>
        \<lparr>dl_dataset = test_set_one_valid, dl_batch_size = 1, dl_shuffle = False\<rparr>
        ''out/checkpoints/fold_1'' (toy_args 1) 1 0
     = Inr (tv_init toy_model (new_AdamW (5 / 100000))
           (new_CosineAnnealingLR (new_AdamW (5 / 100000)) 1 (1 / 10000000)))"
  by (rule tv_after_0)

lemma toy_fold_facts:
  "learning_rate (toy_args 1) = 5 / 100000" "num_train_epochs (toy_args 1) = 1"
  "lr_min (toy_args 1) = 1 / 10000000" "batch_size (toy_args 1) = 16"
  "save_path_of (toy_args 1) 0 = ''out/checkpoints/fold_1''"
  by (simp_all add: toy_args_def save_path_of_def os_path_join_def str_nat_small digit_char_def)

text \<open>
  The concrete cases: a training batch and a test set with one valid position (the
  correlation of one point raises), a reader that gives the second fold such a training
  set, a test set with equal targets (the correlation is NaN), a test set whose first
  sequence has no position (the evaluation loss is NaN), and a metric library whose R2
  is NaN.
\<close>

theorem degenerate_metrics_unguarded_witness:
  "valid_sequence one_valid_batch = [[1, 0]]
   \<and> train_epoch documented_lib toy_step toy_model [one_valid_batch] (new_AdamW (5 / 100000)) 1
      (toy_args 1) = Inl ValueError
   \<and> evaluate documented_lib toy_model
      (iterate (\<lambda>xs. xs) \<lparr>dl_dataset = test_set_one_valid, dl_batch_size = 1, dl_shuffle = False\<rparr>)
      1 (toy_args 1) (Fin (- 100000000)) = Inl ValueError
   \<and> tv_epoch (toy_ext train_set1 test_set_one_valid) 1
        \<lparr>dl_dataset = train_set1, dl_batch_size = 16, dl_shuffle = True\<rparr>
        \<lparr>dl_dataset = test_set_one_valid, dl_batch_size = 1, dl_shuffle = False\<rparr>
        ''out/checkpoints/fold_1'' (toy_args 1) 1 1
        (tv_init toy_model (new_AdamW (5 / 100000))
           (new_CosineAnnealingLR (new_AdamW (5 / 100000)) 1 (1 / 10000000))) 1 = Inl ValueError
   \<and> train_and_validate (toy_ext train_set1 test_set_one_valid) toy_model 1
        (new_AdamW (5 / 100000)) 1
        (new_CosineAnnealingLR (new_AdamW (5 / 100000)) 1 (1 / 10000000))
        \<lparr>dl_dataset = train_set1, dl_batch_size = 16, dl_shuffle = True\<rparr>
        \<lparr>dl_dataset = test_set_one_valid, dl_batch_size = 1, dl_shuffle = False\<rparr>
        ''out/checkpoints/fold_1'' (toy_args 1) 1 = Inl ValueError
   \<and> run_fold (toy_ext train_set1 test_set_one_valid) (toy_args 1) 0 = Inl ValueError
   \<and> (\<exists>st. run_fold second_fold_ext (toy_args 1) 0 = Inr st)
   \<and> run_fold second_fold_ext (toy_args 1) 1 = Inl ValueError
   \<and> main second_fold_ext (toy_args 1) = Inl ValueError
   \<and> (\<exists>st. toy_run train_set1 test_set_constant 1 1 = Inr st \<and> max_corr st = NaN
          \<and> max_r2 st \<noteq> NaN \<and> best_eval_loss st \<noteq> NaN \<and> best_loss st \<noteq> NaN)
   \<and> (\<exists>st. toy_run train_set1 test_set_empty_sequence 1 1 = Inr st
          \<and> csv_rows (eval_log_path (toy_args 1) 1) (events st)
              = [[CInt 1, CFloat NaN, CFloat (Fin (- 3)), CFloat (Fin 1), CFloat (Fin 1)]]
          \<and> best_eval_loss st = Fin 100000000 \<and> best_eval_loss st \<noteq> NaN
          \<and> saved_files (events st)
              = [''out/checkpoints/fold_1/pytorch_model_Plast.pth'',
                 ''out/checkpoints/fold_1/pytorch_model_Pbest.pth''])
   \<and> (\<exists>st. nan_r2_run 1 1 = Inr st
          \<and> csv_rows (eval_log_path (toy_args 1) 1) (events st)
              = [[CInt 1, CFloat (Fin (1 / 2)), CFloat NaN, CFloat (Fin 1), CFloat (Fin 1)]]
          \<and> max_r2 st = Fin (- 100000000) \<and> max_r2 st \<noteq> NaN
          \<and> saved_files (events st)
              = [''out/checkpoints/fold_1/pytorch_model_Plast.pth'',
                 ''out/checkpoints/fold_1/pytorch_model_Pbest_eval_loss.pth''])"
proof (intro conjI)
  show "valid_sequence one_valid_batch = [[1, 0]]"
    by (rule one_valid_batch_values(4))
next
  have tv0: "train_values documented_lib toy_step 1 (toy_args 1) toy_model (new_AdamW (5 / 100000)) []
      = Inr (toy_model, new_AdamW (5 / 100000), [])"
    by simp
  have h: "train_values documented_lib toy_step 1 (toy_args 1) toy_model (new_AdamW (5 / 100000)) []
        = Inr (toy_model, new_AdamW (5 / 100000), [])
      \<and> forward_batch toy_model (toy_args 1) one_valid_batch = Inr (None, [[0, 1]])
      \<and> MaskedHuberLoss_forward 1 [[0, 1]] (density one_valid_batch) (valid_sequence one_valid_batch)
          = Inr (Fin (1 / 4))
      \<and> score_reg documented_lib
            (map (\<lambda>i. concat [[0, 1]] ! i)
               (filter (\<lambda>i. concat (valid_sequence one_valid_batch) ! i = 1)
                  [0..<length (concat [[0, 1 :: real]])]))
            (map (\<lambda>i. concat (density one_valid_batch) ! i)
               (filter (\<lambda>i. concat (valid_sequence one_valid_batch) ! i = 1)
                  [0..<length (concat (density one_valid_batch))]))
           = Inl ValueError"
    using tv0 one_valid_batch_values(1,2)
    by (intro conjI) (simp_all only: one_valid_batch_values(3-7))
  from degenerate_metrics_unguarded[THEN conjunct1, rule_format, OF h, where bsb = "[]"]
  show "train_epoch documented_lib toy_step toy_model [one_valid_batch] (new_AdamW (5 / 100000)) 1
      (toy_args 1) = Inl ValueError"
    by simp
next
  from eval_one_valid obtain vs where vs:
    "mapM_e (eval_batch_values toy_model 1 (toy_args 1))
      (iterate (\<lambda>xs. xs) \<lparr>dl_dataset = test_set_one_valid, dl_batch_size = 1, dl_shuffle = False\<rparr>)
       = Inr vs
     \<and> score_reg documented_lib (concat (map e_pred vs)) (concat (map e_true vs)) = Inl ValueError"
    by blast
  from degenerate_metrics_unguarded[THEN conjunct2, THEN conjunct1, rule_format, OF vs]
  show "evaluate documented_lib toy_model
      (iterate (\<lambda>xs. xs) \<lparr>dl_dataset = test_set_one_valid, dl_batch_size = 1, dl_shuffle = False\<rparr>)
      1 (toy_args 1) (Fin (- 100000000)) = Inl ValueError" .
next
  from degenerate_metrics_unguarded[THEN conjunct2, THEN conjunct2, THEN conjunct1, rule_format,
      OF disjI2, OF eval_side_crash]
  show "tv_epoch (toy_ext train_set1 test_set_one_valid) 1
        \<lparr>dl_dataset = train_set1, dl_batch_size = 16, dl_shuffle = True\<rparr>
        \<lparr>dl_dataset = test_set_one_valid, dl_batch_size = 1, dl_shuffle = False\<rparr>
        ''out/checkpoints/fold_1'' (toy_args 1) 1 1
        (tv_init toy_model (new_AdamW (5 / 100000))
           (new_CosineAnnealingLR (new_AdamW (5 / 100000)) 1 (1 / 10000000))) 1 = Inl ValueError" .
next
  show "train_and_validate (toy_ext train_set1 test_set_one_valid) toy_model 1
        (new_AdamW (5 / 100000)) 1
        (new_CosineAnnealingLR (new_AdamW (5 / 100000)) 1 (1 / 10000000))
        \<lparr>dl_dataset = train_set1, dl_batch_size = 16, dl_shuffle = True\<rparr>
        \<lparr>dl_dataset = test_set_one_valid, dl_batch_size = 1, dl_shuffle = False\<rparr>
        ''out/checkpoints/fold_1'' (toy_args 1) 1 = Inl ValueError"
  proof -
    have e1: "tv_epoch (toy_ext train_set1 test_set_one_valid) 1
        \<lparr>dl_dataset = train_set1, dl_batch_size = 16, dl_shuffle = True\<rparr>
        \<lparr>dl_dataset = test_set_one_valid, dl_batch_size = 1, dl_shuffle = False\<rparr>
        ''out/checkpoints/fold_1'' (toy_args 1) 1 1
        (tv_init toy_model (new_AdamW (5 / 100000))
           (new_CosineAnnealingLR (new_AdamW (5 / 100000)) 1 (1 / 10000000))) (0 + 1) = Inl ValueError"
      using tv_epoch_Inl[OF disjI2, OF eval_side_crash] by simp
    have h: "(0::int) \<le> 0 \<and> (0::int) < 1
      \<and> tv_after (toy_ext train_set1 test_set_one_valid) toy_model 1 (new_AdamW (5 / 100000)) 1
        (new_CosineAnnealingLR (new_AdamW (5 / 100000)) 1 (1 / 10000000))
        \<lparr>dl_dataset = train_set1, dl_batch_size = 16, dl_shuffle = True\<rparr>
        \<lparr>dl_dataset = test_set_one_valid, dl_batch_size = 1, dl_shuffle = False\<rparr>
        ''out/checkpoints/fold_1'' (toy_args 1) 1 0
        = Inr (tv_init toy_model (new_AdamW (5 / 100000))
           (new_CosineAnnealingLR (new_AdamW (5 / 100000)) 1 (1 / 10000000)))
      \<and> tv_epoch (toy_ext train_set1 test_set_one_valid) 1
        \<lparr>dl_dataset = train_set1, dl_batch_size = 16, dl_shuffle = True\<rparr>
        \<lparr>dl_dataset = test_set_one_valid, dl_batch_size = 1, dl_shuffle = False\<rparr>
        ''out/checkpoints/fold_1'' (toy_args 1) 1 1
        (tv_init toy_model (new_AdamW (5 / 100000))
           (new_CosineAnnealingLR (new_AdamW (5 / 100000)) 1 (1 / 10000000))) (0 + 1) = Inl ValueError"
      using toy_init_after_0 e1 by (intro conjI) simp_all
    from degenerate_metrics_unguarded[THEN conjunct2, THEN conjunct2, THEN conjunct2,
        THEN conjunct1, rule_format, OF h]
    show ?thesis .
  qed
next
  show "run_fold (toy_ext train_set1 test_set_one_valid) (toy_args 1) 0 = Inl ValueError"
  proof -
    have tvc: "train_and_validate (toy_ext train_set1 test_set_one_valid) toy_model 1
        (new_AdamW (5 / 100000)) 1
        (new_CosineAnnealingLR (new_AdamW (5 / 100000)) 1 (1 / 10000000))
        \<lparr>dl_dataset = train_set1, dl_batch_size = 16, dl_shuffle = True\<rparr>
        \<lparr>dl_dataset = test_set_one_valid, dl_batch_size = 1, dl_shuffle = False\<rparr>
        ''out/checkpoints/fold_1'' (toy_args 1) 1 = Inl ValueError"
      using tv_after_step_Inl[OF _ _ toy_init_after_0, of ValueError]
        tv_epoch_Inl[OF disjI2, OF eval_side_crash] by simp
    have h: "new_model (toy_ext train_set1 test_set_one_valid) (toy_args 1) 0 = Inr toy_model
      \<and> load_datasets (toy_ext train_set1 test_set_one_valid) (toy_args 1) 0
          = Inr (train_set1, test_set_one_valid)
      \<and> 0 < batch_size (toy_args 1)
      \<and> train_and_validate (toy_ext train_set1 test_set_one_valid) toy_model 1
          (new_AdamW (learning_rate (toy_args 1))) (num_train_epochs (toy_args 1))
          (new_CosineAnnealingLR (new_AdamW (learning_rate (toy_args 1)))
             (num_train_epochs (toy_args 1)) (lr_min (toy_args 1)))
          \<lparr>dl_dataset = train_set1, dl_batch_size = nat (batch_size (toy_args 1)), dl_shuffle = True\<rparr>
          \<lparr>dl_dataset = test_set_one_valid, dl_batch_size = 1, dl_shuffle = False\<rparr>
          (save_path_of (toy_args 1) 0) (toy_args 1) (0 + 1) = Inl ValueError"
      using toy_new_model toy_load_datasets[of 0] tvc by (simp add: toy_fold_facts)
    from degenerate_metrics_unguarded[THEN conjunct2, THEN conjunct2, THEN conjunct2,
        THEN conjunct2, THEN conjunct1, rule_format, OF h]
    show ?thesis .
  qed
next
  show "\<exists>st. run_fold second_fold_ext (toy_args 1) 0 = Inr st"
    by (rule second_fold_runs(1))
next
  show "run_fold second_fold_ext (toy_args 1) 1 = Inl ValueError"
    by (rule second_fold_runs(2))
next
  have before: "\<forall>j<1. \<exists>st. run_fold second_fold_ext (toy_args 1) j = Inr st"
    using second_fold_runs(1) by simp
  have h: "toy_args 1 = set_use_additional_feature (toy_args 1) \<and> \<not> should_continue (toy_args 1)
      \<and> (1::nat) < 10
      \<and> (\<forall>j<1. \<exists>st. run_fold second_fold_ext (toy_args 1) j = Inr st)
      \<and> run_fold second_fold_ext (toy_args 1) 1 = Inl ValueError"
    using before second_fold_runs(2) toy_args_unchanged[of 1]
    by (simp add: toy_args_def)
  from degenerate_metrics_unguarded[THEN conjunct2, THEN conjunct2, THEN conjunct2,
      THEN conjunct2, THEN conjunct2, THEN conjunct1, rule_format, OF h]
  show "main second_fold_ext (toy_args 1) = Inl ValueError" .
next
  from toy_run_constant obtain st where
    st: "toy_run train_set1 test_set_constant 1 1 = Inr st" and mc: "max_corr st = NaN"
    by (auto simp: tv_view_def split: sum.splits)
  note D = degenerate_metrics_unguarded[THEN conjunct2, THEN conjunct2, THEN conjunct2,
      THEN conjunct2, THEN conjunct2, THEN conjunct2, rule_format, OF st[unfolded toy_run_def]]
  show "\<exists>st. toy_run train_set1 test_set_constant 1 1 = Inr st \<and> max_corr st = NaN
          \<and> max_r2 st \<noteq> NaN \<and> best_eval_loss st \<noteq> NaN \<and> best_loss st \<noteq> NaN"
    using st mc D by blast
next
  from empty_sequence_run(1) obtain st where
    st: "toy_run train_set1 test_set_empty_sequence 1 1 = Inr st"
    and bel: "best_eval_loss st = Fin 100000000"
    by (auto simp: tv_view_def split: sum.splits)
  have ev: "events st = tv_events (toy_run train_set1 test_set_empty_sequence 1 1)"
    by (simp add: st tv_events_def)
  note D = degenerate_metrics_unguarded[THEN conjunct2, THEN conjunct2, THEN conjunct2,
      THEN conjunct2, THEN conjunct2, THEN conjunct2, rule_format, OF st[unfolded toy_run_def]]
  from D have nn: "best_eval_loss st \<noteq> NaN" by blast
  show "\<exists>st. toy_run train_set1 test_set_empty_sequence 1 1 = Inr st
          \<and> csv_rows (eval_log_path (toy_args 1) 1) (events st)
              = [[CInt 1, CFloat NaN, CFloat (Fin (- 3)), CFloat (Fin 1), CFloat (Fin 1)]]
          \<and> best_eval_loss st = Fin 100000000 \<and> best_eval_loss st \<noteq> NaN
          \<and> saved_files (events st)
              = [''out/checkpoints/fold_1/pytorch_model_Plast.pth'',
                 ''out/checkpoints/fold_1/pytorch_model_Pbest.pth'']"
    using st bel nn empty_sequence_run(2,3)[folded ev] by (intro exI[of _ st] conjI)
next
  from nan_r2_run_1(1) obtain st where
    st: "nan_r2_run 1 1 = Inr st"
    and mr: "max_r2 st = Fin (- 100000000)"
    by (auto simp: tv_view_def split: sum.splits)
  have ev: "events st = tv_events (nan_r2_run 1 1)"
    by (simp add: st tv_events_def)
  note D = degenerate_metrics_unguarded[THEN conjunct2, THEN conjunct2, THEN conjunct2,
      THEN conjunct2, THEN conjunct2, THEN conjunct2, rule_format, OF st[unfolded nan_r2_run_def]]
  from D have nn: "max_r2 st \<noteq> NaN" by blast
  show "\<exists>st. nan_r2_run 1 1 = Inr st
          \<and> csv_rows (eval_log_path (toy_args 1) 1) (events st)
              = [[CInt 1, CFloat (Fin (1 / 2)), CFloat NaN, CFloat (Fin 1), CFloat (Fin 1)]]
          \<and> max_r2 st = Fin (- 100000000) \<and> max_r2 st \<noteq> NaN
          \<and> saved_files (events st)
              = [''out/checkpoints/fold_1/pytorch_model_Plast.pth'',
                 ''out/checkpoints/fold_1/pytorch_model_Pbest_eval_loss.pth'']"
    using st mr nn nan_r2_run_1(2,3)[folded ev] by (intro exI[of _ st] conjI)
qed

text \<open>
  One valid position in the training set, or in the test set: the correlation of a single
  point raises, and the fold and the whole run end with that exception. Equal targets in
  the test set: the correlation is NaN and is stored as the correlation paired with the
  best R2.
\<close>

theorem degenerate_metric_counterexample:
  "main (toy_ext train_set_one_valid test_set1) (toy_args 1) = Inl ValueError
   \<and> tv_view (run_fold (toy_ext train_set_one_valid test_set1) (toy_args 1) 0) = Inl ValueError
   \<and> tv_view (run_fold (toy_ext train_set1 test_set_one_valid) (toy_args 1) 0) = Inl ValueError
   \<and> tv_view (run_fold (toy_ext train_set1 test_set_constant) (toy_args 1) 0)
       = Inr (Fin 0, Fin (1 / 2), NaN, Fin (1 / 2), Fin (1 / 4))"
proof -
  have crash: "run_fold (toy_ext train_set_one_valid test_set1) (toy_args 1) 0 = Inl ValueError"
    by (simp add: eval_simps)
  have a: "set_use_additional_feature (toy_args 1) = toy_args 1"
    by (simp add: set_use_additional_feature_def toy_args_def)
  have sc: "should_continue (toy_args 1) = False"
    by (simp add: toy_args_def)
  have m: "main (toy_ext train_set_one_valid test_set1) (toy_args 1) = Inl ValueError"
    by (simp add: main_def a sc Let_def fold_body_def crash upt_conv_Cons)
  have nan: "tv_view (run_fold (toy_ext train_set1 test_set_constant) (toy_args 1) 0)
       = Inr (Fin 0, Fin (1 / 2), NaN, Fin (1 / 2), Fin (1 / 4))"
    by (simp add: tv_view_def eval_simps)
  have crash': "run_fold (toy_ext train_set1 test_set_one_valid) (toy_args 1) 0 = Inl ValueError"
    by (simp add: eval_simps)
  show ?thesis using m nan by (simp add: crash crash' tv_view_def)
qed

section \<open>Fold orchestrator: the run\<close>

text \<open>
  C9. A run that returns has gone through exactly the 10 folds 0 to 9, whatever the
  arguments. Each fold constructs its own encoder and fusion head, an AdamW optimizer with
  the configured learning rate and a cosine-annealing schedule over the configured number
  of epochs with the floor rate \<^verbatim>\<open>lr_min\<close>, and calls \<^verbatim>\<open>train_and_validate\<close> on
  them; in every epoch the schedule is stepped once, after the training pass and before
  the evaluation. Each fold appends one row (fold number, best R2, paired MSE, paired
  correlation) to the cross-fold summary, and the result is, for each of the three
  values, the sum over the 10 folds divided by 10.
\<close>

theorem fold_orchestrator:
  assumes "main ext args0 = Inr (avgs, evs)" and "a = set_use_additional_feature args0"
  shows "\<exists>sts. length sts = 10
    \<and> map (run_fold ext a) [0..<10] = map Inr sts
    \<and> (\<forall>i<10. \<exists>model trd ted.
          new_model ext a i = Inr model
        \<and> bert model = new_encoder ext a i
        \<and> load_datasets ext a i = Inr (trd, ted)
        \<and> train_and_validate ext model 1 (new_AdamW (learning_rate a)) (num_train_epochs a)
            (new_CosineAnnealingLR (new_AdamW (learning_rate a)) (num_train_epochs a) (lr_min a))
            \<lparr>dl_dataset = trd, dl_batch_size = nat (batch_size a), dl_shuffle = True\<rparr>
            \<lparr>dl_dataset = ted, dl_batch_size = 1, dl_shuffle = False\<rparr>
            (save_path_of a i) a (i + 1) = Inr (sts ! i)
        \<and> passes_and_steps (events (sts ! i))
            = concat (map (\<lambda>e. [TrainEpoch e, SchedulerStep, Evaluate e]) [1..num_train_epochs a])
        \<and> last_epoch (tv_scheduler (sts ! i)) = int (length [1..num_train_epochs a])
        \<and> T_max (tv_scheduler (sts ! i)) = num_train_epochs a
        \<and> eta_min (tv_scheduler (sts ! i)) = lr_min a)
    \<and> evs = concat (map (\<lambda>i. events (sts ! i)
                             @ [AppendRow (best_result_path a) (summary_row i (sts ! i))])
                      [0..<10])
    \<and> csv_rows (best_result_path a) evs = map (\<lambda>i. summary_row i (sts ! i)) [0..<10]
    \<and> avgs = (fl_div_nat (py_sum (map max_r2 sts)) 10,
              fl_div_nat (py_sum (map min_mse sts)) 10,
              fl_div_nat (py_sum (map max_corr sts)) 10)"
proof -
  from main_Inr[OF assms] obtain sts where s:
    "length sts = 10" "map (run_fold ext a) [0..<10] = map Inr sts"
    "evs = concat (map (\<lambda>i. events (sts ! i)
                             @ [AppendRow (best_result_path a) (summary_row i (sts ! i))])
                      [0..<10])"
    "avgs = (fl_div_nat (py_sum (map max_r2 sts)) 10,
              fl_div_nat (py_sum (map min_mse sts)) 10,
              fl_div_nat (py_sum (map max_corr sts)) 10)"
    by blast
  have per_fold: "\<exists>model trd ted.
          new_model ext a i = Inr model
        \<and> bert model = new_encoder ext a i
        \<and> load_datasets ext a i = Inr (trd, ted)
        \<and> train_and_validate ext model 1 (new_AdamW (learning_rate a)) (num_train_epochs a)
            (new_CosineAnnealingLR (new_AdamW (learning_rate a)) (num_train_epochs a) (lr_min a))
            \<lparr>dl_dataset = trd, dl_batch_size = nat (batch_size a), dl_shuffle = True\<rparr>
            \<lparr>dl_dataset = ted, dl_batch_size = 1, dl_shuffle = False\<rparr>
            (save_path_of a i) a (i + 1) = Inr (sts ! i)
        \<and> passes_and_steps (events (sts ! i))
            = concat (map (\<lambda>e. [TrainEpoch e, SchedulerStep, Evaluate e]) [1..num_train_epochs a])
        \<and> last_epoch (tv_scheduler (sts ! i)) = int (length [1..num_train_epochs a])
        \<and> T_max (tv_scheduler (sts ! i)) = num_train_epochs a
        \<and> eta_min (tv_scheduler (sts ! i)) = lr_min a" if i: "i < 10" for i
  proof -
    from run_fold_Inr[OF runs_nth[OF s(2) i]] obtain model trd ted outs where r:
      "new_model ext a i = Inr model" "load_datasets ext a i = Inr (trd, ted)"
      "train_and_validate ext model 1 (new_AdamW (learning_rate a)) (num_train_epochs a)
        (new_CosineAnnealingLR (new_AdamW (learning_rate a)) (num_train_epochs a) (lr_min a))
        \<lparr>dl_dataset = trd, dl_batch_size = nat (batch_size a), dl_shuffle = True\<rparr>
        \<lparr>dl_dataset = ted, dl_batch_size = 1, dl_shuffle = False\<rparr>
        (save_path_of a i) a (i + 1) = Inr (sts ! i)"
      "map o_epoch outs = [1..num_train_epochs a]"
      "events (sts ! i) = loop_events (save_path_of a i) a (i + 1) (num_train_epochs a)
                     (Fin 100000000) (Fin (- 100000000)) outs"
      "last_epoch (tv_scheduler (sts ! i)) = int (length outs)"
      "T_max (tv_scheduler (sts ! i)) = num_train_epochs a"
      "eta_min (tv_scheduler (sts ! i)) = lr_min a"
      by blast
    have ps: "passes_and_steps (events (sts ! i))
            = concat (map (\<lambda>e. [TrainEpoch e, SchedulerStep, Evaluate e]) [1..num_train_epochs a])"
      unfolding r(5) passes_loop_events passes_of_epochs r(4) ..
    have le: "last_epoch (tv_scheduler (sts ! i)) = int (length [1..num_train_epochs a])"
      using r(6) length_map[of o_epoch outs] by (simp only: r(4))
    show ?thesis
      using r(1,2,3,7,8) new_model_bert[OF r(1)] ps le by blast
  qed
  have rows: "csv_rows (best_result_path a) evs = map (\<lambda>i. summary_row i (sts ! i)) [0..<10]"
  proof -
    have one: "csv_rows (best_result_path a)
                 (events (sts ! i) @ [AppendRow (best_result_path a) (summary_row i (sts ! i))])
               = [summary_row i (sts ! i)]" if i: "i < 10" for i
    proof -
      from run_fold_Inr[OF runs_nth[OF s(2) i]] obtain outs where
        "events (sts ! i) = loop_events (save_path_of a i) a (i + 1) (num_train_epochs a)
                     (Fin 100000000) (Fin (- 100000000)) outs"
        by blast
      then show ?thesis
        using log_paths_distinct(2,3)[of a "num_train_epochs a"]
        by (simp add: csv_rows_append other_rows_loop_events)
    qed
    have "map (\<lambda>i. csv_rows (best_result_path a)
                 (events (sts ! i) @ [AppendRow (best_result_path a) (summary_row i (sts ! i))]))
             [0..<10]
          = map (\<lambda>i. [summary_row i (sts ! i)]) [0..<10]"
      by (rule map_cong[OF refl]) (simp add: one)
    then show ?thesis
      unfolding s(3) csv_rows_concat map_map comp_def by (simp only: concat_map_singleton)
  qed
  show ?thesis
    using s per_fold rows by (intro exI[of _ sts]) blast
qed

theorem fold_orchestrator_witness:
  "\<exists>evs (sts :: tv_state list).
       main (toy_ext train_set1 test_set1) (toy_args 1) = Inr ((Fin (- 3), Fin 1, Fin 1), evs)
     \<and> length sts = 10
     \<and> map (run_fold (toy_ext train_set1 test_set1) (toy_args 1)) [0..<10] = map Inr sts
     \<and> passes_and_steps (events (sts ! 9)) = [TrainEpoch 1, SchedulerStep, Evaluate 1]
     \<and> last_epoch (tv_scheduler (sts ! 9)) = 1
     \<and> eta_min (tv_scheduler (sts ! 9)) = 1 / 10000000
     \<and> csv_rows ''out/best_results.csv'' evs = map (\<lambda>i. summary_row i (sts ! i)) [0..<10]
     \<and> csv_rows ''out/best_results.csv'' evs
        = [[CInt 1, CFloat (Fin (- 3)), CFloat (Fin 1), CFloat (Fin 1)],
           [CInt 2, CFloat (Fin (- 3)), CFloat (Fin 1), CFloat (Fin 1)],
           [CInt 3, CFloat (Fin (- 3)), CFloat (Fin 1), CFloat (Fin 1)],
           [CInt 4, CFloat (Fin (- 3)), CFloat (Fin 1), CFloat (Fin 1)],
           [CInt 5, CFloat (Fin (- 3)), CFloat (Fin 1), CFloat (Fin 1)],
           [CInt 6, CFloat (Fin (- 3)), CFloat (Fin 1), CFloat (Fin 1)],
           [CInt 7, CFloat (Fin (- 3)), CFloat (Fin 1), CFloat (Fin 1)],
           [CInt 8, CFloat (Fin (- 3)), CFloat (Fin 1), CFloat (Fin 1)],
           [CInt 9, CFloat (Fin (- 3)), CFloat (Fin 1), CFloat (Fin 1)],
           [CInt 10, CFloat (Fin (- 3)), CFloat (Fin 1), CFloat (Fin 1)]]
     \<and> (Fin (- 3), Fin 1, Fin 1)
        = (fl_div_nat (py_sum (map max_r2 sts)) 10, fl_div_nat (py_sum (map min_mse sts)) 10,
           fl_div_nat (py_sum (map max_corr sts)) 10)"
proof -
  from toy_main_1 obtain evs where
    run: "main (toy_ext train_set1 test_set1) (toy_args 1) = Inr ((Fin (- 3), Fin 1, Fin 1), evs)"
    and best: "csv_rows ''out/best_results.csv'' evs
        = [[CInt 1, CFloat (Fin (- 3)), CFloat (Fin 1), CFloat (Fin 1)],
           [CInt 2, CFloat (Fin (- 3)), CFloat (Fin 1), CFloat (Fin 1)],
           [CInt 3, CFloat (Fin (- 3)), CFloat (Fin 1), CFloat (Fin 1)],
           [CInt 4, CFloat (Fin (- 3)), CFloat (Fin 1), CFloat (Fin 1)],
           [CInt 5, CFloat (Fin (- 3)), CFloat (Fin 1), CFloat (Fin 1)],
           [CInt 6, CFloat (Fin (- 3)), CFloat (Fin 1), CFloat (Fin 1)],
           [CInt 7, CFloat (Fin (- 3)), CFloat (Fin 1), CFloat (Fin 1)],
           [CInt 8, CFloat (Fin (- 3)), CFloat (Fin 1), CFloat (Fin 1)],
           [CInt 9, CFloat (Fin (- 3)), CFloat (Fin 1), CFloat (Fin 1)],
           [CInt 10, CFloat (Fin (- 3)), CFloat (Fin 1), CFloat (Fin 1)]]"
    by blast
  from fold_orchestrator[OF run toy_args_unchanged[symmetric]] obtain sts where s:
    "length sts = 10"
    "map (run_fold (toy_ext train_set1 test_set1) (toy_args 1)) [0..<10] = map Inr sts"
    "\<forall>i<10. \<exists>model trd ted.
          new_model (toy_ext train_set1 test_set1) (toy_args 1) i = Inr model
        \<and> bert model = new_encoder (toy_ext train_set1 test_set1) (toy_args 1) i
        \<and> load_datasets (toy_ext train_set1 test_set1) (toy_args 1) i = Inr (trd, ted)
        \<and> train_and_validate (toy_ext train_set1 test_set1) model 1 (new_AdamW (learning_rate (toy_args 1)))
            (num_train_epochs (toy_args 1))
            (new_CosineAnnealingLR (new_AdamW (learning_rate (toy_args 1)))
               (num_train_epochs (toy_args 1)) (lr_min (toy_args 1)))
            \<lparr>dl_dataset = trd, dl_batch_size = nat (batch_size (toy_args 1)), dl_shuffle = True\<rparr>
            \<lparr>dl_dataset = ted, dl_batch_size = 1, dl_shuffle = False\<rparr>
            (save_path_of (toy_args 1) i) (toy_args 1) (i + 1) = Inr (sts ! i)
        \<and> passes_and_steps (events (sts ! i))
            = concat (map (\<lambda>e. [TrainEpoch e, SchedulerStep, Evaluate e])
                        [1..num_train_epochs (toy_args 1)])
        \<and> last_epoch (tv_scheduler (sts ! i)) = int (length [1..num_train_epochs (toy_args 1)])
        \<and> T_max (tv_scheduler (sts ! i)) = num_train_epochs (toy_args 1)
        \<and> eta_min (tv_scheduler (sts ! i)) = lr_min (toy_args 1)"
    "csv_rows (best_result_path (toy_args 1)) evs = map (\<lambda>i. summary_row i (sts ! i)) [0..<10]"
    "(Fin (- 3), Fin 1, Fin 1)
        = (fl_div_nat (py_sum (map max_r2 sts)) 10, fl_div_nat (py_sum (map min_mse sts)) 10,
           fl_div_nat (py_sum (map max_corr sts)) 10)"
    by blast
  have n: "num_train_epochs (toy_args 1) = 1" "lr_min (toy_args 1) = 1 / 10000000"
    by (simp_all add: toy_args_def)
  from s(3)[rule_format, of 9] have f9: "passes_and_steps (events (sts ! 9)) = [TrainEpoch 1, SchedulerStep, Evaluate 1]"
    "last_epoch (tv_scheduler (sts ! 9)) = 1"
    "eta_min (tv_scheduler (sts ! 9)) = 1 / 10000000"
    by (auto simp: n upto_rec1)
  show ?thesis
    using run s(1,2,5) f9 s(4)[unfolded toy_paths_1] best
    by (intro exI[of _ evs] exI[of _ sts] conjI)
qed

section \<open>The CSV logs of a run\<close>

text \<open>
  C3 (as amended). The training log and the evaluation log are one pair of files for the
  whole run, shared by the 10 folds: their paths are built from the output directory, the
  number of epochs and the suffix of the enabled auxiliary feature groups in the fixed
  order aa, protein, ss, and do not contain the fold. Every fold appends to them one row
  (epoch, loss, R2, MSE, correlation) per epoch, with the epochs 1 to E, so a run of 10
  folds of E epochs appends 10 * E rows to each of the two files.
\<close>

theorem csv_logs_shared_by_folds:
  assumes "main ext args0 = Inr (avgs, evs)" and "a = set_use_additional_feature args0"
  shows "train_log_path a (num_train_epochs a)
           = os_path_join (output_dir a) (''logs/train_log_'' @ str_int (num_train_epochs a))
             @ (if aa a then ''_aa'' else []) @ (if protein a then ''_protein'' else [])
             @ (if ss a then ''_ss'' else []) @ ''.csv''
       \<and> eval_log_path a (num_train_epochs a)
           = os_path_join (output_dir a) (''logs/eval_log_'' @ str_int (num_train_epochs a))
             @ (if aa a then ''_aa'' else []) @ (if protein a then ''_protein'' else [])
             @ (if ss a then ''_ss'' else []) @ ''.csv''
       \<and> (\<exists>sts outss. map (run_fold ext a) [0..<10] = map Inr sts \<and> length outss = 10
            \<and> (\<forall>i<10. map o_epoch (outss ! i) = [1..num_train_epochs a]
                  \<and> csv_rows (train_log_path a (num_train_epochs a)) (events (sts ! i))
                      = map train_row (outss ! i)
                  \<and> csv_rows (eval_log_path a (num_train_epochs a)) (events (sts ! i))
                      = map eval_row (outss ! i))
            \<and> csv_rows (train_log_path a (num_train_epochs a)) evs
                = concat (map (map train_row) outss)
            \<and> csv_rows (eval_log_path a (num_train_epochs a)) evs
                = concat (map (map eval_row) outss))
       \<and> length (csv_rows (train_log_path a (num_train_epochs a)) evs)
           = 10 * nat (num_train_epochs a)
       \<and> length (csv_rows (eval_log_path a (num_train_epochs a)) evs)
           = 10 * nat (num_train_epochs a)
       \<and> column 0 (csv_rows (train_log_path a (num_train_epochs a)) evs)
           = concat (replicate 10 (map CInt [1..num_train_epochs a]))"
proof -
  define E where "E = num_train_epochs a"
  from main_Inr[OF assms] obtain sts where s:
    "length sts = 10" "map (run_fold ext a) [0..<10] = map Inr sts"
    "evs = concat (map (\<lambda>i. events (sts ! i)
                             @ [AppendRow (best_result_path a) (summary_row i (sts ! i))])
                      [0..<10])"
    by blast
  have "\<forall>i<10. \<exists>outs. map o_epoch outs = [1..E]
          \<and> events (sts ! i) = loop_events (save_path_of a i) a (i + 1) E
                     (Fin 100000000) (Fin (- 100000000)) outs"
  proof (intro allI impI)
    fix i :: nat assume i: "i < 10"
    from run_fold_Inr[OF runs_nth[OF s(2) i]]
    show "\<exists>outs. map o_epoch outs = [1..E]
          \<and> events (sts ! i) = loop_events (save_path_of a i) a (i + 1) E
                     (Fin 100000000) (Fin (- 100000000)) outs"
      unfolding E_def by blast
  qed
  then obtain outss where o: "length outss = 10"
    "\<forall>i<10. map o_epoch (outss ! i) = [1..E]
          \<and> events (sts ! i) = loop_events (save_path_of a i) a (i + 1) E
                     (Fin 100000000) (Fin (- 100000000)) (outss ! i)"
    unfolding Skolem_list_nth by blast
  have ep: "map o_epoch (outss ! i) = [1..E]" if "i < 10" for i
    using o(2) that by blast
  have tr_i: "csv_rows (train_log_path a E) (events (sts ! i)) = map train_row (outss ! i)"
    if "i < 10" for i
    using o(2) that by (simp add: train_rows_loop_events)
  have ev_i: "csv_rows (eval_log_path a E) (events (sts ! i)) = map eval_row (outss ! i)"
    if "i < 10" for i
    using o(2) that by (simp add: eval_rows_loop_events)
  have idx: "map (\<lambda>i. g (outss ! i)) [0..<10] = map g outss" for g :: "outcome list \<Rightarrow> 'b"
  proof -
    have "map g (map ((!) outss) [0..<length outss]) = map g outss"
      by (simp only: map_nth)
    then show ?thesis
      unfolding o(1) map_map comp_def .
  qed
  have tr: "csv_rows (train_log_path a E) evs = concat (map (map train_row) outss)"
  proof -
    have "map (\<lambda>i. csv_rows (train_log_path a E)
                 (events (sts ! i) @ [AppendRow (best_result_path a) (summary_row i (sts ! i))]))
             [0..<10]
          = map (\<lambda>i. map train_row (outss ! i)) [0..<10]"
      using log_paths_distinct(2)[of a E]
      by (intro map_cong[OF refl]) (auto simp: csv_rows_append tr_i)
    then show ?thesis
      unfolding s(3) csv_rows_concat map_map comp_def by (simp only: idx)
  qed
  have ev: "csv_rows (eval_log_path a E) evs = concat (map (map eval_row) outss)"
  proof -
    have "map (\<lambda>i. csv_rows (eval_log_path a E)
                 (events (sts ! i) @ [AppendRow (best_result_path a) (summary_row i (sts ! i))]))
             [0..<10]
          = map (\<lambda>i. map eval_row (outss ! i)) [0..<10]"
      using log_paths_distinct(3)[of a E]
      by (intro map_cong[OF refl]) (auto simp: csv_rows_append ev_i)
    then show ?thesis
      unfolding s(3) csv_rows_concat map_map comp_def by (simp only: idx)
  qed
  have all_ep: "map o_epoch outs = [1..E]" if "outs \<in> set outss" for outs
    using that ep o(1) by (auto simp: in_set_conv_nth)
  have len_each: "length outs = nat E" if "outs \<in> set outss" for outs
    using all_ep[OF that] length_map[of o_epoch outs] by simp
  have lens: "map length outss = replicate 10 (nat E)"
    using map_const_replicate[of outss length "nat E", OF len_each] by (simp only: o(1))
  have ltr: "length (csv_rows (train_log_path a E) evs) = 10 * nat E"
    unfolding tr by (simp add: length_concat comp_def lens sum_list_replicate)
  have lev: "length (csv_rows (eval_log_path a E) evs) = 10 * nat E"
    unfolding ev by (simp add: length_concat comp_def lens sum_list_replicate)
  have col_each: "map (\<lambda>row. row ! 0) (map train_row outs) = map CInt [1..E]"
    if "outs \<in> set outss" for outs
  proof -
    have "map (\<lambda>row. row ! 0) (map train_row outs) = map CInt (map o_epoch outs)"
      by (simp add: train_row_def comp_def)
    then show ?thesis
      by (simp only: all_ep[OF that])
  qed
  have cols: "map (\<lambda>outs. map (\<lambda>row. row ! 0) (map train_row outs)) outss
                = replicate 10 (map CInt [1..E])"
    using map_const_replicate[of outss "\<lambda>outs. map (\<lambda>row. row ! 0) (map train_row outs)"
        "map CInt [1..E]", OF col_each]
    by (simp only: o(1))
  have col: "column 0 (csv_rows (train_log_path a E) evs) = concat (replicate 10 (map CInt [1..E]))"
  proof -
    have "column 0 (concat (map (map train_row) outss))
            = concat (map (\<lambda>outs. map (\<lambda>row. row ! 0) (map train_row outs)) outss)"
      by (simp add: column_def map_concat comp_def)
    then show ?thesis
      by (simp only: tr cols)
  qed
  have p1: "train_log_path a E
           = os_path_join (output_dir a) (''logs/train_log_'' @ str_int E)
             @ (if aa a then ''_aa'' else []) @ (if protein a then ''_protein'' else [])
             @ (if ss a then ''_ss'' else []) @ ''.csv''"
    by (simp add: train_log_path_def add_feature_suffix_def Let_def)
  have p2: "eval_log_path a E
           = os_path_join (output_dir a) (''logs/eval_log_'' @ str_int E)
             @ (if aa a then ''_aa'' else []) @ (if protein a then ''_protein'' else [])
             @ (if ss a then ''_ss'' else []) @ ''.csv''"
    by (simp add: eval_log_path_def add_feature_suffix_def Let_def)
  have ex: "\<exists>sts outss. map (run_fold ext a) [0..<10] = map Inr sts \<and> length outss = 10
            \<and> (\<forall>i<10. map o_epoch (outss ! i) = [1..E]
                  \<and> csv_rows (train_log_path a E) (events (sts ! i)) = map train_row (outss ! i)
                  \<and> csv_rows (eval_log_path a E) (events (sts ! i)) = map eval_row (outss ! i))
            \<and> csv_rows (train_log_path a E) evs = concat (map (map train_row) outss)
            \<and> csv_rows (eval_log_path a E) evs = concat (map (map eval_row) outss)"
    using s(2) o(1) ep tr_i ev_i tr ev by (intro exI[of _ sts] exI[of _ outss]) blast
  show ?thesis
    using p1 p2 ex ltr lev col unfolding E_def by (intro conjI)
qed

theorem csv_logs_shared_by_folds_witness:
  "\<exists>evs. main (toy_ext train_set1 test_set1) (toy_args 1) = Inr ((Fin (- 3), Fin 1, Fin 1), evs)
     \<and> train_log_path (toy_args 1) 1 = ''out/logs/train_log_1.csv''
     \<and> length (csv_rows ''out/logs/train_log_1.csv'' evs) = 10
     \<and> length (csv_rows ''out/logs/eval_log_1.csv'' evs) = 10
     \<and> column 0 (csv_rows ''out/logs/train_log_1.csv'' evs)
        = [CInt 1, CInt 1, CInt 1, CInt 1, CInt 1, CInt 1, CInt 1, CInt 1, CInt 1, CInt 1]"
proof -
  from toy_main_1 obtain evs where
    run: "main (toy_ext train_set1 test_set1) (toy_args 1) = Inr ((Fin (- 3), Fin 1, Fin 1), evs)"
    by blast
  note T = csv_logs_shared_by_folds[OF run toy_args_unchanged[symmetric]]
  have n: "num_train_epochs (toy_args 1) = 1"
    by (simp add: toy_args_def)
  have r10: "replicate 10 x = [x, x, x, x, x, x, x, x, x, x]" for x :: "cell list"
    by (simp add: numeral_eq_Suc)
  from T have "length (csv_rows ''out/logs/train_log_1.csv'' evs) = 10"
    "length (csv_rows ''out/logs/eval_log_1.csv'' evs) = 10"
    "column 0 (csv_rows ''out/logs/train_log_1.csv'' evs)
        = [CInt 1, CInt 1, CInt 1, CInt 1, CInt 1, CInt 1, CInt 1, CInt 1, CInt 1, CInt 1]"
    unfolding n toy_paths_1 by (simp_all add: upto_rec1 r10)
  with run toy_paths_1(1) show ?thesis by blast
qed

text \<open>
  One epoch per fold: after the run the training log has 10 rows, all of epoch 1, and
  not one. The rows of the first and of the second fold go to the same file.
\<close>

theorem shared_log_counterexample:
  "num_train_epochs (toy_args 1) = 1
   \<and> train_log_path (toy_args 1) 1 = ''out/logs/train_log_1.csv''
   \<and> csv_rows ''out/logs/train_log_1.csv'' (tv_events (run_fold (toy_ext train_set1 test_set1) (toy_args 1) 0))
       = [[CInt 1, CFloat (Fin (1 / 2)), CFloat (Fin (- 3)), CFloat (Fin 1), CFloat (Fin 1)]]
   \<and> csv_rows ''out/logs/train_log_1.csv'' (tv_events (run_fold (toy_ext train_set1 test_set1) (toy_args 1) 1))
       = [[CInt 1, CFloat (Fin (1 / 2)), CFloat (Fin (- 3)), CFloat (Fin 1), CFloat (Fin 1)]]
   \<and> csv_rows ''out/logs/train_log_1.csv'' (main_events (main (toy_ext train_set1 test_set1) (toy_args 1)))
       = [[CInt 1, CFloat (Fin (1 / 2)), CFloat (Fin (- 3)), CFloat (Fin 1), CFloat (Fin 1)],
           [CInt 1, CFloat (Fin (1 / 2)), CFloat (Fin (- 3)), CFloat (Fin 1), CFloat (Fin 1)],
           [CInt 1, CFloat (Fin (1 / 2)), CFloat (Fin (- 3)), CFloat (Fin 1), CFloat (Fin 1)],
           [CInt 1, CFloat (Fin (1 / 2)), CFloat (Fin (- 3)), CFloat (Fin 1), CFloat (Fin 1)],
           [CInt 1, CFloat (Fin (1 / 2)), CFloat (Fin (- 3)), CFloat (Fin 1), CFloat (Fin 1)],
           [CInt 1, CFloat (Fin (1 / 2)), CFloat (Fin (- 3)), CFloat (Fin 1), CFloat (Fin 1)],
           [CInt 1, CFloat (Fin (1 / 2)), CFloat (Fin (- 3)), CFloat (Fin 1), CFloat (Fin 1)],
           [CInt 1, CFloat (Fin (1 / 2)), CFloat (Fin (- 3)), CFloat (Fin 1), CFloat (Fin 1)],
           [CInt 1, CFloat (Fin (1 / 2)), CFloat (Fin (- 3)), CFloat (Fin 1), CFloat (Fin 1)],
           [CInt 1, CFloat (Fin (1 / 2)), CFloat (Fin (- 3)), CFloat (Fin 1), CFloat (Fin 1)]]"
proof -
  have n: "num_train_epochs (toy_args 1) = 1"
    by (simp add: toy_args_def)
  have f0: "csv_rows ''out/logs/train_log_1.csv'' (tv_events (run_fold (toy_ext train_set1 test_set1) (toy_args 1) 0))
       = [[CInt 1, CFloat (Fin (1 / 2)), CFloat (Fin (- 3)), CFloat (Fin 1), CFloat (Fin 1)]]"
    by (simp add: tv_events_def eval_simps real_sqrt_divide)
  have f1: "csv_rows ''out/logs/train_log_1.csv'' (tv_events (run_fold (toy_ext train_set1 test_set1) (toy_args 1) 1))
       = [[CInt 1, CFloat (Fin (1 / 2)), CFloat (Fin (- 3)), CFloat (Fin 1), CFloat (Fin 1)]]"
    by (simp add: tv_events_def eval_simps real_sqrt_divide)
  from toy_main_1 have m: "csv_rows ''out/logs/train_log_1.csv'' (main_events (main (toy_ext train_set1 test_set1) (toy_args 1)))
       = [[CInt 1, CFloat (Fin (1 / 2)), CFloat (Fin (- 3)), CFloat (Fin 1), CFloat (Fin 1)],
           [CInt 1, CFloat (Fin (1 / 2)), CFloat (Fin (- 3)), CFloat (Fin 1), CFloat (Fin 1)],
           [CInt 1, CFloat (Fin (1 / 2)), CFloat (Fin (- 3)), CFloat (Fin 1), CFloat (Fin 1)],
           [CInt 1, CFloat (Fin (1 / 2)), CFloat (Fin (- 3)), CFloat (Fin 1), CFloat (Fin 1)],
           [CInt 1, CFloat (Fin (1 / 2)), CFloat (Fin (- 3)), CFloat (Fin 1), CFloat (Fin 1)],
           [CInt 1, CFloat (Fin (1 / 2)), CFloat (Fin (- 3)), CFloat (Fin 1), CFloat (Fin 1)],
           [CInt 1, CFloat (Fin (1 / 2)), CFloat (Fin (- 3)), CFloat (Fin 1), CFloat (Fin 1)],
           [CInt 1, CFloat (Fin (1 / 2)), CFloat (Fin (- 3)), CFloat (Fin 1), CFloat (Fin 1)],
           [CInt 1, CFloat (Fin (1 / 2)), CFloat (Fin (- 3)), CFloat (Fin 1), CFloat (Fin 1)],
           [CInt 1, CFloat (Fin (1 / 2)), CFloat (Fin (- 3)), CFloat (Fin 1), CFloat (Fin 1)]]"
    by (auto simp: main_events_def)
  show ?thesis
    using n toy_paths_1(1) f0 f1 m by (intro conjI)
qed

end
